theory Spec2Isabelle
  imports Main "HOL-Library.AList"
begin

section \<open>Bulk device provisioning: the model\<close>

text \<open>
  The program \<^verbatim>\<open>bulk_device_creation.py\<close> has two classes. \<^verbatim>\<open>GenerateMacID\<close>
  draws random MAC-style identifiers until it holds the requested number of distinct ones;
  \<^verbatim>\<open>DeviceHandler\<close> registers each identifier with an IoT Hub registry, collects the
  credentials of the devices it could register, writes them to a JSON file and can open a
  test connection for each of them.

  Everything outside the program (the pseudo random number generator, the registry SDK, the
  device SDK, the file system and the JSON encoder) is a parameter of the model. Exceptions
  are values of type \<open>exn\<close>; a function of the program that can raise returns
  \<open>exn + 'a\<close> with \<open>Inl\<close> for the raised exception.
\<close>

subsection \<open>GenerateMacID\<close>

text \<open>
  The random source is the infinite sequence of raw outputs of the generator together with
  the position of the next output. \<^verbatim>\<open>random.randint(a, b)\<close> consumes one output and
  returns a value between \<open>a\<close> and \<open>b\<close> inclusive; every sequence of values in range is
  produced by some source. The octets are non-negative, so they are natural numbers here.
\<close>

type_synonym random = "(nat \<Rightarrow> nat) \<times> nat"

definition randint :: "nat \<Rightarrow> nat \<Rightarrow> random \<Rightarrow> nat \<times> random" where
  "randint a b s = (a + fst s (snd s) mod (b - a + 1), (fst s, Suc (snd s)))"

text \<open>The format specification \<^verbatim>\<open>02x\<close>: lowercase hexadecimal, padded with zeros to width two.\<close>

definition hexdigit :: "nat \<Rightarrow> char" where
  "hexdigit d = ''0123456789abcdef'' ! (d mod 16)"

fun hex :: "nat \<Rightarrow> string" where
  "hex x = (if x < 16 then [hexdigit x] else hex (x div 16) @ [hexdigit (x mod 16)])"

declare hex.simps [simp del]

definition fmt_02x :: "nat \<Rightarrow> string" where
  "fmt_02x x = replicate (2 - length (hex x)) CHR ''0'' @ hex x"

text \<open>\<^verbatim>\<open>sep.join(parts)\<close>\<close>

fun join :: "string \<Rightarrow> string list \<Rightarrow> string" where
  "join sep [] = []"
| "join sep [x] = x"
| "join sep (x # y # ys) = x @ sep @ join sep (y # ys)"

definition generate_mac :: "random \<Rightarrow> string \<times> random" where
  "generate_mac s =
     (let (a, s1) = randint 0x00 0x7f s;
          (b, s2) = randint 0x00 0xff s1;
          (c, s3) = randint 0x00 0xff s2;
          mac = [0x00, 0x16, 0x3e, a, b, c]
      in (join ''-'' (map fmt_02x mac), s3))"

text \<open>
  A Python set of strings is kept as a duplicate-free list in insertion order;
  \<^verbatim>\<open>add\<close> leaves the set alone when the element is already there.
\<close>

definition set_add :: "string \<Rightarrow> string list \<Rightarrow> string list" where
  "set_add x xs = (if x \<in> set xs then xs else xs @ [x])"

text \<open>
  The \<^verbatim>\<open>while\<close> loop of \<^verbatim>\<open>generate_mac_addresses\<close>. Nothing bounds the number
  of its iterations, so it is a partial function: \<open>None\<close> means that the loop runs forever.
\<close>

partial_function (option) mac_loop :: "int \<Rightarrow> string list \<Rightarrow> random \<Rightarrow> (string list \<times> random) option" where
  "mac_loop num_of_ids mac_addresses s =
     (if int (length mac_addresses) < num_of_ids
      then mac_loop num_of_ids (set_add (fst (generate_mac s)) mac_addresses) (snd (generate_mac s))
      else Some (mac_addresses, s))"

text \<open>
  \<^verbatim>\<open>list(mac_addresses)\<close> lists the set in an order fixed by the interpreter's string
  hashing, which the language leaves open. The model takes a ranking \<open>h\<close> of strings as a
  parameter and lists the set by ascending rank.
\<close>

definition generate_mac_addresses :: "(string \<Rightarrow> nat) \<Rightarrow> int \<Rightarrow> random \<Rightarrow> (string list \<times> random) option" where
  "generate_mac_addresses h num_of_ids s =
     map_option (\<lambda>(mac_addresses, s'). (sort_key h mac_addresses, s')) (mac_loop num_of_ids [] s)"

declare mac_loop.simps [code]

subsection \<open>DeviceHandler\<close>

text \<open>
  Exceptions, the values stored in a credential dictionary, the device objects of the
  registry SDK and the calls issued to the collaborators.
\<close>

datatype exn = AttributeError string | KeyError string | IndexError string | Error string

definition quote :: "string \<Rightarrow> string" where
  "quote s = [CHR 0x27] @ s @ [CHR 0x27]"

text \<open>
  \<^verbatim>\<open>repr\<close> of a string whose characters are code points below 256: the string is put
  between apostrophes, or between double quotes when it holds an apostrophe and no double
  quote; the backslash and the chosen quote are escaped by a backslash, tab, newline and
  carriage return are written \<^verbatim>\<open>\t\<close>, \<^verbatim>\<open>\n\<close>, \<^verbatim>\<open>\r\<close>, and every other character that
  is not printable is written \<^verbatim>\<open>\x\<close> followed by two hexadecimal digits.
\<close>

definition repr_char :: "char \<Rightarrow> char \<Rightarrow> string" where
  "repr_char q c =
     (if c = q \<or> c = CHR 0x5C then [CHR 0x5C, c]
      else if c = CHR 0x09 then [CHR 0x5C, CHR ''t'']
      else if c = CHR 0x0A then [CHR 0x5C, CHR ''n'']
      else if c = CHR 0x0D then [CHR 0x5C, CHR ''r'']
      else if (of_char c :: nat) < 32 \<or> (of_char c :: nat) = 127 \<or>
              (128 \<le> (of_char c :: nat) \<and> (of_char c :: nat) \<le> 160) \<or> (of_char c :: nat) = 173
      then [CHR 0x5C, CHR ''x''] @ fmt_02x (of_char c)
      else [c])"

definition py_repr :: "string \<Rightarrow> string" where
  "py_repr s =
     (let q = (if CHR 0x27 \<in> set s \<and> CHR 0x22 \<notin> set s then CHR 0x22 else CHR 0x27)
      in [q] @ concat (map (repr_char q) s) @ [q])"

text \<open>
  \<^verbatim>\<open>str(e)\<close>: the message of the exception; for a \<^verbatim>\<open>KeyError\<close>, which holds the missing
  key, the \<^verbatim>\<open>repr\<close> of the key.
\<close>

fun exn_str :: "exn \<Rightarrow> string" where
  "exn_str (AttributeError m) = m"
| "exn_str (KeyError k) = py_repr k"
| "exn_str (IndexError m) = m"
| "exn_str (Error m) = m"

text \<open>
  \<open>exn\<close> stands for the instances of Python's \<^verbatim>\<open>Exception\<close>, the class that every
  \<^verbatim>\<open>except Exception\<close> clause of the program catches; \<open>exn_str\<close> is \<^verbatim>\<open>str(e)\<close>, as the
  log messages interpolate it. A value held by a credential dictionary is a string or
  \<^verbatim>\<open>None\<close>; \<open>pystr\<close> is its rendering inside an f-string.
\<close>

datatype pyval = Str string | NoneVal

fun pystr :: "pyval \<Rightarrow> string" where
  "pystr (Str s) = s"
| "pystr NoneVal = ''None''"

text \<open>
  Dictionaries keep insertion order: they are association lists with distinct keys,
  \<open>{}\<close> is \<open>[]\<close>, and an assignment \<^verbatim>\<open>d[k] = v\<close> is \<open>AList.update k v d\<close>.
\<close>

type_synonym pydict = "(string \<times> pyval) list"
type_synonym store = "(string \<times> pydict) list"

text \<open>
  The device object returned by the registry SDK; the program reads
  \<^verbatim>\<open>device_info.authentication.symmetric_key.primary_key\<close>, and an attribute that is
  \<^verbatim>\<open>None\<close> on the way makes the next access raise.
\<close>

datatype symmetric_key = SymmetricKey (primary_key: pyval) (secondary_key: pyval)
datatype authentication_mechanism = AuthenticationMechanism (symmetric_key: "symmetric_key option")
datatype device = Device (dev_id: string) (authentication: "authentication_mechanism option") (status: string)

datatype level = INFO | ERROR

text \<open>Calls made to the collaborators, recorded in the order in which they are issued.\<close>

datatype call =
    FromConnectionString string
  | GetDevice string
  | CreateDeviceWithSas string pyval pyval string
  | CreateFromConnectionString string
  | Connect string
  | Disconnect string
  | OpenW string

text \<open>
  What \<^verbatim>\<open>with open(path, "w") as f: json.dump(credentials, f, indent=4)\<close> can meet:
  the file is written in full, \<^verbatim>\<open>open\<close> raises and the file stays as it was, or the
  file is truncated by \<^verbatim>\<open>open\<close> and the dump raises after some characters.
\<close>

datatype write_outcome = WriteOk | OpenFails exn | DumpFails nat exn

text \<open>
  The collaborators, over a state \<open>'e\<close> of the outside world: the registry manager
  (\<open>from_connection_string\<close>, \<open>get_device\<close>, \<open>create_device_with_sas\<close>, with the connection
  string of the manager as first argument of the last two), the device client
  (\<open>create_from_connection_string\<close>, \<open>connect\<close>, \<open>disconnect\<close>, the client standing for its
  connection string), the disk and the JSON encoder. Each call may raise and may change
  the outside world.
\<close>

record 'e api =
  from_connection_string :: "string \<Rightarrow> 'e \<Rightarrow> (exn + unit) \<times> 'e"
  get_device :: "string \<Rightarrow> string \<Rightarrow> 'e \<Rightarrow> (exn + device) \<times> 'e"
  create_device_with_sas :: "string \<Rightarrow> string \<Rightarrow> pyval \<Rightarrow> pyval \<Rightarrow> string \<Rightarrow> 'e \<Rightarrow> (exn + device) \<times> 'e"
  create_from_connection_string :: "string \<Rightarrow> 'e \<Rightarrow> (exn + unit) \<times> 'e"
  connect :: "string \<Rightarrow> 'e \<Rightarrow> (exn + unit) \<times> 'e"
  disconnect :: "string \<Rightarrow> 'e \<Rightarrow> (exn + unit) \<times> 'e"
  file_write :: "string \<Rightarrow> string \<Rightarrow> 'e \<Rightarrow> write_outcome \<times> 'e"
  json_dumps :: "store \<Rightarrow> string"

text \<open>
  The state threaded through the program: the outside world, the calls issued, the lines
  logged and the contents of the files.
\<close>

record 'e world =
  env :: 'e
  calls :: "call list"
  log :: "(level \<times> string) list"
  files :: "string \<Rightarrow> string option"

text \<open>
  The fields of a \<^verbatim>\<open>DeviceHandler\<close>. \<open>device_client\<close> is \<^verbatim>\<open>None\<close> until
  \<^verbatim>\<open>connect_hub\<close> has built the registry manager.
\<close>

record DeviceHandler =
  hostname :: string
  shared_access_key_name :: string
  shared_access_key :: string
  device_client :: "string option"

text \<open>
  A statement of the program either raises or returns a value, and changes the state.
  \<open>bind\<close> sequences two statements, \<open>try_except\<close> is \<^verbatim>\<open>try: ... except Exception as e: ...\<close>.
\<close>

type_synonym ('e, 'a) action = "'e world \<Rightarrow> (exn + 'a) \<times> 'e world"

definition return :: "'a \<Rightarrow> ('e, 'a) action" where
  "return x w = (Inr x, w)"

definition raise :: "exn \<Rightarrow> ('e, 'a) action" where
  "raise e w = (Inl e, w)"

definition bind :: "('e, 'a) action \<Rightarrow> ('a \<Rightarrow> ('e, 'b) action) \<Rightarrow> ('e, 'b) action" where
  "bind m f w = (case m w of (Inl e, w') \<Rightarrow> (Inl e, w') | (Inr x, w') \<Rightarrow> f x w')"

definition try_except :: "('e, 'a) action \<Rightarrow> (exn \<Rightarrow> ('e, 'a) action) \<Rightarrow> ('e, 'a) action" where
  "try_except body handler w = (case body w of (Inl e, w') \<Rightarrow> handler e w' | (Inr x, w') \<Rightarrow> (Inr x, w'))"

definition lift :: "exn + 'a \<Rightarrow> ('e, 'a) action" where
  "lift r w = (r, w)"

text \<open>Logging appends a line and does not raise.\<close>

definition logger_info :: "string \<Rightarrow> ('e, unit) action" where
  "logger_info msg w = (Inr (), w\<lparr>log := log w @ [(INFO, msg)]\<rparr>)"

definition logger_error :: "string \<Rightarrow> ('e, unit) action" where
  "logger_error msg w = (Inr (), w\<lparr>log := log w @ [(ERROR, msg)]\<rparr>)"

definition call_env :: "call \<Rightarrow> ('e \<Rightarrow> (exn + 'a) \<times> 'e) \<Rightarrow> ('e, 'a) action" where
  "call_env c f w = (case f (env w) of (r, e') \<Rightarrow> (r, w\<lparr>env := e', calls := calls w @ [c]\<rparr>))"

text \<open>\<^verbatim>\<open>d[k]\<close> raises \<^verbatim>\<open>KeyError\<close> for a missing key.\<close>

definition dict_get :: "pydict \<Rightarrow> string \<Rightarrow> exn + pyval" where
  "dict_get d k = (case map_of d k of None \<Rightarrow> Inl (KeyError k) | Some v \<Rightarrow> Inr v)"

definition get_primary_key :: "device \<Rightarrow> exn + pyval" where
  "get_primary_key device_info =
     (case authentication device_info of
        None \<Rightarrow> Inl (AttributeError (quote ''NoneType'' @ '' object has no attribute '' @ quote ''symmetric_key''))
      | Some a \<Rightarrow>
          (case symmetric_key a of
             None \<Rightarrow> Inl (AttributeError (quote ''NoneType'' @ '' object has no attribute '' @ quote ''primary_key''))
           | Some k \<Rightarrow> Inr (primary_key k)))"

text \<open>
  Method calls on \<^verbatim>\<open>self.device_client\<close>: an \<^verbatim>\<open>AttributeError\<close> while it is still
  \<^verbatim>\<open>None\<close>, the SDK call otherwise.
\<close>

definition client_get_device :: "'e api \<Rightarrow> DeviceHandler \<Rightarrow> string \<Rightarrow> ('e, device) action" where
  "client_get_device a self device_id =
     (case device_client self of
        None \<Rightarrow> raise (AttributeError (quote ''NoneType'' @ '' object has no attribute '' @ quote ''get_device''))
      | Some cs \<Rightarrow> call_env (GetDevice device_id) (get_device a cs device_id))"

definition client_create_device_with_sas ::
  "'e api \<Rightarrow> DeviceHandler \<Rightarrow> string \<Rightarrow> pyval \<Rightarrow> pyval \<Rightarrow> string \<Rightarrow> ('e, device) action" where
  "client_create_device_with_sas a self device_id pk sk st =
     (case device_client self of
        None \<Rightarrow> raise (AttributeError (quote ''NoneType'' @ '' object has no attribute '' @ quote ''create_device_with_sas''))
      | Some cs \<Rightarrow> call_env (CreateDeviceWithSas device_id pk sk st)
                   (create_device_with_sas a cs device_id pk sk st))"

text \<open>
  \<^verbatim>\<open>connect_hub\<close> (lines 62 to 78). The Python method returns nothing and assigns
  \<^verbatim>\<open>self.device_client\<close>; the model returns the handler after the call.
\<close>

definition connect_hub :: "'e api \<Rightarrow> DeviceHandler \<Rightarrow> ('e, DeviceHandler) action" where
  "connect_hub a self =
     try_except
       (let device_connection_string =
              ''HostName='' @ hostname self @ '';'' @
              ''SharedAccessKeyName='' @ shared_access_key_name self @ '';'' @
              ''SharedAccessKey='' @ shared_access_key self
        in bind (call_env (FromConnectionString device_connection_string)
                   (from_connection_string a device_connection_string)) (\<lambda>_.
           bind (logger_info ''Connection established for IoTHub Registry.'') (\<lambda>_.
           return (self\<lparr>device_client := Some device_connection_string\<rparr>))))
       (\<lambda>e. bind (logger_error (''Failed to connect with IoTHub Registry: '' @ exn_str e)) (\<lambda>_.
            return self))"

text \<open>
  \<^verbatim>\<open>create_device\<close> (lines 80 to 123) is two \<^verbatim>\<open>try\<close> blocks in sequence. The first
  (\<open>ensure_device\<close>, lines 87 to 106) looks the device up and creates it when the lookup
  raises; it yields \<open>Some {}\<close> when the method returns from inside the block and \<open>None\<close>
  when control falls through. The second (\<open>retrieve_credentials\<close>, lines 109 to 123) fetches
  the device again and builds the credential dictionary.
\<close>

definition ensure_device :: "'e api \<Rightarrow> DeviceHandler \<Rightarrow> string \<Rightarrow> ('e, pydict option) action" where
  "ensure_device a self device_id =
     try_except
       (bind (client_get_device a self device_id) (\<lambda>device.
        bind (logger_info (''Device '' @ quote device_id @ '' already exists.'')) (\<lambda>_.
        return None)))
       (\<lambda>_.
        bind (logger_info (''Creating device '' @ quote device_id @ ''...'')) (\<lambda>_.
        try_except
          (bind (client_create_device_with_sas a self device_id NoneVal NoneVal ''enabled'') (\<lambda>device.
           bind (logger_info (''Device '' @ quote device_id @ '' created successfully.'')) (\<lambda>_.
           return None)))
          (\<lambda>e.
           bind (logger_error (''Error creating device '' @ quote device_id @ '': '' @ exn_str e)) (\<lambda>_.
           return (Some [])))))"

definition retrieve_credentials :: "'e api \<Rightarrow> DeviceHandler \<Rightarrow> string \<Rightarrow> ('e, pydict) action" where
  "retrieve_credentials a self device_id =
     try_except
       (bind (client_get_device a self device_id) (\<lambda>device_info.
        bind (lift (get_primary_key device_info)) (\<lambda>primary_key.
        return [(''hostname'', Str (hostname self)),
                (''device_id'', Str device_id),
                (''shared_access_key'', primary_key)])))
       (\<lambda>e.
        bind (logger_error (''Error retrieving credentials for device '' @ quote device_id @ '': '' @ exn_str e)) (\<lambda>_.
        return []))"

definition create_device :: "'e api \<Rightarrow> DeviceHandler \<Rightarrow> string \<Rightarrow> ('e, pydict) action" where
  "create_device a self device_id =
     bind (ensure_device a self device_id) (\<lambda>returned.
       case returned of
         Some v \<Rightarrow> return v
       | None \<Rightarrow> retrieve_credentials a self device_id)"

text \<open>\<^verbatim>\<open>create_device_credentials_file\<close> (lines 148 to 163).\<close>

definition write_file :: "'e api \<Rightarrow> string \<Rightarrow> string \<Rightarrow> ('e, unit) action" where
  "write_file a path data w =
     (case file_write a path data (env w) of
        (outcome, e') \<Rightarrow>
          (let w' = w\<lparr>env := e', calls := calls w @ [OpenW path]\<rparr> in
           case outcome of
             OpenFails e \<Rightarrow> (Inl e, w')
           | DumpFails k e \<Rightarrow> (Inl e, w'\<lparr>files := (files w')(path \<mapsto> take k data)\<rparr>)
           | WriteOk \<Rightarrow> (Inr (), w'\<lparr>files := (files w')(path \<mapsto> data)\<rparr>)))"

definition create_device_credentials_file :: "'e api \<Rightarrow> store \<Rightarrow> ('e, unit) action" where
  "create_device_credentials_file a credentials =
     try_except
       (let file_path = ''iothub_device_credential.json'' in
        bind (write_file a file_path (json_dumps a credentials)) (\<lambda>_.
        logger_info (''Device credentials stored in '' @ file_path)))
       (\<lambda>e. logger_error (''Failed to create credentials file: '' @ exn_str e))"

text \<open>
  \<^verbatim>\<open>asyncio.gather\<close> over coroutines that never await: \<^verbatim>\<open>create_device\<close> contains no
  \<^verbatim>\<open>await\<close>, so the event loop runs the tasks one after the other in the order of the
  list, each to its end, and \<^verbatim>\<open>gather\<close> then returns the results in that order or raises
  the first exception.
\<close>

fun run_tasks :: "('e, 'a) action list \<Rightarrow> 'e world \<Rightarrow> (exn + 'a) list \<times> 'e world" where
  "run_tasks [] w = ([], w)"
| "run_tasks (t # ts) w =
     (case t w of (r, w') \<Rightarrow> (case run_tasks ts w' of (rs, w'') \<Rightarrow> (r # rs, w'')))"

fun first_exception :: "(exn + 'a) list \<Rightarrow> exn + 'a list" where
  "first_exception [] = Inr []"
| "first_exception (Inl e # rs) = Inl e"
| "first_exception (Inr x # rs) = (case first_exception rs of Inl e \<Rightarrow> Inl e | Inr xs \<Rightarrow> Inr (x # xs))"

definition gather :: "('e, 'a) action list \<Rightarrow> ('e, 'a list) action" where
  "gather tasks w = (case run_tasks tasks w of (rs, w') \<Rightarrow> (first_exception rs, w'))"

text \<open>
  \<^verbatim>\<open>create_devices_from_list\<close> (lines 125 to 146). \<open>update_credentials\<close> is the loop over
  \<^verbatim>\<open>enumerate(credentials_list)\<close>; \<^verbatim>\<open>device_ids[i]\<close> raises out of range.
\<close>

fun update_credentials :: "string list \<Rightarrow> (nat \<times> pydict) list \<Rightarrow> store \<Rightarrow> exn + store" where
  "update_credentials device_ids [] all_credentials = Inr all_credentials"
| "update_credentials device_ids ((i, credentials) # rest) all_credentials =
     (if credentials \<noteq> []
      then (if i < length device_ids
            then update_credentials device_ids rest
                   (AList.update (device_ids ! i) credentials all_credentials)
            else Inl (IndexError ''list index out of range''))
      else update_credentials device_ids rest all_credentials)"

definition create_devices_from_list :: "'e api \<Rightarrow> DeviceHandler \<Rightarrow> string list \<Rightarrow> ('e, store) action" where
  "create_devices_from_list a self device_ids =
     (let tasks = map (create_device a self) device_ids in
      bind (gather tasks) (\<lambda>credentials_list.
      bind (lift (update_credentials device_ids (enumerate 0 credentials_list) [])) (\<lambda>all_credentials.
      bind (create_device_credentials_file a all_credentials) (\<lambda>_.
      return all_credentials))))"

text \<open>
  \<^verbatim>\<open>connect_device\<close> (lines 165 to 185). The connection string is built before the
  \<^verbatim>\<open>try\<close> block (lines 171 to 175), the three lookups in the order of the f-string.
\<close>

definition connection_string_for :: "pydict \<Rightarrow> exn + string" where
  "connection_string_for device_credential =
     (case dict_get device_credential ''hostname'' of
        Inl e \<Rightarrow> Inl e
      | Inr h \<Rightarrow>
          (case dict_get device_credential ''device_id'' of
             Inl e \<Rightarrow> Inl e
           | Inr d \<Rightarrow>
               (case dict_get device_credential ''shared_access_key'' of
                  Inl e \<Rightarrow> Inl e
                | Inr k \<Rightarrow>
                    Inr (''HostName='' @ pystr h @ '';'' @
                         ''DeviceId='' @ pystr d @ '';'' @
                         ''SharedAccessKey='' @ pystr k))))"

definition connect_device :: "'e api \<Rightarrow> pydict \<Rightarrow> ('e, unit) action" where
  "connect_device a device_credential =
     bind (lift (connection_string_for device_credential)) (\<lambda>connection_string.
     try_except
       (bind (call_env (CreateFromConnectionString connection_string)
                (create_from_connection_string a connection_string)) (\<lambda>device_client.
        bind (call_env (Connect connection_string) (connect a connection_string)) (\<lambda>_.
        bind (lift (dict_get device_credential ''device_id'')) (\<lambda>d.
        bind (logger_info (''Device '' @ pystr d @ '' connected successfully.'')) (\<lambda>_.
        call_env (Disconnect connection_string) (disconnect a connection_string))))))
       (\<lambda>e.
        bind (lift (dict_get device_credential ''device_id'')) (\<lambda>d.
        logger_error (''Failed to connect device '' @ pystr d @ '': '' @ exn_str e))))"

subsection \<open>A simulated environment\<close>

text \<open>
  A small registry, device network and disk, used to run the model on concrete inputs:
  the registry keeps the devices it created, refuses to create the identifiers listed in
  \<open>sim_refused\<close> and reports a device that is not there as an error; the disk answers the
  coming writes with the outcomes listed in \<open>sim_disk\<close>; the device client rejects the
  connection strings in \<open>sim_invalid\<close>, cannot connect those in \<open>sim_offline\<close> and fails to
  disconnect those in \<open>sim_hangup\<close>.
\<close>

record sim =
  sim_devices :: "(string \<times> device) list"
  sim_refused :: "string list"
  sim_disk :: "write_outcome list"
  sim_offline :: "string list"
  sim_login_refused :: bool
  sim_invalid :: "string list"
  sim_hangup :: "string list"

definition sim_json :: "store \<Rightarrow> string" where
  "sim_json st =
     concat (map (\<lambda>(k, d). k @ '':{'' @ concat (map (\<lambda>(f, v). f @ ''='' @ pystr v @ '';'') d) @ ''}'') st)"

definition sim_new_device :: "string \<Rightarrow> string \<Rightarrow> device" where
  "sim_new_device device_id st =
     Device device_id
       (Some (AuthenticationMechanism (Some (SymmetricKey (Str (''key-'' @ device_id)) (Str (''alt-'' @ device_id))))))
       st"

definition sim_api :: "sim api" where
  "sim_api =
     \<lparr> from_connection_string = (\<lambda>cs e.
         (if sim_login_refused e then Inl (Error ''Unauthorized'') else Inr (), e)),
       get_device = (\<lambda>cs device_id e.
         (case map_of (sim_devices e) device_id of
            None \<Rightarrow> Inl (Error ''DeviceNotFound'')
          | Some d \<Rightarrow> Inr d, e)),
       create_device_with_sas = (\<lambda>cs device_id pk sk st e.
         if device_id \<in> set (sim_refused e) then (Inl (Error ''Refused''), e)
         else (case map_of (sim_devices e) device_id of
                 Some d \<Rightarrow> (Inl (Error ''DeviceAlreadyExists''), e)
               | None \<Rightarrow> (Inr (sim_new_device device_id st),
                           e\<lparr>sim_devices := sim_devices e @ [(device_id, sim_new_device device_id st)]\<rparr>))),
       create_from_connection_string = (\<lambda>cs e.
         (if cs \<in> set (sim_invalid e) then Inl (Error ''InvalidConnectionString'') else Inr (), e)),
       connect = (\<lambda>cs e. (if cs \<in> set (sim_offline e) then Inl (Error ''ConnectionFailed'') else Inr (), e)),
       disconnect = (\<lambda>cs e.
         (if cs \<in> set (sim_hangup e) then Inl (Error ''ConnectionDropped'') else Inr (), e)),
       file_write = (\<lambda>path data e.
         (case sim_disk e of [] \<Rightarrow> (WriteOk, e) | out # rest \<Rightarrow> (out, e\<lparr>sim_disk := rest\<rparr>))),
       json_dumps = sim_json \<rparr>"

definition sim_world :: "(string \<times> device) list \<Rightarrow> string list \<Rightarrow> write_outcome list \<Rightarrow> sim world" where
  "sim_world ds rs outs =
     \<lparr> env = \<lparr> sim_devices = ds, sim_refused = rs, sim_disk = outs, sim_offline = [],
               sim_login_refused = False, sim_invalid = [], sim_hangup = [] \<rparr>,
       calls = [], log = [], files = Map.empty \<rparr>"

text \<open>
  Worlds for the device network: the connection strings that the device client rejects,
  those that cannot be connected, and those whose connection drops at disconnect.
\<close>

definition sim_network :: "string list \<Rightarrow> string list \<Rightarrow> string list \<Rightarrow> sim world" where
  "sim_network invalid offline hangup =
     \<lparr> env = \<lparr> sim_devices = [], sim_refused = [], sim_disk = [], sim_offline = offline,
               sim_login_refused = False, sim_invalid = invalid, sim_hangup = hangup \<rparr>,
       calls = [], log = [], files = Map.empty \<rparr>"

text \<open>A world in which every collaborator fails: login, connections and the disk.\<close>

definition sim_world_down :: "sim world" where
  "sim_world_down =
     \<lparr> env = \<lparr> sim_devices = [], sim_refused = [],
               sim_disk = [OpenFails (Error ''PermissionDenied'')],
               sim_offline = [''HostName=hub.example.net;DeviceId=a;SharedAccessKey=key-a''],
               sim_login_refused = True, sim_invalid = [], sim_hangup = [] \<rparr>,
       calls = [], log = [], files = Map.empty \<rparr>"

definition sim_handler :: DeviceHandler where
  "sim_handler =
     \<lparr> hostname = ''hub.example.net'', shared_access_key_name = ''owner'',
       shared_access_key = ''c2VjcmV0'', device_client = Some ''HostName=hub.example.net;SharedAccessKeyName=owner;SharedAccessKey=c2VjcmV0'' \<rparr>"

subsection \<open>Notions used in the statements\<close>

text \<open>
  A registry persists state when a device that has been read stays as it was read;
  a credential is a dictionary with the three keys that \<^verbatim>\<open>create_device\<close> writes.
\<close>

definition persists_state :: "'e api \<Rightarrow> bool" where
  "persists_state a =
     (\<forall>cs device_id e d e'. get_device a cs device_id e = (Inr d, e') \<longrightarrow>
        get_device a cs device_id e' = (Inr d, e'))"

definition is_credential :: "pydict \<Rightarrow> bool" where
  "is_credential c =
     (map_of c ''hostname'' \<noteq> None \<and> map_of c ''device_id'' \<noteq> None \<and>
      map_of c ''shared_access_key'' \<noteq> None)"

definition credential :: "DeviceHandler \<Rightarrow> string \<Rightarrow> pyval \<Rightarrow> pydict" where
  "credential self device_id k =
     [(''hostname'', Str (hostname self)), (''device_id'', Str device_id), (''shared_access_key'', k)]"

definition nonempty :: "string \<times> pydict \<Rightarrow> bool" where
  "nonempty p = (snd p \<noteq> [])"

text \<open>
  A random source that runs through all triples of octets over and over.
\<close>

definition enum_draw :: "nat \<Rightarrow> nat" where
  "enum_draw i =
     (if i mod 3 = 0 then i div 3
      else if i mod 3 = 1 then (i div 3) div 128
      else (i div 3) div 32768)"

definition enum_source :: random where
  "enum_source = (enum_draw, 0)"

text \<open>The same outputs, delivered by a source that has already been read five times.\<close>

definition shifted_source :: random where
  "shifted_source = (\<lambda>i. enum_draw (i - 5), 5)"

text \<open>A ranking of strings by their last character.\<close>

definition last_char_rank :: "string \<Rightarrow> nat" where
  "last_char_rank m = (case rev m of [] \<Rightarrow> 0 | c # cs \<Rightarrow> of_char c)"


text \<open>
  The identifiers built from three octets in range, the format of an identifier, the
  identifiers that some random source can produce, fairness of a random source (every
  identifier that can be produced keeps being produced), and two sources that deliver the
  same outputs from their positions on. \<open>mac_loop_post\<close> and \<open>same_loop\<close> are the
  invariants of the loop used in the proofs.
\<close>


definition mac_of :: "nat \<Rightarrow> nat \<Rightarrow> nat \<Rightarrow> string" where
  "mac_of a b c = ''00-16-3e-'' @ fmt_02x a @ ''-'' @ fmt_02x b @ ''-'' @ fmt_02x c"

definition is_hex_lower :: "char \<Rightarrow> bool" where
  "is_hex_lower c = (c \<in> set ''0123456789abcdef'')"

definition mac_format :: "string \<Rightarrow> bool" where
  "mac_format m =
     (length m = 17 \<and> take 9 m = ''00-16-3e-'' \<and> m ! 11 = CHR ''-'' \<and> m ! 14 = CHR ''-'' \<and>
      list_all is_hex_lower (map (nth m) [9, 10, 12, 13, 15, 16]) \<and>
      m ! 9 \<in> set ''01234567'')"

definition next_state :: "random \<Rightarrow> random" where
  "next_state s = snd (generate_mac s)"

definition reachable_macs :: "string set" where
  "reachable_macs = range (\<lambda>s. fst (generate_mac s))"

definition fair :: "random \<Rightarrow> bool" where
  "fair s = (\<forall>m \<in> reachable_macs. \<forall>i. \<exists>j \<ge> i. fst (generate_mac ((next_state ^^ j) s)) = m)"

definition same_draws :: "random \<Rightarrow> random \<Rightarrow> bool" where
  "same_draws s t = (\<forall>i. fst s (snd s + i) = fst t (snd t + i))"


definition mac_loop_post :: "int \<Rightarrow> string list \<Rightarrow> random \<Rightarrow> string list \<times> random \<Rightarrow> bool" where
  "mac_loop_post n S s r =
     (distinct S \<longrightarrow> set S \<subseteq> reachable_macs \<longrightarrow>
         (distinct (fst r) \<and> set (fst r) \<subseteq> reachable_macs \<and> \<not> int (length (fst r)) < n \<and>
          (int (length S) \<le> n \<longrightarrow> int (length (fst r)) = n) \<and>
          (\<not> int (length S) < n \<longrightarrow> r = (S, s))))"


definition same_loop :: "int \<Rightarrow> string list \<Rightarrow> random \<Rightarrow> string list \<times> random \<Rightarrow> bool" where
  "same_loop n S s r =
     (\<forall>t. same_draws s t \<longrightarrow>
        (\<exists>r'. mac_loop n S t = Some r' \<and> fst r' = fst r \<and> same_draws (snd r) (snd r')))"


section \<open>Identifier generation: lemmas\<close>

lemma hexdigit_less16: "d < 16 \<Longrightarrow> hexdigit d = ''0123456789abcdef'' ! d"
  by (simp add: hexdigit_def)

lemma hexdigit_inj: "d < 16 \<Longrightarrow> e < 16 \<Longrightarrow> hexdigit d = hexdigit e \<Longrightarrow> d = e"
proof -
  assume d: "d < 16" and e: "e < 16" and eq: "hexdigit d = hexdigit e"
  have dist: "distinct ''0123456789abcdef''" by simp
  have len: "length ''0123456789abcdef'' = 16" by simp
  from eq d e have "''0123456789abcdef'' ! d = ''0123456789abcdef'' ! e"
    by (simp only: hexdigit_less16)
  with dist d e len show "d = e"
    by (metis nth_eq_iff_index_eq)
qed

lemma hexdigit_is_hex: "is_hex_lower (hexdigit d)"
proof -
  have "d mod 16 < length ''0123456789abcdef''" by simp
  then have "''0123456789abcdef'' ! (d mod 16) \<in> set ''0123456789abcdef''"
    by (rule nth_mem)
  then show ?thesis by (simp only: is_hex_lower_def hexdigit_def)
qed

lemma fmt_02x_byte: "x < 256 \<Longrightarrow> fmt_02x x = [hexdigit (x div 16), hexdigit (x mod 16)]"
proof -
  assume x: "x < 256"
  show ?thesis
  proof (cases "x < 16")
    case True
    then show ?thesis by (simp add: fmt_02x_def hex.simps hexdigit_def)
  next
    case False
    with x have "x div 16 < 16" by simp
    with False show ?thesis
      by (simp add: fmt_02x_def hex.simps [of x] hex.simps [of "x div 16"])
  qed
qed

lemma mac_of_inj:
  assumes "a < 128" "b < 256" "c < 256" "a' < 128" "b' < 256" "c' < 256"
    and "mac_of a b c = mac_of a' b' c'"
  shows "a = a' \<and> b = b' \<and> c = c'"
proof -
  have lt: "a div 16 < 16" "b div 16 < 16" "c div 16 < 16" "a' div 16 < 16" "b' div 16 < 16" "c' div 16 < 16"
    using assms by simp_all
  have m: "a mod 16 < 16" "b mod 16 < 16" "c mod 16 < 16" "a' mod 16 < 16" "b' mod 16 < 16" "c' mod 16 < 16"
    by simp_all
  from assms have eqs:
    "hexdigit (a div 16) = hexdigit (a' div 16)" "hexdigit (a mod 16) = hexdigit (a' mod 16)"
    "hexdigit (b div 16) = hexdigit (b' div 16)" "hexdigit (b mod 16) = hexdigit (b' mod 16)"
    "hexdigit (c div 16) = hexdigit (c' div 16)" "hexdigit (c mod 16) = hexdigit (c' mod 16)"
    by (simp_all add: mac_of_def fmt_02x_byte)
  have "a div 16 = a' div 16" "a mod 16 = a' mod 16"
    "b div 16 = b' div 16" "b mod 16 = b' mod 16"
    "c div 16 = c' div 16" "c mod 16 = c' mod 16"
    using eqs lt m by (blast intro: hexdigit_inj)+
  then show ?thesis
    by (metis div_mult_mod_eq)
qed

lemma fmt_02x_prefix: "fmt_02x 0 = ''00''" "fmt_02x 0x16 = ''16''" "fmt_02x 0x3e = ''3e''"
  by (simp_all add: fmt_02x_def hex.simps hexdigit_def)

lemma generate_mac_eq:
  "generate_mac s =
     (mac_of (fst s (snd s) mod 128) (fst s (snd s + 1) mod 256) (fst s (snd s + 2) mod 256),
      (fst s, snd s + 3))"
  by (simp add: generate_mac_def randint_def mac_of_def fmt_02x_prefix)

lemma mac_of_format:
  assumes "a < 128" "b < 256" "c < 256"
  shows "mac_format (mac_of a b c)"
proof -
  from assms(1) have "a div 16 < 8" by simp
  then have "a div 16 \<in> {0, 1, 2, 3, 4, 5, 6, 7}" by auto
  then have hi: "hexdigit (a div 16) \<in> set ''01234567''"
    by (auto simp: hexdigit_def)
  from assms show ?thesis
    using hi by (simp add: mac_format_def mac_of_def fmt_02x_byte hexdigit_is_hex)
qed

lemma reachable_macs_eq:
  "reachable_macs = (\<lambda>(a, b, c). mac_of a b c) ` ({..<128} \<times> {..<256} \<times> {..<256})"
proof
  show "reachable_macs \<subseteq> (\<lambda>(a, b, c). mac_of a b c) ` ({..<128} \<times> {..<256} \<times> {..<256})"
  proof
    fix m assume "m \<in> reachable_macs"
    then obtain s where "m = fst (generate_mac s)"
      by (auto simp: reachable_macs_def)
    then have "m = (\<lambda>(a, b, c). mac_of a b c)
        (fst s (snd s) mod 128, fst s (snd s + 1) mod 256, fst s (snd s + 2) mod 256)"
      by (simp add: generate_mac_eq)
    moreover have "(fst s (snd s) mod 128, fst s (snd s + 1) mod 256, fst s (snd s + 2) mod 256)
        \<in> {..<128} \<times> {..<256} \<times> {..<256}"
      by simp
    ultimately show "m \<in> (\<lambda>(a, b, c). mac_of a b c) ` ({..<128} \<times> {..<256} \<times> {..<256})"
      by (rule image_eqI)
  qed
next
  show "(\<lambda>(a, b, c). mac_of a b c) ` ({..<128} \<times> {..<256} \<times> {..<256}) \<subseteq> reachable_macs"
  proof
    fix m assume "m \<in> (\<lambda>(a, b, c). mac_of a b c) ` ({..<128} \<times> {..<256} \<times> {..<256})"
    then obtain a b c where abc: "a < 128" "b < 256" "c < 256" and m: "m = mac_of a b c"
      by auto
    define g where "g = (\<lambda>i::nat. if i = 0 then a else if i = 1 then b else c)"
    have "fst (generate_mac (g, 0)) = m"
      using abc by (simp add: generate_mac_eq g_def m)
    then show "m \<in> reachable_macs"
      unfolding reachable_macs_def by (metis rangeI)
  qed
qed

lemma card_reachable_macs: "card reachable_macs = 2 ^ 23"
proof -
  have inj: "inj_on (\<lambda>(a, b, c). mac_of a b c) ({..<128} \<times> {..<256} \<times> {..<256})"
    by (rule inj_onI) (auto dest: mac_of_inj)
  have "card reachable_macs = card ({..<128::nat} \<times> {..<256::nat} \<times> {..<256::nat})"
    unfolding reachable_macs_eq using inj by (rule card_image)
  also have "\<dots> = 2 ^ 23" by (simp add: card_cartesian_product)
  finally show ?thesis .
qed

lemma finite_reachable_macs: "finite reachable_macs"
  unfolding reachable_macs_eq by simp

lemma generate_mac_reachable: "fst (generate_mac s) \<in> reachable_macs"
  by (simp add: reachable_macs_def)

lemma reachable_mac_format: "m \<in> reachable_macs \<Longrightarrow> mac_format m"
  by (auto simp: reachable_macs_eq mac_of_format)

lemma next_state_eq: "next_state s = (fst s, snd s + 3)"
  by (simp add: next_state_def generate_mac_eq)

lemma fair_next_state: "fair s \<Longrightarrow> fair (next_state s)"
  unfolding fair_def
proof (intro ballI allI)
  fix m i
  assume f: "\<forall>m\<in>reachable_macs. \<forall>i. \<exists>j\<ge>i. fst (generate_mac ((next_state ^^ j) s)) = m"
    and m: "m \<in> reachable_macs"
  from f m obtain j where j: "j \<ge> Suc i" "fst (generate_mac ((next_state ^^ j) s)) = m"
    by blast
  then obtain k where k: "j = Suc k" by (cases j) auto
  with j have "k \<ge> i" "fst (generate_mac ((next_state ^^ k) (next_state s))) = m"
    by (simp_all add: funpow_swap1)
  then show "\<exists>j\<ge>i. fst (generate_mac ((next_state ^^ j) (next_state s))) = m"
    by blast
qed

lemma fair_funpow: "fair s \<Longrightarrow> fair ((next_state ^^ k) s)"
  by (induction k) (simp_all add: fair_next_state)

lemma mac_loop_fresh:
  assumes "fst (generate_mac ((next_state ^^ j) s)) \<notin> set S" "int (length S) < n"
  shows "\<exists>x k. x \<notin> set S \<and> x \<in> reachable_macs \<and>
           mac_loop n S s = mac_loop n (S @ [x]) ((next_state ^^ k) s)"
  using assms
proof (induction j arbitrary: s)
  case 0
  then have "mac_loop n S s = mac_loop n (S @ [fst (generate_mac s)]) ((next_state ^^ 1) s)"
    by (subst mac_loop.simps) (simp add: set_add_def next_state_def)
  with 0 show ?case
    using generate_mac_reachable by fastforce
next
  case (Suc j)
  show ?case
  proof (cases "fst (generate_mac s) \<in> set S")
    case False
    with Suc.prems have "mac_loop n S s = mac_loop n (S @ [fst (generate_mac s)]) ((next_state ^^ 1) s)"
      by (subst mac_loop.simps) (simp add: set_add_def next_state_def)
    with False show ?thesis
      using generate_mac_reachable by fastforce
  next
    case True
    with Suc.prems have step: "mac_loop n S s = mac_loop n S (next_state s)"
      by (subst mac_loop.simps) (simp add: set_add_def next_state_def)
    from Suc.prems have "fst (generate_mac ((next_state ^^ j) (next_state s))) \<notin> set S"
      by (simp add: funpow_swap1)
    from Suc.IH [OF this Suc.prems(2)] obtain x k where
      "x \<notin> set S" "x \<in> reachable_macs"
      "mac_loop n S (next_state s) = mac_loop n (S @ [x]) ((next_state ^^ k) (next_state s))"
      by blast
    with step have "x \<notin> set S \<and> x \<in> reachable_macs \<and>
        mac_loop n S s = mac_loop n (S @ [x]) ((next_state ^^ Suc k) s)"
      by (simp add: funpow_swap1)
    then show ?thesis by blast
  qed
qed

lemma mac_loop_terminates:
  assumes "fair s" "distinct S" "set S \<subseteq> reachable_macs" "n \<le> 2 ^ 23"
  shows "\<exists>r. mac_loop n S s = Some r"
  using assms
proof (induction "nat n - length S" arbitrary: S s rule: less_induct)
  case less
  show ?case
  proof (cases "int (length S) < n")
    case False
    then show ?thesis by (subst mac_loop.simps) simp
  next
    case True
    from less.prems(2) have "card (set S) = length S" by (rule distinct_card)
    with True less.prems(4) have "card (set S) < card reachable_macs"
      by (simp add: card_reachable_macs)
    with less.prems(3) have "\<exists>m. m \<in> reachable_macs \<and> m \<notin> set S"
      by (metis subsetI subset_antisym less_irrefl)
    then obtain m where m: "m \<in> reachable_macs" "m \<notin> set S" by blast
    from less.prems(1) m(1) obtain j where "fst (generate_mac ((next_state ^^ j) s)) = m"
      unfolding fair_def by blast
    with m(2) have "fst (generate_mac ((next_state ^^ j) s)) \<notin> set S" by simp
    from mac_loop_fresh [OF this True] obtain x k where
      x: "x \<notin> set S" "x \<in> reachable_macs"
      and eq: "mac_loop n S s = mac_loop n (S @ [x]) ((next_state ^^ k) s)"
      by blast
    have "\<exists>r. mac_loop n (S @ [x]) ((next_state ^^ k) s) = Some r"
    proof (rule less.hyps)
      show "nat n - length (S @ [x]) < nat n - length S" using True by simp
      show "fair ((next_state ^^ k) s)" using less.prems(1) by (rule fair_funpow)
      show "distinct (S @ [x])" using less.prems(2) x(1) by simp
      show "set (S @ [x]) \<subseteq> reachable_macs" using less.prems(3) x(2) by simp
      show "n \<le> 2 ^ 23" by (rule less.prems(4))
    qed
    with eq show ?thesis by simp
  qed
qed

lemma mac_loop_post_holds:
  assumes "mac_loop n S s = Some r"
  shows "mac_loop_post n S s r"
proof (rule mac_loop.raw_induct [where P = mac_loop_post, OF _ assms])
  fix f :: "int \<Rightarrow> string list \<Rightarrow> random \<Rightarrow> (string list \<times> random) option"
  fix n S s r
  assume ih: "\<And>n S s r. f n S s = Some r \<Longrightarrow> mac_loop_post n S s r"
    and eq: "(if int (length S) < n
              then f n (set_add (fst (generate_mac s)) S) (snd (generate_mac s))
              else Some (S, s)) = Some r"
  show "mac_loop_post n S s r"
  proof (cases "int (length S) < n")
    case False
    with eq show ?thesis by (auto simp: mac_loop_post_def)
  next
    case True
    with eq have rec: "f n (set_add (fst (generate_mac s)) S) (snd (generate_mac s)) = Some r"
      by simp
    have len: "int (length (set_add (fst (generate_mac s)) S)) \<le> n"
      using True by (simp add: set_add_def)
    show ?thesis
      unfolding mac_loop_post_def
    proof (intro impI)
      assume d: "distinct S" and sub: "set S \<subseteq> reachable_macs"
      have "distinct (set_add (fst (generate_mac s)) S)"
        using d by (simp add: set_add_def)
      moreover have "set (set_add (fst (generate_mac s)) S) \<subseteq> reachable_macs"
        using sub generate_mac_reachable by (simp add: set_add_def)
      ultimately show "distinct (fst r) \<and> set (fst r) \<subseteq> reachable_macs \<and> \<not> int (length (fst r)) < n \<and>
          (int (length S) \<le> n \<longrightarrow> int (length (fst r)) = n) \<and>
          (\<not> int (length S) < n \<longrightarrow> r = (S, s))"
        using ih [OF rec] len True by (simp add: mac_loop_post_def)
    qed
  qed
qed

lemma mac_loop_result:
  assumes "mac_loop n S s = Some r" "distinct S" "set S \<subseteq> reachable_macs"
  shows "distinct (fst r)" "set (fst r) \<subseteq> reachable_macs" "\<not> int (length (fst r)) < n"
    "int (length S) \<le> n \<Longrightarrow> int (length (fst r)) = n"
  using mac_loop_post_holds [OF assms(1)] assms(2,3) by (simp_all add: mac_loop_post_def)

lemma mac_loop_too_many:
  assumes "2 ^ 23 < n" "distinct S" "set S \<subseteq> reachable_macs"
  shows "mac_loop n S s = None"
proof (rule ccontr)
  assume "mac_loop n S s \<noteq> None"
  then obtain r where r: "mac_loop n S s = Some r" by auto
  from mac_loop_result [OF r assms(2,3)]
  have d: "distinct (fst r)" and sub: "set (fst r) \<subseteq> reachable_macs"
    and len: "\<not> int (length (fst r)) < n"
    by simp_all
  from d have "length (fst r) = card (set (fst r))" by (simp add: distinct_card)
  also from sub have "\<dots> \<le> card reachable_macs"
    by (rule card_mono [OF finite_reachable_macs])
  finally have "length (fst r) \<le> 2 ^ 23" by (simp add: card_reachable_macs)
  with assms(1) len show False by simp
qed

lemma funpow_next_state: "(next_state ^^ j) s = (fst s, snd s + 3 * j)"
  by (induction j) (simp_all add: next_state_eq)

lemma enum_draw_triple:
  "enum_draw (3 * j) = j" "enum_draw (3 * j + 1) = j div 128" "enum_draw (3 * j + 2) = j div 32768"
proof -
  show "enum_draw (3 * j) = j" by (simp add: enum_draw_def)
  have "(3 * j + 1) mod 3 = 1" "(3 * j + 1) div 3 = j" by presburger+
  then show "enum_draw (3 * j + 1) = j div 128" by (simp add: enum_draw_def)
  have "(3 * j + 2) mod 3 = 2" "(3 * j + 2) div 3 = j" by presburger+
  then show "enum_draw (3 * j + 2) = j div 32768" by (simp add: enum_draw_def)
qed

lemma fair_enum_source: "fair enum_source"
  unfolding fair_def
proof (intro ballI allI)
  fix m i
  assume "m \<in> reachable_macs"
  then obtain a b c where abc: "a < 128" "b < 256" "c < 256" and m: "m = mac_of a b c"
    by (auto simp: reachable_macs_eq)
  define j where "j = a + 128 * b + 32768 * c + 8388608 * i"
  have ji: "i \<le> j" by (simp add: j_def)
  have dm: "(x + n * k) div n = k \<and> (x + n * k) mod n = x" if "x < n" for x n k :: nat
    using that by simp
  have j1: "j = a + 128 * (b + 256 * (c + 256 * i))" by (simp add: j_def)
  have j2: "j = (a + 128 * b) + 32768 * (c + 256 * i)" by (simp add: j_def)
  have ab: "a + 128 * b < 32768" using abc(1,2) by simp
  have ja: "j mod 128 = a" using dm [OF abc(1), of "b + 256 * (c + 256 * i)"] by (simp only: j1)
  have "j div 128 = b + 256 * (c + 256 * i)"
    using dm [OF abc(1), of "b + 256 * (c + 256 * i)"] by (simp only: j1)
  then have jb: "(j div 128) mod 256 = b"
    using dm [OF abc(2), of "c + 256 * i"] by (simp only:)
  have "j div 32768 = c + 256 * i" using dm [OF ab, of "c + 256 * i"] by (simp only: j2)
  then have jc: "(j div 32768) mod 256 = c"
    using dm [OF abc(3), of i] by (simp only:)
  have "fst (generate_mac ((next_state ^^ j) enum_source)) = m"
    by (simp add: funpow_next_state enum_source_def generate_mac_eq enum_draw_triple
        enum_draw_triple [simplified] ja jb jc m)
  with ji show "\<exists>j\<ge>i. fst (generate_mac ((next_state ^^ j) enum_source)) = m"
    by blast
qed

lemma same_draws_generate_mac:
  assumes "same_draws s t"
  shows "fst (generate_mac s) = fst (generate_mac t)"
    and "same_draws (snd (generate_mac s)) (snd (generate_mac t))"
proof -
  from assms have d: "fst s (snd s + 0) = fst t (snd t + 0)" "fst s (snd s + 1) = fst t (snd t + 1)"
    "fst s (snd s + 2) = fst t (snd t + 2)"
    unfolding same_draws_def by blast+
  then show "fst (generate_mac s) = fst (generate_mac t)"
    by (simp add: generate_mac_eq)
  show "same_draws (snd (generate_mac s)) (snd (generate_mac t))"
    unfolding same_draws_def
  proof
    fix i
    from assms have "fst s (snd s + (3 + i)) = fst t (snd t + (3 + i))"
      unfolding same_draws_def by blast
    then show "fst (snd (generate_mac s)) (snd (snd (generate_mac s)) + i) =
        fst (snd (generate_mac t)) (snd (snd (generate_mac t)) + i)"
      by (simp add: generate_mac_eq add.assoc)
  qed
qed

lemma same_loop_holds:
  assumes "mac_loop n S s = Some r"
  shows "same_loop n S s r"
proof (rule mac_loop.raw_induct [where P = same_loop, OF _ assms])
  fix f :: "int \<Rightarrow> string list \<Rightarrow> random \<Rightarrow> (string list \<times> random) option"
  fix n S s r
  assume ih: "\<And>n S s r. f n S s = Some r \<Longrightarrow> same_loop n S s r"
    and eq: "(if int (length S) < n
              then f n (set_add (fst (generate_mac s)) S) (snd (generate_mac s))
              else Some (S, s)) = Some r"
  show "same_loop n S s r"
    unfolding same_loop_def
  proof (intro allI impI)
    fix t assume st: "same_draws s t"
    show "\<exists>r'. mac_loop n S t = Some r' \<and> fst r' = fst r \<and> same_draws (snd r) (snd r')"
    proof (cases "int (length S) < n")
      case False
      with eq have "r = (S, s)" by simp
      moreover from False have "mac_loop n S t = Some (S, t)" by (subst mac_loop.simps) simp
      ultimately show ?thesis using st by simp
    next
      case True
      with eq have "f n (set_add (fst (generate_mac s)) S) (snd (generate_mac s)) = Some r"
        by simp
      from ih [OF this] same_draws_generate_mac(2) [OF st]
      obtain r' where r': "mac_loop n (set_add (fst (generate_mac s)) S) (snd (generate_mac t)) = Some r'"
        "fst r' = fst r" "same_draws (snd r) (snd r')"
        unfolding same_loop_def by blast
      from True have "mac_loop n S t = mac_loop n (set_add (fst (generate_mac t)) S) (snd (generate_mac t))"
        by (subst mac_loop.simps) simp
      with r' same_draws_generate_mac(1) [OF st] show ?thesis by simp
    qed
  qed
qed

lemma same_draws_sym: "same_draws s t \<Longrightarrow> same_draws t s"
  by (simp add: same_draws_def)

lemma mac_loop_same_draws:
  assumes "same_draws s t"
  shows "map_option fst (mac_loop n S s) = map_option fst (mac_loop n S t)"
proof (cases "mac_loop n S s")
  case (Some r)
  from same_loop_holds [OF Some] assms show ?thesis
    unfolding same_loop_def using Some by fastforce
next
  case None
  show ?thesis
  proof (cases "mac_loop n S t")
    case (Some r)
    from same_loop_holds [OF Some] same_draws_sym [OF assms] None show ?thesis
      unfolding same_loop_def by fastforce
  next
    case n: None
    with None show ?thesis by simp
  qed
qed

section \<open>Provisioning: lemmas\<close>

lemmas monad_defs = bind_def return_def raise_def try_except_def lift_def logger_info_def
  logger_error_def call_env_def

lemma ensure_device_found:
  assumes "client_get_device a self device_id w = (Inr d, w1)"
  shows "ensure_device a self device_id w =
           (Inr None, w1\<lparr>log := log w1 @ [(INFO, ''Device '' @ quote device_id @ '' already exists.'')]\<rparr>)"
  using assms by (simp add: ensure_device_def monad_defs)

lemma ensure_device_created:
  assumes "client_get_device a self device_id w = (Inl e, w1)"
    and "client_create_device_with_sas a self device_id NoneVal NoneVal ''enabled''
           (w1\<lparr>log := log w1 @ [(INFO, ''Creating device '' @ quote device_id @ ''...'')]\<rparr>) = (Inr d, w2)"
  shows "ensure_device a self device_id w =
           (Inr None, w2\<lparr>log := log w2 @ [(INFO, ''Device '' @ quote device_id @ '' created successfully.'')]\<rparr>)"
  using assms by (simp add: ensure_device_def monad_defs)

lemma ensure_device_refused:
  assumes "client_get_device a self device_id w = (Inl e, w1)"
    and "client_create_device_with_sas a self device_id NoneVal NoneVal ''enabled''
           (w1\<lparr>log := log w1 @ [(INFO, ''Creating device '' @ quote device_id @ ''...'')]\<rparr>) = (Inl e', w2)"
  shows "ensure_device a self device_id w =
           (Inr (Some []), w2\<lparr>log := log w2 @ [(ERROR, ''Error creating device '' @ quote device_id @ '': '' @ exn_str e')]\<rparr>)"
  using assms by (simp add: ensure_device_def monad_defs)

lemma retrieve_credentials_ok:
  assumes "client_get_device a self device_id w = (Inr info, w1)" "get_primary_key info = Inr k"
  shows "retrieve_credentials a self device_id w = (Inr (credential self device_id k), w1)"
  using assms by (simp add: retrieve_credentials_def credential_def monad_defs)

lemma retrieve_credentials_get_fails:
  assumes "client_get_device a self device_id w = (Inl e, w1)"
  shows "retrieve_credentials a self device_id w =
           (Inr [], w1\<lparr>log := log w1 @ [(ERROR, ''Error retrieving credentials for device '' @ quote device_id @ '': '' @ exn_str e)]\<rparr>)"
  using assms by (simp add: retrieve_credentials_def monad_defs)

lemma retrieve_credentials_key_fails:
  assumes "client_get_device a self device_id w = (Inr info, w1)" "get_primary_key info = Inl e"
  shows "retrieve_credentials a self device_id w =
           (Inr [], w1\<lparr>log := log w1 @ [(ERROR, ''Error retrieving credentials for device '' @ quote device_id @ '': '' @ exn_str e)]\<rparr>)"
  using assms by (simp add: retrieve_credentials_def monad_defs)

lemma create_device_continue:
  assumes "ensure_device a self device_id w = (Inr None, w1)"
  shows "create_device a self device_id w = retrieve_credentials a self device_id w1"
  using assms by (simp add: create_device_def bind_def)

lemma create_device_early_return:
  assumes "ensure_device a self device_id w = (Inr (Some v), w1)"
  shows "create_device a self device_id w = (Inr v, w1)"
  using assms by (simp add: create_device_def bind_def return_def)

lemma ensure_device_cases:
  obtains (found) d w1 where "client_get_device a self device_id w = (Inr d, w1)"
  | (created) e w1 d w2 where "client_get_device a self device_id w = (Inl e, w1)"
      "client_create_device_with_sas a self device_id NoneVal NoneVal ''enabled''
           (w1\<lparr>log := log w1 @ [(INFO, ''Creating device '' @ quote device_id @ ''...'')]\<rparr>) = (Inr d, w2)"
  | (refused) e w1 e' w2 where "client_get_device a self device_id w = (Inl e, w1)"
      "client_create_device_with_sas a self device_id NoneVal NoneVal ''enabled''
           (w1\<lparr>log := log w1 @ [(INFO, ''Creating device '' @ quote device_id @ ''...'')]\<rparr>) = (Inl e', w2)"
proof -
  obtain r w1 where g: "client_get_device a self device_id w = (r, w1)" by (cases "client_get_device a self device_id w")
  show thesis
  proof (cases r)
    case (Inr d)
    with g show thesis by (auto intro: found)
  next
    case (Inl e)
    obtain r2 w2 where c: "client_create_device_with_sas a self device_id NoneVal NoneVal ''enabled''
           (w1\<lparr>log := log w1 @ [(INFO, ''Creating device '' @ quote device_id @ ''...'')]\<rparr>) = (r2, w2)"
      by (cases "client_create_device_with_sas a self device_id NoneVal NoneVal ''enabled''
           (w1\<lparr>log := log w1 @ [(INFO, ''Creating device '' @ quote device_id @ ''...'')]\<rparr>)")
    show thesis
    proof (cases r2)
      case (Inl e')
      with g c \<open>r = Inl e\<close> show thesis by (auto intro: refused)
    next
      case (Inr d)
      with g c \<open>r = Inl e\<close> show thesis by (auto intro: created)
    qed
  qed
qed

lemma retrieve_credentials_returns:
  "\<exists>c w'. retrieve_credentials a self device_id w = (Inr c, w') \<and> (c = [] \<or> (\<exists>k. c = credential self device_id k))"
  by (auto simp: retrieve_credentials_def client_get_device_def credential_def monad_defs
      split: prod.splits sum.splits option.splits)

lemma create_device_returns:
  "\<exists>c w'. create_device a self device_id w = (Inr c, w') \<and> (c = [] \<or> (\<exists>k. c = credential self device_id k))"
proof (cases rule: ensure_device_cases [of a self device_id w])
  case (found d w1)
  from ensure_device_found [OF found] show ?thesis
    using retrieve_credentials_returns by (simp add: create_device_continue)
next
  case (created e w1 d w2)
  from ensure_device_created [OF created] show ?thesis
    using retrieve_credentials_returns by (simp add: create_device_continue)
next
  case (refused e w1 e' w2)
  from ensure_device_refused [OF refused] show ?thesis
    by (simp add: create_device_early_return)
qed

lemma is_credential_credential: "is_credential (credential self device_id k)"
  by (simp add: is_credential_def credential_def)

lemma credential_nonempty: "credential self device_id k \<noteq> []"
  by (simp add: credential_def)

lemma client_get_device_eq:
  assumes "device_client self = Some cs" "get_device a cs device_id (env w) = (r, e')"
  shows "client_get_device a self device_id w = (r, w\<lparr>env := e', calls := calls w @ [GetDevice device_id]\<rparr>)"
  using assms by (simp add: client_get_device_def call_env_def)

lemma client_create_eq:
  assumes "device_client self = Some cs" "create_device_with_sas a cs device_id pk sk st (env w) = (r, e')"
  shows "client_create_device_with_sas a self device_id pk sk st w =
           (r, w\<lparr>env := e', calls := calls w @ [CreateDeviceWithSas device_id pk sk st]\<rparr>)"
  using assms by (simp add: client_create_device_with_sas_def call_env_def)

lemma client_get_device_calls:
  assumes "client_get_device a self device_id w = (r, w1)" "device_client self = Some cs"
  shows "calls w1 = calls w @ [GetDevice device_id]" "log w1 = log w" "files w1 = files w"
    "get_device a cs device_id (env w) = (r, env w1)"
  using assms by (auto simp: client_get_device_def call_env_def split: prod.splits)

lemma client_create_calls:
  assumes "client_create_device_with_sas a self device_id pk sk st w = (r, w1)" "device_client self = Some cs"
  shows "calls w1 = calls w @ [CreateDeviceWithSas device_id pk sk st]" "log w1 = log w" "files w1 = files w"
  using assms by (auto simp: client_create_device_with_sas_def call_env_def split: prod.splits)

lemma no_client_get: "device_client self = None \<Longrightarrow> \<exists>e. client_get_device a self device_id w = (Inl e, w)"
  by (simp add: client_get_device_def raise_def)

lemma no_client_create:
  "device_client self = None \<Longrightarrow> \<exists>e. client_create_device_with_sas a self device_id pk sk st w = (Inl e, w)"
  by (simp add: client_create_device_with_sas_def raise_def)

lemma retrieve_credentials_nonempty:
  assumes "retrieve_credentials a self device_id w = (Inr c, w1)" "c \<noteq> []"
  shows "\<exists>cs info k. device_client self = Some cs \<and>
           get_device a cs device_id (env w) = (Inr info, env w1) \<and>
           get_primary_key info = Inr k \<and> c = credential self device_id k \<and>
           w1 = w\<lparr>env := env w1, calls := calls w @ [GetDevice device_id]\<rparr>"
proof -
  obtain r wm where g: "client_get_device a self device_id w = (r, wm)"
    by (cases "client_get_device a self device_id w")
  show ?thesis
  proof (cases r)
    case (Inl e)
    with g assms show ?thesis by (simp add: retrieve_credentials_get_fails)
  next
    case (Inr info)
    show ?thesis
    proof (cases "get_primary_key info")
      case (Inl e)
      with g Inr assms show ?thesis by (simp add: retrieve_credentials_key_fails)
    next
      case k: (Inr k)
      from g Inr k assms have c: "c = credential self device_id k" and w1: "w1 = wm"
        by (simp_all add: retrieve_credentials_ok)
      obtain cs where cs: "device_client self = Some cs"
        using g Inr by (cases "device_client self") (auto simp: client_get_device_def raise_def)
      obtain e' where e': "get_device a cs device_id (env w) = (Inr info, e')"
        using client_get_device_calls(4) [OF g cs] Inr by simp
      from client_get_device_eq [OF cs e'] g Inr
      have "wm = w\<lparr>env := e', calls := calls w @ [GetDevice device_id]\<rparr>" by simp
      with cs e' k c w1 show ?thesis by simp
    qed
  qed
qed

lemma create_device_found_calls:
  assumes cs: "device_client self = Some cs"
    and found: "get_device a cs device_id (env w) = (Inr d, e1)"
    and run: "create_device a self device_id w = (r, w')"
  shows "calls w' = calls w @ [GetDevice device_id, GetDevice device_id]"
proof -
  let ?w1 = "w\<lparr>env := e1, calls := calls w @ [GetDevice device_id]\<rparr>"
  let ?w2 = "?w1\<lparr>log := log ?w1 @ [(INFO, ''Device '' @ quote device_id @ '' already exists.'')]\<rparr>"
  have "ensure_device a self device_id w = (Inr None, ?w2)"
    by (rule ensure_device_found [OF client_get_device_eq [OF cs found]])
  then have eq: "create_device a self device_id w = retrieve_credentials a self device_id ?w2"
    by (rule create_device_continue)
  obtain r2 w3 where g: "client_get_device a self device_id ?w2 = (r2, w3)"
    by (cases "client_get_device a self device_id ?w2")
  from client_get_device_calls(1) [OF g cs] have c3: "calls w3 = calls w @ [GetDevice device_id, GetDevice device_id]"
    by simp
  show ?thesis
  proof (cases r2)
    case (Inl e)
    with g eq run c3 show ?thesis by (auto simp: retrieve_credentials_get_fails)
  next
    case (Inr info)
    with g eq run c3 show ?thesis
      by (cases "get_primary_key info")
         (auto simp: retrieve_credentials_key_fails retrieve_credentials_ok)
  qed
qed

lemma create_device_missing_calls:
  assumes cs: "device_client self = Some cs"
    and missing: "get_device a cs device_id (env w) = (Inl e, e1)"
    and run: "create_device a self device_id w = (r, w')"
  shows "take (length (calls w) + 2) (calls w') =
           calls w @ [GetDevice device_id, CreateDeviceWithSas device_id NoneVal NoneVal ''enabled''] \<and>
         ((\<exists>c. r = Inr c \<and> c \<noteq> []) \<longrightarrow>
           calls w' = calls w @ [GetDevice device_id,
              CreateDeviceWithSas device_id NoneVal NoneVal ''enabled'', GetDevice device_id])"
proof -
  let ?w1 = "w\<lparr>env := e1, calls := calls w @ [GetDevice device_id]\<rparr>"
  let ?w2 = "?w1\<lparr>log := log ?w1 @ [(INFO, ''Creating device '' @ quote device_id @ ''...'')]\<rparr>"
  have g: "client_get_device a self device_id w = (Inl e, ?w1)"
    by (rule client_get_device_eq [OF cs missing])
  obtain r2 w3 where c: "client_create_device_with_sas a self device_id NoneVal NoneVal ''enabled'' ?w2 = (r2, w3)"
    by (cases "client_create_device_with_sas a self device_id NoneVal NoneVal ''enabled'' ?w2")
  from client_create_calls(1) [OF c cs]
  have c3: "calls w3 = calls w @ [GetDevice device_id, CreateDeviceWithSas device_id NoneVal NoneVal ''enabled'']"
    by simp
  show ?thesis
  proof (cases r2)
    case (Inl e')
    with ensure_device_refused [OF g] c run c3 show ?thesis
      by (auto simp: create_device_early_return)
  next
    case (Inr d)
    let ?w4 = "w3\<lparr>log := log w3 @ [(INFO, ''Device '' @ quote device_id @ '' created successfully.'')]\<rparr>"
    from ensure_device_created [OF g] c Inr
    have eq: "create_device a self device_id w = retrieve_credentials a self device_id ?w4"
      by (simp add: create_device_continue)
    obtain r5 w5 where g5: "client_get_device a self device_id ?w4 = (r5, w5)"
      by (cases "client_get_device a self device_id ?w4")
    from client_get_device_calls(1) [OF g5 cs] c3
    have c5: "calls w5 = calls w @ [GetDevice device_id, CreateDeviceWithSas device_id NoneVal NoneVal ''enabled'', GetDevice device_id]"
      by simp
    show ?thesis
    proof (cases r5)
      case (Inl e5)
      with g5 eq run c5 show ?thesis by (auto simp: retrieve_credentials_get_fails)
    next
      case info: (Inr info)
      with g5 eq run c5 show ?thesis
        by (cases "get_primary_key info")
           (auto simp: retrieve_credentials_key_fails retrieve_credentials_ok)
    qed
  qed
qed

lemma create_device_nonempty:
  assumes run: "create_device a self device_id w = (Inr c, w')" and ne: "c \<noteq> []"
  shows "\<exists>cs wm info k. device_client self = Some cs \<and>
           get_device a cs device_id (env wm) = (Inr info, env w') \<and>
           get_primary_key info = Inr k \<and> c = credential self device_id k \<and>
           w' = wm\<lparr>env := env w', calls := calls wm @ [GetDevice device_id]\<rparr>"
proof (cases rule: ensure_device_cases [of a self device_id w])
  case (found d w1)
  from ensure_device_found [OF found] run
  have "retrieve_credentials a self device_id
          (w1\<lparr>log := log w1 @ [(INFO, ''Device '' @ quote device_id @ '' already exists.'')]\<rparr>) = (Inr c, w')"
    by (simp add: create_device_continue)
  from retrieve_credentials_nonempty [OF this ne] show ?thesis by blast
next
  case (created e w1 d w2)
  from ensure_device_created [OF created] run
  have "retrieve_credentials a self device_id
          (w2\<lparr>log := log w2 @ [(INFO, ''Device '' @ quote device_id @ '' created successfully.'')]\<rparr>) = (Inr c, w')"
    by (simp add: create_device_continue)
  from retrieve_credentials_nonempty [OF this ne] show ?thesis by blast
next
  case (refused e w1 e' w2)
  from ensure_device_refused [OF refused] run ne show ?thesis
    by (simp add: create_device_early_return)
qed

lemma create_device_again:
  assumes cs: "device_client self = Some cs"
    and stable: "get_device a cs device_id (env w) = (Inr info, env w)"
    and k: "get_primary_key info = Inr k"
  shows "create_device a self device_id w =
           (Inr (credential self device_id k),
            w\<lparr>calls := calls w @ [GetDevice device_id, GetDevice device_id],
              log := log w @ [(INFO, ''Device '' @ quote device_id @ '' already exists.'')]\<rparr>)"
proof -
  let ?w1 = "w\<lparr>env := env w, calls := calls w @ [GetDevice device_id]\<rparr>"
  let ?w2 = "?w1\<lparr>log := log ?w1 @ [(INFO, ''Device '' @ quote device_id @ '' already exists.'')]\<rparr>"
  have "ensure_device a self device_id w = (Inr None, ?w2)"
    by (rule ensure_device_found [OF client_get_device_eq [OF cs stable]])
  then have eq: "create_device a self device_id w = retrieve_credentials a self device_id ?w2"
    by (rule create_device_continue)
  have "get_device a cs device_id (env ?w2) = (Inr info, env w)" using stable by simp
  from client_get_device_eq [OF cs this]
  have "retrieve_credentials a self device_id ?w2 =
          (Inr (credential self device_id k), ?w2\<lparr>env := env w, calls := calls ?w2 @ [GetDevice device_id]\<rparr>)"
    using k by (rule retrieve_credentials_ok)
  with eq show ?thesis by simp
qed

lemma first_exception_map_Inr: "first_exception (map Inr xs) = Inr xs"
  by (induction xs) simp_all

lemma run_tasks_returns:
  assumes "\<And>t w. t \<in> set tasks \<Longrightarrow> \<exists>x w'. t w = (Inr x, w') \<and> P x \<and> files w' = files w"
  shows "\<exists>xs w'. run_tasks tasks w = (map Inr xs, w') \<and> length xs = length tasks \<and>
           list_all P xs \<and> files w' = files w"
  using assms
proof (induction tasks arbitrary: w)
  case Nil
  then show ?case by simp
next
  case (Cons t ts)
  from Cons.prems [of t w] obtain x w1 where t: "t w = (Inr x, w1)" "P x" "files w1 = files w"
    by auto
  have "\<exists>xs w'. run_tasks ts w1 = (map Inr xs, w') \<and> length xs = length ts \<and>
          list_all P xs \<and> files w' = files w1"
    by (rule Cons.IH) (simp add: Cons.prems)
  then obtain xs w2 where r: "run_tasks ts w1 = (map Inr xs, w2)" "length xs = length ts"
      "list_all P xs" "files w2 = files w1"
    by blast
  from t r have "run_tasks (t # ts) w = (map Inr (x # xs), w2) \<and> length (x # xs) = length (t # ts) \<and>
      list_all P (x # xs) \<and> files w2 = files w"
    by simp
  then show ?case by blast
qed

lemma retrieve_credentials_files:
  "files (snd (retrieve_credentials a self device_id w)) = files w"
  by (auto simp: retrieve_credentials_def client_get_device_def monad_defs
      split: prod.splits sum.splits option.splits)

lemma ensure_device_files:
  "files (snd (ensure_device a self device_id w)) = files w"
  by (auto simp: ensure_device_def client_get_device_def client_create_device_with_sas_def monad_defs
      split: prod.splits sum.splits option.splits)

lemma create_device_files:
  "files (snd (create_device a self device_id w)) = files w"
proof -
  obtain r w1 where e: "ensure_device a self device_id w = (r, w1)"
    by (cases "ensure_device a self device_id w")
  with ensure_device_files [of a self device_id w] have f: "files w1 = files w" by simp
  show ?thesis
    using e f retrieve_credentials_files [of a self device_id w1]
    by (auto simp: create_device_def bind_def return_def split: sum.splits option.splits)
qed

lemma create_device_task:
  "\<exists>c w'. create_device a self device_id w = (Inr c, w') \<and>
     (c = [] \<or> is_credential c) \<and> files w' = files w"
proof -
  from create_device_returns [of a self device_id w] obtain c w' where
    r: "create_device a self device_id w = (Inr c, w')" "c = [] \<or> (\<exists>k. c = credential self device_id k)"
    by blast
  from r(1) create_device_files [of a self device_id w] have "files w' = files w" by simp
  with r show ?thesis using is_credential_credential by auto
qed

lemma run_create_devices:
  "\<exists>cs w'. run_tasks (map (create_device a self) device_ids) w = (map Inr cs, w') \<and>
     length cs = length device_ids \<and> list_all (\<lambda>c. c = [] \<or> is_credential c) cs \<and>
     files w' = files w"
proof -
  have "\<exists>xs w'. run_tasks (map (create_device a self) device_ids) w = (map Inr xs, w') \<and>
      length xs = length (map (create_device a self) device_ids) \<and>
      list_all (\<lambda>c. c = [] \<or> is_credential c) xs \<and> files w' = files w"
    by (rule run_tasks_returns) (auto simp: create_device_task)
  then show ?thesis by simp
qed

lemma update_credentials_eq:
  "n + length cs \<le> length ids \<Longrightarrow>
   update_credentials ids (enumerate n cs) acc =
     Inr (fold (\<lambda>p. AList.update (fst p) (snd p)) (filter nonempty (zip (drop n ids) cs)) acc)"
proof (induction cs arbitrary: n acc)
  case Nil
  then show ?case by simp
next
  case (Cons c cs)
  then have n: "n < length ids" by simp
  then have d: "drop n ids = ids ! n # drop (Suc n) ids"
    by (simp add: Cons_nth_drop_Suc)
  from Cons.prems have "Suc n + length cs \<le> length ids" by simp
  note ih = Cons.IH [OF this]
  show ?case
    using n by (simp add: d ih nonempty_def)
qed

lemma update_fresh: "k \<notin> fst ` set al \<Longrightarrow> AList.update k v al = al @ [(k, v)]"
  by (induction al) auto

lemma fold_update_append:
  "distinct (map fst kvs) \<Longrightarrow> fst ` set kvs \<inter> fst ` set acc = {} \<Longrightarrow>
   fold (\<lambda>p. AList.update (fst p) (snd p)) kvs acc = acc @ kvs"
proof (induction kvs arbitrary: acc)
  case Nil
  then show ?case by simp
next
  case (Cons p kvs)
  from Cons.prems have fresh: "fst p \<notin> fst ` set acc" by auto
  have "fold (\<lambda>p. AList.update (fst p) (snd p)) kvs (acc @ [p]) = (acc @ [p]) @ kvs"
    by (rule Cons.IH) (use Cons.prems in auto)
  with fresh show ?case by (simp add: update_fresh)
qed

lemma fold_update_map_of:
  "map_of (fold (\<lambda>p. AList.update (fst p) (snd p)) kvs acc) = map_of acc ++ map_of (rev kvs)"
proof (induction kvs arbitrary: acc)
  case Nil
  then show ?case by simp
next
  case (Cons p kvs)
  have "map_of (fold (\<lambda>p. AList.update (fst p) (snd p)) (p # kvs) acc) =
        (map_of acc)(fst p \<mapsto> snd p) ++ map_of (rev kvs)"
    by (simp only: fold_simps Cons.IH update_conv')
  also have "\<dots> = map_of acc ++ map_of (rev (p # kvs))"
    by (rule ext) (cases p, simp add: map_add_def split: option.splits)
  finally show ?case .
qed

lemma fold_update_distinct:
  "distinct (map fst acc) \<Longrightarrow> distinct (map fst (fold (\<lambda>p. AList.update (fst p) (snd p)) kvs acc))"
  by (induction kvs arbitrary: acc) (simp_all add: distinct_update)

lemma length_filter_nonempty_zip:
  "length ids = length cs \<Longrightarrow>
   length (filter nonempty (zip ids cs)) + length (filter (\<lambda>c. c = []) cs) = length cs"
  by (induction ids cs rule: list_induct2) (simp_all add: nonempty_def)

lemma distinct_filter_zip:
  "distinct ids \<Longrightarrow> distinct (map fst (filter nonempty (zip ids cs)))"
proof -
  assume "distinct ids"
  then have "distinct (map fst (zip ids cs))"
    by (simp add: map_fst_zip_take)
  then show ?thesis by (rule distinct_map_filter)
qed

lemma credentials_file_ok:
  assumes "file_write a ''iothub_device_credential.json'' (json_dumps a st) (env w) = (WriteOk, e')"
  shows "create_device_credentials_file a st w =
           (Inr (), w\<lparr>env := e', calls := calls w @ [OpenW ''iothub_device_credential.json''],
                      files := (files w)(''iothub_device_credential.json'' \<mapsto> json_dumps a st),
                      log := log w @ [(INFO, ''Device credentials stored in iothub_device_credential.json'')]\<rparr>)"
  using assms by (simp add: create_device_credentials_file_def write_file_def Let_def monad_defs)

lemma credentials_file_open_fails:
  assumes "file_write a ''iothub_device_credential.json'' (json_dumps a st) (env w) = (OpenFails e, e')"
  shows "create_device_credentials_file a st w =
           (Inr (), w\<lparr>env := e', calls := calls w @ [OpenW ''iothub_device_credential.json''],
                      log := log w @ [(ERROR, ''Failed to create credentials file: '' @ exn_str e)]\<rparr>)"
  using assms by (simp add: create_device_credentials_file_def write_file_def Let_def monad_defs)

lemma credentials_file_dump_fails:
  assumes "file_write a ''iothub_device_credential.json'' (json_dumps a st) (env w) = (DumpFails k e, e')"
  shows "create_device_credentials_file a st w =
           (Inr (), w\<lparr>env := e', calls := calls w @ [OpenW ''iothub_device_credential.json''],
                      files := (files w)(''iothub_device_credential.json'' \<mapsto> take k (json_dumps a st)),
                      log := log w @ [(ERROR, ''Failed to create credentials file: '' @ exn_str e)]\<rparr>)"
  using assms by (simp add: create_device_credentials_file_def write_file_def Let_def monad_defs)

lemma credentials_file_returns: "\<exists>w'. create_device_credentials_file a st w = (Inr (), w')"
proof -
  obtain out e' where f: "file_write a ''iothub_device_credential.json'' (json_dumps a st) (env w) = (out, e')"
    by (cases "file_write a ''iothub_device_credential.json'' (json_dumps a st) (env w)")
  show ?thesis
  proof (cases out)
    case WriteOk
    with f show ?thesis by (simp add: credentials_file_ok)
  next
    case (OpenFails e)
    with f show ?thesis by (simp add: credentials_file_open_fails)
  next
    case (DumpFails k e)
    with f show ?thesis by (simp add: credentials_file_dump_fails)
  qed
qed

lemma credentials_file_content:
  assumes "create_device_credentials_file a st w = (r, w')"
  shows "(fst (file_write a ''iothub_device_credential.json'' (json_dumps a st) (env w)) = WriteOk \<longrightarrow>
            files w' ''iothub_device_credential.json'' = Some (json_dumps a st)) \<and>
         (\<forall>e. fst (file_write a ''iothub_device_credential.json'' (json_dumps a st) (env w)) = OpenFails e \<longrightarrow>
            files w' = files w) \<and>
         (\<forall>k e. fst (file_write a ''iothub_device_credential.json'' (json_dumps a st) (env w)) = DumpFails k e \<longrightarrow>
            files w' ''iothub_device_credential.json'' = Some (take k (json_dumps a st)))"
proof -
  obtain out e' where f: "file_write a ''iothub_device_credential.json'' (json_dumps a st) (env w) = (out, e')"
    by (cases "file_write a ''iothub_device_credential.json'' (json_dumps a st) (env w)")
  show ?thesis
  proof (cases out)
    case WriteOk
    with f assms show ?thesis by (auto simp: credentials_file_ok)
  next
    case (OpenFails e)
    with f assms show ?thesis by (auto simp: credentials_file_open_fails)
  next
    case (DumpFails k e)
    with f assms show ?thesis by (auto simp: credentials_file_dump_fails)
  qed
qed

lemma create_devices_from_list_eq:
  assumes run: "run_tasks (map (create_device a self) device_ids) w = (outcomes, w1)"
  shows "\<exists>credentials_list all_credentials w2.
           outcomes = map Inr credentials_list \<and>
           length credentials_list = length device_ids \<and>
           list_all (\<lambda>c. c = [] \<or> is_credential c) credentials_list \<and>
           files w1 = files w \<and>
           all_credentials = fold (\<lambda>p. AList.update (fst p) (snd p))
                               (filter nonempty (zip device_ids credentials_list)) [] \<and>
           create_device_credentials_file a all_credentials w1 = (Inr (), w2) \<and>
           create_devices_from_list a self device_ids w = (Inr all_credentials, w2)"
proof -
  from run_create_devices [of a self device_ids w] run obtain cs where
    o: "outcomes = map Inr cs" and len: "length cs = length device_ids"
    and cred: "list_all (\<lambda>c. c = [] \<or> is_credential c) cs" and fl: "files w1 = files w"
    by auto
  define st where "st = fold (\<lambda>p. AList.update (fst p) (snd p)) (filter nonempty (zip device_ids cs)) []"
  from credentials_file_returns obtain w2 where p: "create_device_credentials_file a st w1 = (Inr (), w2)"
    by blast
  have g: "gather (map (create_device a self) device_ids) w = (Inr cs, w1)"
    using run o by (simp add: gather_def first_exception_map_Inr)
  have u: "update_credentials device_ids (enumerate 0 cs) [] = Inr st"
    using update_credentials_eq [of 0 cs device_ids "[]"] len by (simp add: st_def)
  have "create_devices_from_list a self device_ids w = (Inr st, w2)"
    using g u p by (simp add: create_devices_from_list_def bind_def lift_def return_def)
  with o len cred fl p show ?thesis
    unfolding st_def by blast
qed

lemma is_credential_connection_string:
  assumes "is_credential c"
  shows "\<exists>h d k. map_of c ''hostname'' = Some h \<and> map_of c ''device_id'' = Some d \<and>
           map_of c ''shared_access_key'' = Some k \<and>
           connection_string_for c =
             Inr (''HostName='' @ pystr h @ '';DeviceId='' @ pystr d @ '';SharedAccessKey='' @ pystr k)"
  using assms by (auto simp: is_credential_def connection_string_for_def dict_get_def)

lemma connection_string_for_fails:
  assumes "\<not> is_credential c"
  shows "\<exists>k. connection_string_for c = Inl (KeyError k) \<and> map_of c k = None"
proof (cases "map_of c ''hostname''")
  case None
  then have "connection_string_for c = Inl (KeyError ''hostname'')"
    by (simp add: connection_string_for_def dict_get_def)
  with None show ?thesis by blast
next
  case h: (Some h)
  show ?thesis
  proof (cases "map_of c ''device_id''")
    case None
    with h have "connection_string_for c = Inl (KeyError ''device_id'')"
      by (simp add: connection_string_for_def dict_get_def)
    with None show ?thesis by blast
  next
    case d: (Some d)
    with h assms have n: "map_of c ''shared_access_key'' = None"
      by (simp add: is_credential_def)
    with h d have "connection_string_for c = Inl (KeyError ''shared_access_key'')"
      by (simp add: connection_string_for_def dict_get_def)
    with n show ?thesis by blast
  qed
qed

lemma connect_device_build_fails:
  assumes "connection_string_for c = Inr cs" "map_of c ''device_id'' = Some d"
    and "create_from_connection_string a cs (env w) = (Inl e, e1)"
  shows "connect_device a c w =
           (Inr (), w\<lparr>env := e1, calls := calls w @ [CreateFromConnectionString cs],
                      log := log w @ [(ERROR, ''Failed to connect device '' @ pystr d @ '': '' @ exn_str e)]\<rparr>)"
  using assms by (simp add: connect_device_def dict_get_def monad_defs)

lemma connect_device_open_fails:
  assumes "connection_string_for c = Inr cs" "map_of c ''device_id'' = Some d"
    and "create_from_connection_string a cs (env w) = (Inr u, e1)"
    and "connect a cs e1 = (Inl e, e2)"
  shows "connect_device a c w =
           (Inr (), w\<lparr>env := e2, calls := calls w @ [CreateFromConnectionString cs, Connect cs],
                      log := log w @ [(ERROR, ''Failed to connect device '' @ pystr d @ '': '' @ exn_str e)]\<rparr>)"
  using assms by (simp add: connect_device_def dict_get_def monad_defs)

lemma connect_device_ok:
  assumes "connection_string_for c = Inr cs" "map_of c ''device_id'' = Some d"
    and "create_from_connection_string a cs (env w) = (Inr u, e1)"
    and "connect a cs e1 = (Inr u', e2)"
    and "disconnect a cs e2 = (Inr u'', e3)"
  shows "connect_device a c w =
           (Inr (), w\<lparr>env := e3,
                      calls := calls w @ [CreateFromConnectionString cs, Connect cs, Disconnect cs],
                      log := log w @ [(INFO, ''Device '' @ pystr d @ '' connected successfully.'')]\<rparr>)"
  using assms by (simp add: connect_device_def dict_get_def monad_defs)

lemma connect_device_close_fails:
  assumes "connection_string_for c = Inr cs" "map_of c ''device_id'' = Some d"
    and "create_from_connection_string a cs (env w) = (Inr u, e1)"
    and "connect a cs e1 = (Inr u', e2)"
    and "disconnect a cs e2 = (Inl e, e3)"
  shows "connect_device a c w =
           (Inr (), w\<lparr>env := e3,
                      calls := calls w @ [CreateFromConnectionString cs, Connect cs, Disconnect cs],
                      log := log w @ [(INFO, ''Device '' @ pystr d @ '' connected successfully.''),
                                      (ERROR, ''Failed to connect device '' @ pystr d @ '': '' @ exn_str e)]\<rparr>)"
  using assms by (simp add: connect_device_def dict_get_def monad_defs)

lemma connect_device_key_error:
  assumes "connection_string_for c = Inl e"
  shows "connect_device a c w = (Inl e, w)"
  using assms by (simp add: connect_device_def monad_defs)

lemma connect_device_returns:
  assumes "is_credential c"
  shows "\<exists>w'. connect_device a c w = (Inr (), w')"
proof -
  from is_credential_connection_string [OF assms] obtain cs d where
    cs: "connection_string_for c = Inr cs" and d: "map_of c ''device_id'' = Some d"
    by blast
  obtain x1 e1 where b: "create_from_connection_string a cs (env w) = (x1, e1)"
    by (cases "create_from_connection_string a cs (env w)")
  obtain x2 e2 where o: "connect a cs e1 = (x2, e2)" by (cases "connect a cs e1")
  obtain x3 e3 where cl: "disconnect a cs e2 = (x3, e3)" by (cases "disconnect a cs e2")
  show ?thesis
  proof (cases x1)
    case (Inl e)
    with b have "create_from_connection_string a cs (env w) = (Inl e, e1)" by simp
    from connect_device_build_fails [OF cs d this] show ?thesis by simp
  next
    case built: (Inr u)
    show ?thesis
    proof (cases x2)
      case (Inl e)
      with b built o have "create_from_connection_string a cs (env w) = (Inr u, e1)"
        "connect a cs e1 = (Inl e, e2)" by simp_all
      from connect_device_open_fails [OF cs d this] show ?thesis by simp
    next
      case opened: (Inr u')
      show ?thesis
      proof (cases x3)
        case (Inl e)
        with b built o opened cl have "create_from_connection_string a cs (env w) = (Inr u, e1)"
          "connect a cs e1 = (Inr u', e2)" "disconnect a cs e2 = (Inl e, e3)" by simp_all
        from connect_device_close_fails [OF cs d this] show ?thesis by simp
      next
        case (Inr u'')
        with b built o opened cl have "create_from_connection_string a cs (env w) = (Inr u, e1)"
          "connect a cs e1 = (Inr u', e2)" "disconnect a cs e2 = (Inr u'', e3)" by simp_all
        from connect_device_ok [OF cs d this] show ?thesis by simp
      qed
    qed
  qed
qed

lemma connect_hub_ok:
  assumes "from_connection_string a
             (''HostName='' @ hostname self @ '';SharedAccessKeyName='' @ shared_access_key_name self @
              '';SharedAccessKey='' @ shared_access_key self) (env w) = (Inr u, e1)"
  shows "connect_hub a self w =
           (Inr (self\<lparr>device_client := Some (''HostName='' @ hostname self @ '';SharedAccessKeyName='' @
                         shared_access_key_name self @ '';SharedAccessKey='' @ shared_access_key self)\<rparr>),
            w\<lparr>env := e1,
              calls := calls w @ [FromConnectionString (''HostName='' @ hostname self @
                         '';SharedAccessKeyName='' @ shared_access_key_name self @
                         '';SharedAccessKey='' @ shared_access_key self)],
              log := log w @ [(INFO, ''Connection established for IoTHub Registry.'')]\<rparr>)"
  using assms by (simp add: connect_hub_def Let_def monad_defs)

lemma connect_hub_fails:
  assumes "from_connection_string a
             (''HostName='' @ hostname self @ '';SharedAccessKeyName='' @ shared_access_key_name self @
              '';SharedAccessKey='' @ shared_access_key self) (env w) = (Inl e, e1)"
  shows "connect_hub a self w =
           (Inr self,
            w\<lparr>env := e1,
              calls := calls w @ [FromConnectionString (''HostName='' @ hostname self @
                         '';SharedAccessKeyName='' @ shared_access_key_name self @
                         '';SharedAccessKey='' @ shared_access_key self)],
              log := log w @ [(ERROR, ''Failed to connect with IoTHub Registry: '' @ exn_str e)]\<rparr>)"
  using assms by (simp add: connect_hub_def Let_def monad_defs)

lemma connect_hub_returns: "\<exists>self' w'. connect_hub a self w = (Inr self', w')"
proof -
  obtain x e1 where f: "from_connection_string a
             (''HostName='' @ hostname self @ '';SharedAccessKeyName='' @ shared_access_key_name self @
              '';SharedAccessKey='' @ shared_access_key self) (env w) = (x, e1)"
    by (cases "from_connection_string a
             (''HostName='' @ hostname self @ '';SharedAccessKeyName='' @ shared_access_key_name self @
              '';SharedAccessKey='' @ shared_access_key self) (env w)")
  show ?thesis
  proof (cases x)
    case (Inl e)
    with connect_hub_fails [of a self w e e1] f show ?thesis by simp
  next
    case (Inr u)
    with connect_hub_ok [of a self w u e1] f show ?thesis by simp
  qed
qed

lemma set_update_subset: "set (AList.update k v al) \<subseteq> insert (k, v) (set al)"
  by (induction al) auto

lemma store_entries_credentials:
  assumes "list_all (\<lambda>c. c = [] \<or> is_credential c) cs"
    and "(k, c) \<in> set (fold (\<lambda>p. AList.update (fst p) (snd p)) (filter nonempty (zip ids cs)) acc)"
    and "\<forall>p \<in> set acc. is_credential (snd p)"
  shows "is_credential c"
proof -
  have kv: "\<forall>p \<in> set (filter nonempty (zip ids cs)). is_credential (snd p)"
    using assms(1) by (auto simp: nonempty_def list_all_iff dest: set_zip_rightD)
  have "\<And>acc. \<forall>p \<in> set kvs. is_credential (snd p) \<Longrightarrow> \<forall>p \<in> set acc. is_credential (snd p) \<Longrightarrow>
      \<forall>p \<in> set (fold (\<lambda>p. AList.update (fst p) (snd p)) kvs acc). is_credential (snd p)" for kvs :: "(string \<times> pydict) list"
  proof (induction kvs)
    case Nil
    then show ?case by simp
  next
    case (Cons q kvs)
    have "\<forall>p \<in> set (AList.update (fst q) (snd q) acc). is_credential (snd p)"
      using Cons.prems set_update_subset [of "fst q" "snd q" acc] by auto
    with Cons show ?case by simp
  qed
  from this [OF kv assms(3)] assms(2) show ?thesis by auto
qed

section \<open>Identifier generation: the claims\<close>

lemma enum_macs:
  "generate_mac (enum_draw, 0) = (''00-16-3e-00-00-00'', (enum_draw, 3))"
  "generate_mac (enum_draw, 3) = (''00-16-3e-01-00-00'', (enum_draw, 6))"
  "generate_mac (enum_draw, 6) = (''00-16-3e-02-00-00'', (enum_draw, 9))"
  by (simp_all add: generate_mac_eq enum_draw_def mac_of_def fmt_02x_def hex.simps hexdigit_def)

lemma enum_three: "map_option fst (generate_mac_addresses length 3 enum_source) =
      Some [''00-16-3e-00-00-00'', ''00-16-3e-01-00-00'', ''00-16-3e-02-00-00'']"
proof -
  have "mac_loop 3 [] (enum_draw, 0) = mac_loop 3 [''00-16-3e-00-00-00''] (enum_draw, 3)"
    by (subst mac_loop.simps) (simp add: enum_macs set_add_def)
  also have "\<dots> = mac_loop 3 [''00-16-3e-00-00-00'', ''00-16-3e-01-00-00''] (enum_draw, 6)"
    by (subst mac_loop.simps) (simp add: enum_macs set_add_def)
  also have "\<dots> = mac_loop 3 [''00-16-3e-00-00-00'', ''00-16-3e-01-00-00'', ''00-16-3e-02-00-00''] (enum_draw, 9)"
    by (subst mac_loop.simps) (simp add: enum_macs set_add_def)
  also have "\<dots> = Some ([''00-16-3e-00-00-00'', ''00-16-3e-01-00-00'', ''00-16-3e-02-00-00''], (enum_draw, 9))"
    by (subst mac_loop.simps) simp
  finally show ?thesis
    by (simp add: generate_mac_addresses_def enum_source_def)
qed

text \<open>
  Claim C4, as amended. For every requested count between 0 and \<open>2 ^ 23\<close> and every fair
  random source, \<^verbatim>\<open>generate_mac_addresses\<close> returns. Whenever it returns for a count that
  is not negative, whatever the random source, the result holds exactly that many
  identifiers, they are pairwise distinct, and each is six two-digit lowercase hexadecimal
  octets joined by hyphens, starting with \<open>00-16-3e\<close> and with a fourth octet below
  \<open>0x80\<close>. For the count 0 the result is empty and the random source is left untouched: the
  loop body never runs. No exception is raised on any path.
\<close>

theorem generate_mac_addresses_correct:
  "(0 \<le> count \<and> count \<le> 2 ^ 23 \<and> fair s \<longrightarrow>
      (\<exists>ids s'. generate_mac_addresses h count s = Some (ids, s'))) \<and>
   (\<forall>ids s'. 0 \<le> count \<and> generate_mac_addresses h count s = Some (ids, s') \<longrightarrow>
      int (length ids) = count \<and> distinct ids \<and> list_all mac_format ids) \<and>
   generate_mac_addresses h 0 s = Some ([], s)"
proof (intro conjI impI allI)
  assume "0 \<le> count \<and> count \<le> 2 ^ 23 \<and> fair s"
  then have "\<exists>r. mac_loop count [] s = Some r"
    by (intro mac_loop_terminates) simp_all
  then obtain r where "mac_loop count [] s = Some r" by blast
  then have "generate_mac_addresses h count s = Some (sort_key h (fst r), snd r)"
    by (simp add: generate_mac_addresses_def split_beta)
  then show "\<exists>ids s'. generate_mac_addresses h count s = Some (ids, s')" by blast
next
  fix ids s'
  assume a: "0 \<le> count \<and> generate_mac_addresses h count s = Some (ids, s')"
  then obtain r where r: "mac_loop count [] s = Some r" and ids: "ids = sort_key h (fst r)"
    by (auto simp: generate_mac_addresses_def)
  have d: "distinct (fst r)" and sub: "set (fst r) \<subseteq> reachable_macs"
    and len: "int (length (fst r)) = count"
    using mac_loop_result [OF r] a by simp_all
  from sub have "list_all mac_format (fst r)"
    by (auto simp: list_all_iff dest: reachable_mac_format)
  then have "list_all mac_format ids"
    by (simp add: ids list_all_iff)
  with d len ids show "int (length ids) = count" "distinct ids" "list_all mac_format ids"
    by simp_all
next
  have "mac_loop 0 [] s = Some ([], s)" by (subst mac_loop.simps) simp
  then show "generate_mac_addresses h 0 s = Some ([], s)"
    by (simp add: generate_mac_addresses_def)
qed

text \<open>The amended claim C4 at the count 3, on the source that enumerates all octet triples.\<close>

theorem generate_mac_addresses_correct_witness:
  "fair enum_source \<and>
   map_option fst (generate_mac_addresses length 3 enum_source) =
     Some [''00-16-3e-00-00-00'', ''00-16-3e-01-00-00'', ''00-16-3e-02-00-00''] \<and>
   int (length [''00-16-3e-00-00-00'', ''00-16-3e-01-00-00'', ''00-16-3e-02-00-00'']) = 3 \<and>
   distinct [''00-16-3e-00-00-00'', ''00-16-3e-01-00-00'', ''00-16-3e-02-00-00''] \<and>
   list_all mac_format [''00-16-3e-00-00-00'', ''00-16-3e-01-00-00'', ''00-16-3e-02-00-00'']"
proof -
  note e = enum_three
  then obtain s' where "generate_mac_addresses length 3 enum_source =
      Some ([''00-16-3e-00-00-00'', ''00-16-3e-01-00-00'', ''00-16-3e-02-00-00''], s')"
    by (cases "generate_mac_addresses length 3 enum_source") auto
  with generate_mac_addresses_correct [of 3 enum_source length] fair_enum_source e
  show ?thesis by simp
qed

text \<open>
  Claim C4 as stated fails: for the count \<open>2 ^ 23 + 1\<close> the loop never ends, so no list
  of that many identifiers is returned.
\<close>

theorem generate_mac_addresses_never_returns:
  "generate_mac_addresses length (2 ^ 23 + 1) enum_source = None"
proof -
  have "mac_loop (2 ^ 23 + 1) [] enum_source = None"
    by (rule mac_loop_too_many) simp_all
  then show ?thesis by (simp add: generate_mac_addresses_def)
qed

text \<open>
  Claim C8. Two runs of \<^verbatim>\<open>generate_mac_addresses\<close> with the same count, on random sources
  that deliver the same outputs from where they stand, agree: both run forever or both
  return, and they return the same identifiers. Under the same ranking of the strings the
  two lists are equal; under different rankings (the hashing of strings may differ from one
  interpreter run to the next) the lists hold the same set of identifiers.
\<close>

theorem generate_mac_addresses_deterministic:
  assumes "same_draws s t"
  shows "map_option fst (generate_mac_addresses h n s) = map_option fst (generate_mac_addresses h n t) \<and>
         map_option (\<lambda>r. set (fst r)) (generate_mac_addresses h n s) =
           map_option (\<lambda>r. set (fst r)) (generate_mac_addresses h' n t)"
proof -
  from mac_loop_same_draws [OF assms]
  have eq: "map_option fst (mac_loop n [] s) = map_option fst (mac_loop n [] t)" .
  show ?thesis
  proof (cases "mac_loop n [] s")
    case None
    with eq have "mac_loop n [] t = None" by simp
    with None show ?thesis by (simp add: generate_mac_addresses_def)
  next
    case (Some r)
    with eq have "map_option fst (mac_loop n [] t) = Some (fst r)" by simp
    then obtain r' where "mac_loop n [] t = Some r'" "fst r' = fst r"
      by (cases "mac_loop n [] t") auto
    with Some show ?thesis by (simp add: generate_mac_addresses_def split_beta)
  qed
qed

text \<open>Claim C8 on two sources with equal outputs and different positions, count 3.\<close>

theorem generate_mac_addresses_deterministic_witness:
  "same_draws enum_source shifted_source \<and>
   map_option fst (generate_mac_addresses length 3 enum_source) =
     map_option fst (generate_mac_addresses length 3 shifted_source) \<and>
   map_option (\<lambda>r. set (fst r)) (generate_mac_addresses length 3 enum_source) =
     map_option (\<lambda>r. set (fst r)) (generate_mac_addresses last_char_rank 3 shifted_source)"
proof -
  have h: "same_draws enum_source shifted_source"
    by (simp add: same_draws_def enum_source_def shifted_source_def)
  from generate_mac_addresses_deterministic [OF h, of length 3 last_char_rank] h
  show ?thesis by simp
qed

text \<open>
  Claim C10. The identifiers that \<^verbatim>\<open>generate_mac\<close> can produce, over all random sources,
  are exactly \<open>2 ^ 23\<close> strings. For every count up to \<open>2 ^ 23\<close> the loop of
  \<^verbatim>\<open>generate_mac_addresses\<close> ends under every fair random source; for every count above
  \<open>2 ^ 23\<close> it ends under no random source at all.
\<close>

theorem identifier_space_and_termination:
  "card reachable_macs = 2 ^ 23 \<and>
   (count \<le> 2 ^ 23 \<and> fair s \<longrightarrow> (\<exists>r. generate_mac_addresses h count s = Some r)) \<and>
   (2 ^ 23 < count \<longrightarrow> generate_mac_addresses h count s = None)"
proof (intro conjI impI)
  show "card reachable_macs = 2 ^ 23" by (rule card_reachable_macs)
next
  assume "count \<le> 2 ^ 23 \<and> fair s"
  then have "\<exists>r. mac_loop count [] s = Some r"
    by (intro mac_loop_terminates) simp_all
  then show "\<exists>r. generate_mac_addresses h count s = Some r"
    by (auto simp: generate_mac_addresses_def)
next
  assume "2 ^ 23 < count"
  then have "mac_loop count [] s = None"
    by (intro mac_loop_too_many) simp_all
  then show "generate_mac_addresses h count s = None"
    by (simp add: generate_mac_addresses_def)
qed

text \<open>Claim C10 at the counts 2 and \<open>2 ^ 23 + 7\<close>.\<close>

theorem identifier_space_and_termination_witness:
  "fair enum_source \<and> (2::int) \<le> 2 ^ 23 \<and>
   (\<exists>r. generate_mac_addresses length 2 enum_source = Some r) \<and>
   (2 ^ 23 :: int) < 2 ^ 23 + 7 \<and>
   generate_mac_addresses length (2 ^ 23 + 7) enum_source = None"
  using identifier_space_and_termination [of 2 enum_source length]
    identifier_space_and_termination [of "2 ^ 23 + 7" enum_source length] fair_enum_source
  by simp

section \<open>Provisioning: the claims\<close>

lemmas sim_defs = sim_api_def sim_world_def sim_handler_def sim_new_device_def sim_json_def
  sim_network_def

lemmas model_defs = create_device_def ensure_device_def retrieve_credentials_def
  client_get_device_def client_create_device_with_sas_def get_primary_key_def quote_def
  create_devices_from_list_def gather_def create_device_credentials_file_def write_file_def
  connect_device_def connection_string_for_def dict_get_def connect_hub_def

lemma persists_state_sim: "persists_state sim_api"
  by (auto simp: persists_state_def sim_api_def split: option.splits)

text \<open>
  Claim C2. \<^verbatim>\<open>create_device\<close> first fetches the device. When the fetch succeeds, the
  registry is only read (two \<^verbatim>\<open>get_device\<close> calls, no creation); when it raises, the next
  call is the creation with no keys given and status enabled. A credential that is
  returned carries the identifier that was passed in and the primary key of the device as
  the registry reported it in the last call of the run, the fetch made after the lookup
  or the creation. Against a registry that persists state, a second call with the same
  identifier returns the same credential, again from a fresh fetch, and creates nothing.
\<close>

theorem create_device_idempotent:
  assumes cs: "device_client self = Some cs"
    and run: "create_device a self device_id w = (r, w1)"
  shows "((\<exists>d e1. get_device a cs device_id (env w) = (Inr d, e1)) \<longrightarrow>
            calls w1 = calls w @ [GetDevice device_id, GetDevice device_id]) \<and>
         ((\<exists>x e1. get_device a cs device_id (env w) = (Inl x, e1)) \<longrightarrow>
            take (length (calls w) + 2) (calls w1) =
              calls w @ [GetDevice device_id,
                         CreateDeviceWithSas device_id NoneVal NoneVal ''enabled'']) \<and>
         (\<forall>c. r = Inr c \<and> c \<noteq> [] \<longrightarrow>
            (\<exists>e info k.
               get_device a cs device_id e = (Inr info, env w1) \<and>
               get_primary_key info = Inr k \<and>
               c = [(''hostname'', Str (hostname self)), (''device_id'', Str device_id),
                    (''shared_access_key'', k)] \<and>
               last (calls w1) = GetDevice device_id) \<and>
            (persists_state a \<longrightarrow>
               create_device a self device_id w1 =
                 (Inr c, w1\<lparr>calls := calls w1 @ [GetDevice device_id, GetDevice device_id],
                           log := log w1 @
                             [(INFO, ''Device '' @ quote device_id @ '' already exists.'')]\<rparr>)))"
proof (intro conjI impI allI)
  assume "\<exists>d e1. get_device a cs device_id (env w) = (Inr d, e1)"
  then show "calls w1 = calls w @ [GetDevice device_id, GetDevice device_id]"
    using create_device_found_calls [OF cs _ run] by blast
next
  assume "\<exists>x e1. get_device a cs device_id (env w) = (Inl x, e1)"
  then show "take (length (calls w) + 2) (calls w1) =
      calls w @ [GetDevice device_id, CreateDeviceWithSas device_id NoneVal NoneVal ''enabled'']"
    using create_device_missing_calls [OF cs _ run] by blast
next
  fix c
  assume "r = Inr c \<and> c \<noteq> []"
  with run have run': "create_device a self device_id w = (Inr c, w1)" and ne: "c \<noteq> []"
    by simp_all
  from create_device_nonempty [OF run' ne] cs obtain wm info k where
    g: "get_device a cs device_id (env wm) = (Inr info, env w1)"
    and k: "get_primary_key info = Inr k"
    and c: "c = credential self device_id k"
    and w1: "w1 = wm\<lparr>env := env w1, calls := calls wm @ [GetDevice device_id]\<rparr>"
    by auto
  have lastcall: "last (calls w1) = GetDevice device_id"
    by (subst w1) simp
  from g k c lastcall
  show "\<exists>e info k.
       get_device a cs device_id e = (Inr info, env w1) \<and>
       get_primary_key info = Inr k \<and>
       c = [(''hostname'', Str (hostname self)), (''device_id'', Str device_id),
            (''shared_access_key'', k)] \<and>
       last (calls w1) = GetDevice device_id"
    unfolding credential_def by blast
  assume "persists_state a"
  with g have "get_device a cs device_id (env w1) = (Inr info, env w1)"
    unfolding persists_state_def by blast
  from create_device_again [OF cs this k] c
  show "create_device a self device_id w1 =
      (Inr c, w1\<lparr>calls := calls w1 @ [GetDevice device_id, GetDevice device_id],
                log := log w1 @ [(INFO, ''Device '' @ quote device_id @ '' already exists.'')]\<rparr>)"
    by simp
qed

lemma sim_create_a:
  "fst (create_device sim_api sim_handler ''a'' (sim_world [] [] [])) =
     Inr [(''hostname'', Str ''hub.example.net''), (''device_id'', Str ''a''),
          (''shared_access_key'', Str ''key-a'')]"
  "calls (snd (create_device sim_api sim_handler ''a'' (sim_world [] [] []))) =
     [GetDevice ''a'', CreateDeviceWithSas ''a'' NoneVal NoneVal ''enabled'', GetDevice ''a'']"
  by (simp_all add: model_defs monad_defs sim_defs)

text \<open>Claim C2 on the simulated registry, first empty: the first call creates, the second finds.\<close>

theorem create_device_idempotent_witness:
  "device_client sim_handler \<noteq> None \<and> persists_state sim_api \<and>
   fst (create_device sim_api sim_handler ''a'' (sim_world [] [] [])) =
     Inr [(''hostname'', Str ''hub.example.net''), (''device_id'', Str ''a''),
          (''shared_access_key'', Str ''key-a'')] \<and>
   fst (create_device sim_api sim_handler ''a''
          (snd (create_device sim_api sim_handler ''a'' (sim_world [] [] [])))) =
     Inr [(''hostname'', Str ''hub.example.net''), (''device_id'', Str ''a''),
          (''shared_access_key'', Str ''key-a'')] \<and>
   calls (snd (create_device sim_api sim_handler ''a''
          (snd (create_device sim_api sim_handler ''a'' (sim_world [] [] []))))) =
     [GetDevice ''a'', CreateDeviceWithSas ''a'' NoneVal NoneVal ''enabled'', GetDevice ''a'',
      GetDevice ''a'', GetDevice ''a'']"
proof -
  obtain cs where cs: "device_client sim_handler = Some cs"
    by (simp add: sim_handler_def)
  have run: "create_device sim_api sim_handler ''a'' (sim_world [] [] []) =
      (Inr [(''hostname'', Str ''hub.example.net''), (''device_id'', Str ''a''),
            (''shared_access_key'', Str ''key-a'')],
       snd (create_device sim_api sim_handler ''a'' (sim_world [] [] [])))"
    using sim_create_a(1) by (simp add: prod_eq_iff)
  from create_device_idempotent [OF cs run] persists_state_sim
  have "create_device sim_api sim_handler ''a''
          (snd (create_device sim_api sim_handler ''a'' (sim_world [] [] []))) =
        (Inr [(''hostname'', Str ''hub.example.net''), (''device_id'', Str ''a''),
              (''shared_access_key'', Str ''key-a'')],
         (snd (create_device sim_api sim_handler ''a'' (sim_world [] [] [])))
           \<lparr>calls := calls (snd (create_device sim_api sim_handler ''a'' (sim_world [] [] []))) @
                      [GetDevice ''a'', GetDevice ''a''],
            log := log (snd (create_device sim_api sim_handler ''a'' (sim_world [] [] []))) @
                      [(INFO, ''Device '' @ quote ''a'' @ '' already exists.'')]\<rparr>)"
    by simp
  with cs persists_state_sim sim_create_a show ?thesis by simp
qed

lemma gather_create_devices:
  "\<exists>cs w'. gather (map (create_device a self) device_ids) w = (Inr cs, w') \<and>
     length cs = length device_ids"
proof -
  from run_create_devices [of a self device_ids w] obtain cs w' where
    "run_tasks (map (create_device a self) device_ids) w = (map Inr cs, w')"
    "length cs = length device_ids"
    by blast
  then show ?thesis by (simp add: gather_def first_exception_map_Inr)
qed

text \<open>
  Claim C3, as amended. \<^verbatim>\<open>create_device\<close> never raises: it returns the empty dictionary
  or a full credential. An exception raised by the creation call, by the fetch that
  follows the lookup or the creation, or by reading the primary key out of the fetched
  device is caught, logged as an error and makes the result empty. An exception raised by
  the existence lookup is caught too, but it does not make the result empty: it starts the
  creation, and the result is then that of the key retrieval. Run over a list of
  identifiers, the tasks all return, so \<^verbatim>\<open>gather\<close> returns one result per identifier
  and a failing device does not abort the batch.
\<close>

theorem create_device_isolates_failures:
  "(\<exists>c w'. create_device a self device_id w = (Inr c, w') \<and>
      (c = [] \<or> (\<exists>k. c = [(''hostname'', Str (hostname self)), (''device_id'', Str device_id),
                              (''shared_access_key'', k)]))) \<and>
   (\<forall>e w1 e' w2.
      client_get_device a self device_id w = (Inl e, w1) \<and>
      client_create_device_with_sas a self device_id NoneVal NoneVal ''enabled''
        (w1\<lparr>log := log w1 @ [(INFO, ''Creating device '' @ quote device_id @ ''...'')]\<rparr>) = (Inl e', w2) \<longrightarrow>
      create_device a self device_id w =
        (Inr [], w2\<lparr>log := log w2 @
           [(ERROR, ''Error creating device '' @ quote device_id @ '': '' @ exn_str e')]\<rparr>)) \<and>
   (\<forall>wm e w2.
      ensure_device a self device_id w = (Inr None, wm) \<and>
      client_get_device a self device_id wm = (Inl e, w2) \<longrightarrow>
      create_device a self device_id w =
        (Inr [], w2\<lparr>log := log w2 @
           [(ERROR, ''Error retrieving credentials for device '' @ quote device_id @ '': '' @ exn_str e)]\<rparr>)) \<and>
   (\<forall>wm info e w2.
      ensure_device a self device_id w = (Inr None, wm) \<and>
      client_get_device a self device_id wm = (Inr info, w2) \<and>
      get_primary_key info = Inl e \<longrightarrow>
      create_device a self device_id w =
        (Inr [], w2\<lparr>log := log w2 @
           [(ERROR, ''Error retrieving credentials for device '' @ quote device_id @ '': '' @ exn_str e)]\<rparr>)) \<and>
   (\<forall>e w1 d w2.
      client_get_device a self device_id w = (Inl e, w1) \<and>
      client_create_device_with_sas a self device_id NoneVal NoneVal ''enabled''
        (w1\<lparr>log := log w1 @ [(INFO, ''Creating device '' @ quote device_id @ ''...'')]\<rparr>) = (Inr d, w2) \<longrightarrow>
      create_device a self device_id w =
        retrieve_credentials a self device_id
          (w2\<lparr>log := log w2 @ [(INFO, ''Device '' @ quote device_id @ '' created successfully.'')]\<rparr>)) \<and>
   (\<exists>cs w'. gather (map (create_device a self) device_ids) w = (Inr cs, w') \<and>
      length cs = length device_ids)"
proof (intro conjI allI impI)
  show "\<exists>c w'. create_device a self device_id w = (Inr c, w') \<and>
      (c = [] \<or> (\<exists>k. c = [(''hostname'', Str (hostname self)), (''device_id'', Str device_id),
                              (''shared_access_key'', k)]))"
    using create_device_returns [of a self device_id w] by (simp add: credential_def)
next
  fix e w1 e' w2
  assume h: "client_get_device a self device_id w = (Inl e, w1) \<and>
      client_create_device_with_sas a self device_id NoneVal NoneVal ''enabled''
        (w1\<lparr>log := log w1 @ [(INFO, ''Creating device '' @ quote device_id @ ''...'')]\<rparr>) = (Inl e', w2)"
  have "ensure_device a self device_id w =
      (Inr (Some []), w2\<lparr>log := log w2 @
           [(ERROR, ''Error creating device '' @ quote device_id @ '': '' @ exn_str e')]\<rparr>)"
    by (rule ensure_device_refused [OF conjunct1 [OF h] conjunct2 [OF h]])
  then show "create_device a self device_id w =
        (Inr [], w2\<lparr>log := log w2 @
           [(ERROR, ''Error creating device '' @ quote device_id @ '': '' @ exn_str e')]\<rparr>)"
    by (rule create_device_early_return)
next
  fix wm e w2
  assume "ensure_device a self device_id w = (Inr None, wm) \<and>
      client_get_device a self device_id wm = (Inl e, w2)"
  then show "create_device a self device_id w =
        (Inr [], w2\<lparr>log := log w2 @
           [(ERROR, ''Error retrieving credentials for device '' @ quote device_id @ '': '' @ exn_str e)]\<rparr>)"
    by (simp add: create_device_continue retrieve_credentials_get_fails)
next
  fix wm info e w2
  assume "ensure_device a self device_id w = (Inr None, wm) \<and>
      client_get_device a self device_id wm = (Inr info, w2) \<and>
      get_primary_key info = Inl e"
  then show "create_device a self device_id w =
        (Inr [], w2\<lparr>log := log w2 @
           [(ERROR, ''Error retrieving credentials for device '' @ quote device_id @ '': '' @ exn_str e)]\<rparr>)"
    by (simp add: create_device_continue retrieve_credentials_key_fails)
next
  fix e w1 d w2
  assume h: "client_get_device a self device_id w = (Inl e, w1) \<and>
      client_create_device_with_sas a self device_id NoneVal NoneVal ''enabled''
        (w1\<lparr>log := log w1 @ [(INFO, ''Creating device '' @ quote device_id @ ''...'')]\<rparr>) = (Inr d, w2)"
  have "ensure_device a self device_id w =
      (Inr None, w2\<lparr>log := log w2 @ [(INFO, ''Device '' @ quote device_id @ '' created successfully.'')]\<rparr>)"
    by (rule ensure_device_created [OF conjunct1 [OF h] conjunct2 [OF h]])
  then show "create_device a self device_id w =
        retrieve_credentials a self device_id
          (w2\<lparr>log := log w2 @ [(INFO, ''Device '' @ quote device_id @ '' created successfully.'')]\<rparr>)"
    by (rule create_device_continue)
next
  show "\<exists>cs w'. gather (map (create_device a self) device_ids) w = (Inr cs, w') \<and>
      length cs = length device_ids"
    by (rule gather_create_devices)
qed

lemma sim_refused_b:
  "fst (client_get_device sim_api sim_handler ''b'' (sim_world [] [''b''] [])) =
     Inl (Error ''DeviceNotFound'')"
  "fst (client_create_device_with_sas sim_api sim_handler ''b'' NoneVal NoneVal ''enabled''
         ((snd (client_get_device sim_api sim_handler ''b'' (sim_world [] [''b''] [])))
            \<lparr>log := log (snd (client_get_device sim_api sim_handler ''b'' (sim_world [] [''b''] []))) @
                     [(INFO, ''Creating device '' @ quote ''b'' @ ''...'')]\<rparr>)) =
     Inl (Error ''Refused'')"
  by (simp_all add: model_defs monad_defs sim_defs)

text \<open>
  The amended claim C3 on the simulated registry refusing to create \<open>b\<close>: the call for
  \<open>b\<close> returns empty with the error logged, and the batch \<open>a, b, c\<close> returns its three
  results.
\<close>

theorem create_device_isolates_failures_witness:
  "fst (client_get_device sim_api sim_handler ''b'' (sim_world [] [''b''] [])) =
     Inl (Error ''DeviceNotFound'') \<and>
   fst (create_device sim_api sim_handler ''b'' (sim_world [] [''b''] [])) = Inr [] \<and>
   last (log (snd (create_device sim_api sim_handler ''b'' (sim_world [] [''b''] [])))) =
     (ERROR, ''Error creating device '' @ quote ''b'' @ '': Refused'') \<and>
   fst (gather (map (create_device sim_api sim_handler) [''a'', ''b'', ''c''])
          (sim_world [] [''b''] [])) =
     Inr [[(''hostname'', Str ''hub.example.net''), (''device_id'', Str ''a''),
           (''shared_access_key'', Str ''key-a'')],
          [],
          [(''hostname'', Str ''hub.example.net''), (''device_id'', Str ''c''),
           (''shared_access_key'', Str ''key-c'')]]"
proof -
  let ?w = "sim_world [] [''b''] []"
  let ?w1 = "snd (client_get_device sim_api sim_handler ''b'' ?w)"
  let ?w1' = "?w1\<lparr>log := log ?w1 @ [(INFO, ''Creating device '' @ quote ''b'' @ ''...'')]\<rparr>"
  let ?w2 = "snd (client_create_device_with_sas sim_api sim_handler ''b'' NoneVal NoneVal ''enabled'' ?w1')"
  have g: "client_get_device sim_api sim_handler ''b'' ?w = (Inl (Error ''DeviceNotFound''), ?w1)"
    using sim_refused_b(1) by (simp add: prod_eq_iff)
  have c: "client_create_device_with_sas sim_api sim_handler ''b'' NoneVal NoneVal ''enabled'' ?w1' =
      (Inl (Error ''Refused''), ?w2)"
    using sim_refused_b(2) by (simp add: prod_eq_iff)
  from create_device_isolates_failures [of sim_api sim_handler "''b''" ?w "[]"] g c
  have "create_device sim_api sim_handler ''b'' ?w =
      (Inr [], ?w2\<lparr>log := log ?w2 @
         [(ERROR, ''Error creating device '' @ quote ''b'' @ '': '' @ exn_str (Error ''Refused''))]\<rparr>)"
    by blast
  then have "fst (create_device sim_api sim_handler ''b'' ?w) = Inr []"
    "last (log (snd (create_device sim_api sim_handler ''b'' ?w))) =
       (ERROR, ''Error creating device '' @ quote ''b'' @ '': Refused'')"
    by simp_all
  moreover have "fst (gather (map (create_device sim_api sim_handler) [''a'', ''b'', ''c'']) ?w) =
     Inr [[(''hostname'', Str ''hub.example.net''), (''device_id'', Str ''a''),
           (''shared_access_key'', Str ''key-a'')],
          [],
          [(''hostname'', Str ''hub.example.net''), (''device_id'', Str ''c''),
           (''shared_access_key'', Str ''key-c'')]]"
    by (simp add: model_defs monad_defs sim_defs)
  ultimately show ?thesis using sim_refused_b(1) by simp
qed

text \<open>
  Claim C3 as stated fails: on an empty registry the existence lookup for \<open>a\<close> raises,
  and \<^verbatim>\<open>create_device\<close> returns a credential, not an empty result.
\<close>

theorem lookup_exception_not_empty:
  "fst (client_get_device sim_api sim_handler ''a'' (sim_world [] [] [])) =
     Inl (Error ''DeviceNotFound'') \<and>
   fst (create_device sim_api sim_handler ''a'' (sim_world [] [] [])) =
     Inr [(''hostname'', Str ''hub.example.net''), (''device_id'', Str ''a''),
          (''shared_access_key'', Str ''key-a'')] \<and>
   fst (create_device sim_api sim_handler ''a'' (sim_world [] [] [])) \<noteq> Inr []"
  by (simp add: model_defs monad_defs sim_defs)

text \<open>
  Claim C1, as amended. For every list of identifiers, \<^verbatim>\<open>create_devices_from_list\<close> runs
  one \<^verbatim>\<open>create_device\<close> per identifier; each of them returns, so there is one result per
  identifier, in the order of the list. The call never raises. The store it returns has
  distinct keys and maps an identifier to the last non-empty result at a position holding
  that identifier; when the identifiers are pairwise distinct it is exactly the list of the
  identifiers with a non-empty result, each with its result. The write of that very store
  to the credential file is the last step before returning, whatever the store holds, and
  the file holds the serialization of the store whenever the write meets no error. If the
  identifiers are pairwise distinct and exactly one result is empty, the store has
  \<open>N - 1\<close> entries.
\<close>

theorem create_devices_from_list_store:
  assumes run: "run_tasks (map (create_device a self) device_ids) w = (outcomes, w1)"
  shows "\<exists>credentials_list all_credentials w2.
           outcomes = map Inr credentials_list \<and>
           length credentials_list = length device_ids \<and>
           create_devices_from_list a self device_ids w = (Inr all_credentials, w2) \<and>
           create_device_credentials_file a all_credentials w1 = (Inr (), w2) \<and>
           distinct (map fst all_credentials) \<and>
           map_of all_credentials =
             map_of (rev (filter nonempty (zip device_ids credentials_list))) \<and>
           (distinct device_ids \<longrightarrow>
              all_credentials = filter nonempty (zip device_ids credentials_list)) \<and>
           (distinct device_ids \<and> length (filter (\<lambda>c. c = []) credentials_list) = 1 \<longrightarrow>
              length all_credentials = length device_ids - 1) \<and>
           (fst (file_write a ''iothub_device_credential.json'' (json_dumps a all_credentials)
                   (env w1)) = WriteOk \<longrightarrow>
              files w2 ''iothub_device_credential.json'' = Some (json_dumps a all_credentials))"
proof -
  from create_devices_from_list_eq [OF run] obtain cs st w2 where
    o: "outcomes = map Inr cs" and len: "length cs = length device_ids"
    and st: "st = fold (\<lambda>p. AList.update (fst p) (snd p)) (filter nonempty (zip device_ids cs)) []"
    and p: "create_device_credentials_file a st w1 = (Inr (), w2)"
    and r: "create_devices_from_list a self device_ids w = (Inr st, w2)"
    by blast
  have d: "distinct (map fst st)"
    unfolding st by (rule fold_update_distinct) simp
  have m: "map_of st = map_of (rev (filter nonempty (zip device_ids cs)))"
    unfolding st by (simp add: fold_update_map_of)
  have l: "st = filter nonempty (zip device_ids cs)" if "distinct device_ids"
    unfolding st using fold_update_append [OF distinct_filter_zip [OF that], of cs "[]"] by simp
  have n: "length st = length device_ids - 1"
    if "distinct device_ids \<and> length (filter (\<lambda>c. c = []) cs) = 1"
    using l that length_filter_nonempty_zip [of device_ids cs] len by simp
  have f: "fst (file_write a ''iothub_device_credential.json'' (json_dumps a st) (env w1)) = WriteOk \<longrightarrow>
      files w2 ''iothub_device_credential.json'' = Some (json_dumps a st)"
    using credentials_file_content [OF p] by blast
  from o len r p d m l n f show ?thesis by blast
qed

lemma sim_batch_run:
  "run_tasks (map (create_device sim_api sim_handler) [''a'', ''a'', ''b''])
     (sim_world [] [''b''] [OpenFails (Error ''PermissionDenied'')]) =
   ([Inr [(''hostname'', Str ''hub.example.net''), (''device_id'', Str ''a''),
          (''shared_access_key'', Str ''key-a'')],
     Inr [(''hostname'', Str ''hub.example.net''), (''device_id'', Str ''a''),
          (''shared_access_key'', Str ''key-a'')],
     Inr []],
    snd (run_tasks (map (create_device sim_api sim_handler) [''a'', ''a'', ''b''])
     (sim_world [] [''b''] [OpenFails (Error ''PermissionDenied'')])))"
  by (simp add: model_defs monad_defs sim_defs prod_eq_iff)

lemma sim_batch_result:
  "fst (create_devices_from_list sim_api sim_handler [''a'', ''a'', ''b'']
          (sim_world [] [''b''] [OpenFails (Error ''PermissionDenied'')])) =
     Inr [(''a'', [(''hostname'', Str ''hub.example.net''), (''device_id'', Str ''a''),
                   (''shared_access_key'', Str ''key-a'')])]"
  "files (snd (create_devices_from_list sim_api sim_handler [''a'', ''a'', ''b'']
          (sim_world [] [''b''] [OpenFails (Error ''PermissionDenied'')])))
     ''iothub_device_credential.json'' = None"
  by (simp_all add: model_defs monad_defs sim_defs Let_def)

text \<open>
  Claim C1 as stated fails for the batch \<open>a, a, b\<close> on a registry refusing \<open>b\<close> and a disk
  refusing the write: exactly one of the three results is empty, the store has one entry
  and not two, and the credential file does not exist after the call.
\<close>

theorem duplicate_identifiers_shrink_store:
  "fst (run_tasks (map (create_device sim_api sim_handler) [''a'', ''a'', ''b''])
     (sim_world [] [''b''] [OpenFails (Error ''PermissionDenied'')])) =
     [Inr [(''hostname'', Str ''hub.example.net''), (''device_id'', Str ''a''),
          (''shared_access_key'', Str ''key-a'')],
      Inr [(''hostname'', Str ''hub.example.net''), (''device_id'', Str ''a''),
          (''shared_access_key'', Str ''key-a'')],
      Inr []] \<and>
   fst (create_devices_from_list sim_api sim_handler [''a'', ''a'', ''b'']
          (sim_world [] [''b''] [OpenFails (Error ''PermissionDenied'')])) =
     Inr [(''a'', [(''hostname'', Str ''hub.example.net''), (''device_id'', Str ''a''),
                   (''shared_access_key'', Str ''key-a'')])] \<and>
   length [(''a'', [(''hostname'', Str ''hub.example.net''), (''device_id'', Str ''a''),
                    (''shared_access_key'', Str ''key-a'')])] \<noteq>
     length [''a'', ''a'', ''b''] - 1 \<and>
   files (snd (create_devices_from_list sim_api sim_handler [''a'', ''a'', ''b'']
          (sim_world [] [''b''] [OpenFails (Error ''PermissionDenied'')])))
     ''iothub_device_credential.json'' = None"
proof (intro conjI)
  show "fst (run_tasks (map (create_device sim_api sim_handler) [''a'', ''a'', ''b''])
     (sim_world [] [''b''] [OpenFails (Error ''PermissionDenied'')])) =
     [Inr [(''hostname'', Str ''hub.example.net''), (''device_id'', Str ''a''),
          (''shared_access_key'', Str ''key-a'')],
      Inr [(''hostname'', Str ''hub.example.net''), (''device_id'', Str ''a''),
          (''shared_access_key'', Str ''key-a'')],
      Inr []]"
    by (subst sim_batch_run) (rule fst_conv)
qed (simp_all add: sim_batch_result)

lemma sim_three_run:
  "run_tasks (map (create_device sim_api sim_handler) [''a'', ''b'', ''c''])
     (sim_world [] [''b''] []) =
   ([Inr [(''hostname'', Str ''hub.example.net''), (''device_id'', Str ''a''),
          (''shared_access_key'', Str ''key-a'')],
     Inr [],
     Inr [(''hostname'', Str ''hub.example.net''), (''device_id'', Str ''c''),
          (''shared_access_key'', Str ''key-c'')]],
    snd (run_tasks (map (create_device sim_api sim_handler) [''a'', ''b'', ''c''])
     (sim_world [] [''b''] [])))"
  by (simp add: model_defs monad_defs sim_defs prod_eq_iff)

lemma sim_three_result:
  "fst (create_devices_from_list sim_api sim_handler [''a'', ''b'', ''c''] (sim_world [] [''b''] [])) =
     Inr [(''a'', [(''hostname'', Str ''hub.example.net''), (''device_id'', Str ''a''),
                   (''shared_access_key'', Str ''key-a'')]),
          (''c'', [(''hostname'', Str ''hub.example.net''), (''device_id'', Str ''c''),
                   (''shared_access_key'', Str ''key-c'')])]"
  "files (snd (create_devices_from_list sim_api sim_handler [''a'', ''b'', ''c'']
          (sim_world [] [''b''] []))) ''iothub_device_credential.json'' =
     Some (sim_json
        [(''a'', [(''hostname'', Str ''hub.example.net''), (''device_id'', Str ''a''),
                   (''shared_access_key'', Str ''key-a'')]),
          (''c'', [(''hostname'', Str ''hub.example.net''), (''device_id'', Str ''c''),
                   (''shared_access_key'', Str ''key-c'')])])"
  by (simp_all add: model_defs monad_defs sim_defs Let_def)

text \<open>The amended claim C1 for the batch \<open>a, b, c\<close> on a registry refusing \<open>b\<close>.\<close>

theorem create_devices_from_list_store_witness:
  "distinct [''a'', ''b'', ''c''] \<and>
   fst (run_tasks (map (create_device sim_api sim_handler) [''a'', ''b'', ''c''])
     (sim_world [] [''b''] [])) =
     [Inr [(''hostname'', Str ''hub.example.net''), (''device_id'', Str ''a''),
          (''shared_access_key'', Str ''key-a'')],
      Inr [],
      Inr [(''hostname'', Str ''hub.example.net''), (''device_id'', Str ''c''),
          (''shared_access_key'', Str ''key-c'')]] \<and>
   (\<exists>st w2. create_devices_from_list sim_api sim_handler [''a'', ''b'', ''c'']
                (sim_world [] [''b''] []) = (Inr st, w2) \<and>
      st = [(''a'', [(''hostname'', Str ''hub.example.net''), (''device_id'', Str ''a''),
                   (''shared_access_key'', Str ''key-a'')]),
            (''c'', [(''hostname'', Str ''hub.example.net''), (''device_id'', Str ''c''),
                   (''shared_access_key'', Str ''key-c'')])] \<and>
      length st = length [''a'', ''b'', ''c''] - 1 \<and>
      files w2 ''iothub_device_credential.json'' = Some (sim_json st))"
proof -
  from create_devices_from_list_store [OF sim_three_run] obtain cl st w2 where
    cl: "[Inr [(''hostname'', Str ''hub.example.net''), (''device_id'', Str ''a''),
          (''shared_access_key'', Str ''key-a'')],
     Inr [],
     Inr [(''hostname'', Str ''hub.example.net''), (''device_id'', Str ''c''),
          (''shared_access_key'', Str ''key-c'')]] = (map Inr cl :: (exn + pydict) list)"
    and r: "create_devices_from_list sim_api sim_handler [''a'', ''b'', ''c'']
                (sim_world [] [''b''] []) = (Inr st, w2)"
    and n: "distinct [''a'', ''b'', ''c''] \<and> length (filter (\<lambda>c. c = []) cl) = 1 \<longrightarrow>
              length st = length [''a'', ''b'', ''c''] - 1"
    by (elim exE conjE) (rule that; assumption)
  from cl have "cl = [[(''hostname'', Str ''hub.example.net''), (''device_id'', Str ''a''),
          (''shared_access_key'', Str ''key-a'')], [],
          [(''hostname'', Str ''hub.example.net''), (''device_id'', Str ''c''),
          (''shared_access_key'', Str ''key-c'')]]"
    by auto
  with n have len: "length st = length [''a'', ''b'', ''c''] - 1" by simp
  from r sim_three_result have
    "st = [(''a'', [(''hostname'', Str ''hub.example.net''), (''device_id'', Str ''a''),
                   (''shared_access_key'', Str ''key-a'')]),
            (''c'', [(''hostname'', Str ''hub.example.net''), (''device_id'', Str ''c''),
                   (''shared_access_key'', Str ''key-c'')])]"
    "files w2 ''iothub_device_credential.json'' = Some (sim_json st)"
    by simp_all
  with r len have "\<exists>st w2. create_devices_from_list sim_api sim_handler [''a'', ''b'', ''c'']
                (sim_world [] [''b''] []) = (Inr st, w2) \<and>
      st = [(''a'', [(''hostname'', Str ''hub.example.net''), (''device_id'', Str ''a''),
                   (''shared_access_key'', Str ''key-a'')]),
            (''c'', [(''hostname'', Str ''hub.example.net''), (''device_id'', Str ''c''),
                   (''shared_access_key'', Str ''key-c'')])] \<and>
      length st = length [''a'', ''b'', ''c''] - 1 \<and>
      files w2 ''iothub_device_credential.json'' = Some (sim_json st)"
    by blast
  moreover have "fst (run_tasks (map (create_device sim_api sim_handler) [''a'', ''b'', ''c''])
     (sim_world [] [''b''] [])) =
     [Inr [(''hostname'', Str ''hub.example.net''), (''device_id'', Str ''a''),
          (''shared_access_key'', Str ''key-a'')],
      Inr [],
      Inr [(''hostname'', Str ''hub.example.net''), (''device_id'', Str ''c''),
          (''shared_access_key'', Str ''key-c'')]]"
    by (subst sim_three_run) (rule fst_conv)
  moreover have "distinct [''a'', ''b'', ''c'']" by simp
  ultimately show ?thesis by blast
qed

lemma gather_world:
  "snd (gather tasks w) = snd (run_tasks tasks w)"
  by (simp add: gather_def split_beta)

text \<open>
  Claim C5, as amended. After the second of two calls of \<^verbatim>\<open>create_devices_from_list\<close> in
  sequence, the credential file holds exactly the serialization of the store of the second
  call whenever the write of the second call meets no error, whatever the first call left
  in the file. When \<^verbatim>\<open>open\<close> raises in the second call the files are as the first call
  left them, and when the dump raises the file holds a prefix of the new serialization: in
  no case are entries of the two stores merged.
\<close>

theorem credentials_file_overwritten:
  assumes first: "create_devices_from_list a self device_ids w = (Inr st, w1)"
    and second: "create_devices_from_list a self' device_ids' w1 = (Inr st', w2)"
  shows "(fst (file_write a ''iothub_device_credential.json'' (json_dumps a st')
                (env (snd (gather (map (create_device a self') device_ids') w1)))) = WriteOk \<longrightarrow>
            files w2 ''iothub_device_credential.json'' = Some (json_dumps a st')) \<and>
         (\<forall>e. fst (file_write a ''iothub_device_credential.json'' (json_dumps a st')
                (env (snd (gather (map (create_device a self') device_ids') w1)))) = OpenFails e \<longrightarrow>
            files w2 = files w1) \<and>
         (\<forall>k e. fst (file_write a ''iothub_device_credential.json'' (json_dumps a st')
                (env (snd (gather (map (create_device a self') device_ids') w1)))) = DumpFails k e \<longrightarrow>
            files w2 ''iothub_device_credential.json'' = Some (take k (json_dumps a st')))"
proof -
  obtain outcomes wm where run: "run_tasks (map (create_device a self') device_ids') w1 = (outcomes, wm)"
    by (cases "run_tasks (map (create_device a self') device_ids') w1")
  from create_devices_from_list_eq [OF run] second obtain w2' where
    fl: "files wm = files w1"
    and p: "create_device_credentials_file a st' wm = (Inr (), w2')"
    and r: "create_devices_from_list a self' device_ids' w1 = (Inr st', w2')"
    by auto
  from r second have w2: "w2' = w2" by simp
  have wm: "snd (gather (map (create_device a self') device_ids') w1) = wm"
    using run by (simp add: gather_world)
  from credentials_file_content [OF p] show ?thesis
    unfolding wm w2 fl by blast
qed

lemma sim_two_runs:
  "fst (create_devices_from_list sim_api sim_handler [''a''] (sim_world [] [] [])) =
     Inr [(''a'', [(''hostname'', Str ''hub.example.net''), (''device_id'', Str ''a''),
                   (''shared_access_key'', Str ''key-a'')])]"
  "fst (create_devices_from_list sim_api sim_handler [''b'']
     (snd (create_devices_from_list sim_api sim_handler [''a''] (sim_world [] [] [])))) =
     Inr [(''b'', [(''hostname'', Str ''hub.example.net''), (''device_id'', Str ''b''),
                   (''shared_access_key'', Str ''key-b'')])]"
  "fst (file_write sim_api ''iothub_device_credential.json''
          (json_dumps sim_api
             [(''b'', [(''hostname'', Str ''hub.example.net''), (''device_id'', Str ''b''),
                   (''shared_access_key'', Str ''key-b'')])])
          (env (snd (gather (map (create_device sim_api sim_handler) [''b''])
             (snd (create_devices_from_list sim_api sim_handler [''a''] (sim_world [] [] []))))))) =
     WriteOk"
  "json_dumps sim_api = sim_json"
  by (simp_all add: model_defs monad_defs sim_defs Let_def)

text \<open>
  The amended claim C5 on the simulated environment: a run for \<open>a\<close>, then a run for \<open>b\<close>;
  the file holds the entry of \<open>b\<close> alone.
\<close>

theorem credentials_file_overwritten_witness:
  "fst (create_devices_from_list sim_api sim_handler [''a''] (sim_world [] [] [])) =
     Inr [(''a'', [(''hostname'', Str ''hub.example.net''), (''device_id'', Str ''a''),
                   (''shared_access_key'', Str ''key-a'')])] \<and>
   fst (create_devices_from_list sim_api sim_handler [''b'']
     (snd (create_devices_from_list sim_api sim_handler [''a''] (sim_world [] [] [])))) =
     Inr [(''b'', [(''hostname'', Str ''hub.example.net''), (''device_id'', Str ''b''),
                   (''shared_access_key'', Str ''key-b'')])] \<and>
   files (snd (create_devices_from_list sim_api sim_handler [''b'']
     (snd (create_devices_from_list sim_api sim_handler [''a''] (sim_world [] [] [])))))
     ''iothub_device_credential.json'' =
     Some (sim_json [(''b'', [(''hostname'', Str ''hub.example.net''), (''device_id'', Str ''b''),
                   (''shared_access_key'', Str ''key-b'')])])"
proof -
  let ?w1 = "snd (create_devices_from_list sim_api sim_handler [''a''] (sim_world [] [] []))"
  let ?w2 = "snd (create_devices_from_list sim_api sim_handler [''b''] ?w1)"
  have first: "create_devices_from_list sim_api sim_handler [''a''] (sim_world [] [] []) =
      (Inr [(''a'', [(''hostname'', Str ''hub.example.net''), (''device_id'', Str ''a''),
                   (''shared_access_key'', Str ''key-a'')])], ?w1)"
    using sim_two_runs(1) by (simp add: prod_eq_iff)
  have second: "create_devices_from_list sim_api sim_handler [''b''] ?w1 =
      (Inr [(''b'', [(''hostname'', Str ''hub.example.net''), (''device_id'', Str ''b''),
                   (''shared_access_key'', Str ''key-b'')])], ?w2)"
    using sim_two_runs(2) by (simp add: prod_eq_iff)
  have "files ?w2 ''iothub_device_credential.json'' =
      Some (json_dumps sim_api [(''b'', [(''hostname'', Str ''hub.example.net''), (''device_id'', Str ''b''),
                   (''shared_access_key'', Str ''key-b'')])])"
    by (rule mp [OF conjunct1 [OF credentials_file_overwritten [OF first second]] sim_two_runs(3)])
  then show ?thesis
    using sim_two_runs(1,2) by (simp only: sim_two_runs(4) simp_thms)
qed

text \<open>
  Claim C5 as stated fails when the disk refuses the second write: the file still holds the
  serialization of the first store, which differs from that of the second.
\<close>

theorem failed_write_keeps_old_file:
  "fst (create_devices_from_list sim_api sim_handler [''a'']
         (sim_world [] [] [WriteOk, OpenFails (Error ''PermissionDenied'')])) =
     Inr [(''a'', [(''hostname'', Str ''hub.example.net''), (''device_id'', Str ''a''),
                   (''shared_access_key'', Str ''key-a'')])] \<and>
   fst (create_devices_from_list sim_api sim_handler [''b'']
     (snd (create_devices_from_list sim_api sim_handler [''a'']
         (sim_world [] [] [WriteOk, OpenFails (Error ''PermissionDenied'')])))) =
     Inr [(''b'', [(''hostname'', Str ''hub.example.net''), (''device_id'', Str ''b''),
                   (''shared_access_key'', Str ''key-b'')])] \<and>
   files (snd (create_devices_from_list sim_api sim_handler [''b'']
     (snd (create_devices_from_list sim_api sim_handler [''a'']
         (sim_world [] [] [WriteOk, OpenFails (Error ''PermissionDenied'')])))))
     ''iothub_device_credential.json'' =
     Some (json_dumps sim_api
        [(''a'', [(''hostname'', Str ''hub.example.net''), (''device_id'', Str ''a''),
                   (''shared_access_key'', Str ''key-a'')])]) \<and>
   json_dumps sim_api
        [(''a'', [(''hostname'', Str ''hub.example.net''), (''device_id'', Str ''a''),
                   (''shared_access_key'', Str ''key-a'')])] \<noteq>
   json_dumps sim_api
        [(''b'', [(''hostname'', Str ''hub.example.net''), (''device_id'', Str ''b''),
                   (''shared_access_key'', Str ''key-b'')])]"
  by (simp add: model_defs monad_defs sim_defs Let_def)

text \<open>
  Claim C6, as amended. For every credential (a dictionary with the keys \<open>hostname\<close>,
  \<open>device_id\<close> and \<open>shared_access_key\<close>), \<^verbatim>\<open>connect_device\<close> builds the connection string
  from the three values and never raises. When building the client raises, the error is
  logged and nothing else is called. When opening the connection raises, the error is
  logged and the connection is not closed: no \<^verbatim>\<open>disconnect\<close> is issued. When the
  connection is opened, success is logged and the connection is closed, with no further
  condition; an exception raised by the closing is logged as an error after the success
  line. In each case the result is given in full: the value, the state of the outside
  world, the calls issued and the lines logged.
\<close>

theorem connect_device_contains_failures:
  assumes "is_credential device_credential"
  shows "\<exists>cs d.
           connection_string_for device_credential = Inr cs \<and>
           map_of device_credential ''device_id'' = Some d \<and>
           (\<exists>w'. connect_device a device_credential w = (Inr (), w')) \<and>
           (\<forall>e e1. create_from_connection_string a cs (env w) = (Inl e, e1) \<longrightarrow>
              connect_device a device_credential w =
                (Inr (), w\<lparr>env := e1, calls := calls w @ [CreateFromConnectionString cs],
                           log := log w @
                             [(ERROR, ''Failed to connect device '' @ pystr d @ '': '' @ exn_str e)]\<rparr>)) \<and>
           (\<forall>u e1 e e2. create_from_connection_string a cs (env w) = (Inr u, e1) \<and>
              connect a cs e1 = (Inl e, e2) \<longrightarrow>
              connect_device a device_credential w =
                (Inr (), w\<lparr>env := e2,
                           calls := calls w @ [CreateFromConnectionString cs, Connect cs],
                           log := log w @
                             [(ERROR, ''Failed to connect device '' @ pystr d @ '': '' @ exn_str e)]\<rparr>)) \<and>
           (\<forall>u e1 u' e2 u'' e3. create_from_connection_string a cs (env w) = (Inr u, e1) \<and>
              connect a cs e1 = (Inr u', e2) \<and> disconnect a cs e2 = (Inr u'', e3) \<longrightarrow>
              connect_device a device_credential w =
                (Inr (), w\<lparr>env := e3,
                           calls := calls w @
                             [CreateFromConnectionString cs, Connect cs, Disconnect cs],
                           log := log w @
                             [(INFO, ''Device '' @ pystr d @ '' connected successfully.'')]\<rparr>)) \<and>
           (\<forall>u e1 u' e2 e e3. create_from_connection_string a cs (env w) = (Inr u, e1) \<and>
              connect a cs e1 = (Inr u', e2) \<and> disconnect a cs e2 = (Inl e, e3) \<longrightarrow>
              connect_device a device_credential w =
                (Inr (), w\<lparr>env := e3,
                           calls := calls w @
                             [CreateFromConnectionString cs, Connect cs, Disconnect cs],
                           log := log w @
                             [(INFO, ''Device '' @ pystr d @ '' connected successfully.''),
                              (ERROR, ''Failed to connect device '' @ pystr d @ '': '' @ exn_str e)]\<rparr>))"
proof -
  from is_credential_connection_string [OF assms] obtain cs d where
    cs: "connection_string_for device_credential = Inr cs"
    and d: "map_of device_credential ''device_id'' = Some d"
    by blast
  have r: "\<exists>w'. connect_device a device_credential w = (Inr (), w')"
    by (rule connect_device_returns [OF assms])
  have b: "\<forall>e e1. create_from_connection_string a cs (env w) = (Inl e, e1) \<longrightarrow>
      connect_device a device_credential w =
        (Inr (), w\<lparr>env := e1, calls := calls w @ [CreateFromConnectionString cs],
                   log := log w @
                     [(ERROR, ''Failed to connect device '' @ pystr d @ '': '' @ exn_str e)]\<rparr>)"
    by (intro allI impI) (rule connect_device_build_fails [OF cs d])
  have o: "\<forall>u e1 e e2. create_from_connection_string a cs (env w) = (Inr u, e1) \<and>
      connect a cs e1 = (Inl e, e2) \<longrightarrow>
      connect_device a device_credential w =
        (Inr (), w\<lparr>env := e2,
                   calls := calls w @ [CreateFromConnectionString cs, Connect cs],
                   log := log w @
                     [(ERROR, ''Failed to connect device '' @ pystr d @ '': '' @ exn_str e)]\<rparr>)"
    by (intro allI impI; elim conjE; rule connect_device_open_fails [OF cs d]; assumption)
  have k: "\<forall>u e1 u' e2 u'' e3. create_from_connection_string a cs (env w) = (Inr u, e1) \<and>
      connect a cs e1 = (Inr u', e2) \<and> disconnect a cs e2 = (Inr u'', e3) \<longrightarrow>
      connect_device a device_credential w =
        (Inr (), w\<lparr>env := e3,
                   calls := calls w @
                     [CreateFromConnectionString cs, Connect cs, Disconnect cs],
                   log := log w @
                     [(INFO, ''Device '' @ pystr d @ '' connected successfully.'')]\<rparr>)"
    by (intro allI impI; elim conjE; rule connect_device_ok [OF cs d]; assumption)
  have h: "\<forall>u e1 u' e2 e e3. create_from_connection_string a cs (env w) = (Inr u, e1) \<and>
      connect a cs e1 = (Inr u', e2) \<and> disconnect a cs e2 = (Inl e, e3) \<longrightarrow>
      connect_device a device_credential w =
        (Inr (), w\<lparr>env := e3,
                   calls := calls w @
                     [CreateFromConnectionString cs, Connect cs, Disconnect cs],
                   log := log w @
                     [(INFO, ''Device '' @ pystr d @ '' connected successfully.''),
                      (ERROR, ''Failed to connect device '' @ pystr d @ '': '' @ exn_str e)]\<rparr>)"
    by (intro allI impI; elim conjE; rule connect_device_close_fails [OF cs d]; assumption)
  show ?thesis
    by (rule exI [of _ cs], rule exI [of _ d]) (intro conjI cs d r b o k h)
qed

lemma sim_network_facts:
  "is_credential [(''hostname'', Str ''hub.example.net''), (''device_id'', Str ''a''),
                  (''shared_access_key'', Str ''key-a'')]"
  "connection_string_for [(''hostname'', Str ''hub.example.net''), (''device_id'', Str ''a''),
                  (''shared_access_key'', Str ''key-a'')] =
     Inr ''HostName=hub.example.net;DeviceId=a;SharedAccessKey=key-a''"
  "map_of [(''hostname'', Str ''hub.example.net''), (''device_id'', Str ''a''),
           (''shared_access_key'', Str ''key-a'')] ''device_id'' = Some (Str ''a'')"
  "create_from_connection_string sim_api ''HostName=hub.example.net;DeviceId=a;SharedAccessKey=key-a''
     (env (sim_network [''HostName=hub.example.net;DeviceId=a;SharedAccessKey=key-a''] [] [])) =
     (Inl (Error ''InvalidConnectionString''),
      env (sim_network [''HostName=hub.example.net;DeviceId=a;SharedAccessKey=key-a''] [] []))"
  "create_from_connection_string sim_api ''HostName=hub.example.net;DeviceId=a;SharedAccessKey=key-a''
     (env (sim_network [] [''HostName=hub.example.net;DeviceId=a;SharedAccessKey=key-a''] [])) =
     (Inr (), env (sim_network [] [''HostName=hub.example.net;DeviceId=a;SharedAccessKey=key-a''] [])) \<and>
   connect sim_api ''HostName=hub.example.net;DeviceId=a;SharedAccessKey=key-a''
     (env (sim_network [] [''HostName=hub.example.net;DeviceId=a;SharedAccessKey=key-a''] [])) =
     (Inl (Error ''ConnectionFailed''),
      env (sim_network [] [''HostName=hub.example.net;DeviceId=a;SharedAccessKey=key-a''] []))"
  "create_from_connection_string sim_api ''HostName=hub.example.net;DeviceId=a;SharedAccessKey=key-a''
     (env (sim_network [] [] [])) = (Inr (), env (sim_network [] [] [])) \<and>
   connect sim_api ''HostName=hub.example.net;DeviceId=a;SharedAccessKey=key-a''
     (env (sim_network [] [] [])) = (Inr (), env (sim_network [] [] [])) \<and>
   disconnect sim_api ''HostName=hub.example.net;DeviceId=a;SharedAccessKey=key-a''
     (env (sim_network [] [] [])) = (Inr (), env (sim_network [] [] []))"
  "create_from_connection_string sim_api ''HostName=hub.example.net;DeviceId=a;SharedAccessKey=key-a''
     (env (sim_network [] [] [''HostName=hub.example.net;DeviceId=a;SharedAccessKey=key-a''])) =
     (Inr (), env (sim_network [] [] [''HostName=hub.example.net;DeviceId=a;SharedAccessKey=key-a''])) \<and>
   connect sim_api ''HostName=hub.example.net;DeviceId=a;SharedAccessKey=key-a''
     (env (sim_network [] [] [''HostName=hub.example.net;DeviceId=a;SharedAccessKey=key-a''])) =
     (Inr (), env (sim_network [] [] [''HostName=hub.example.net;DeviceId=a;SharedAccessKey=key-a''])) \<and>
   disconnect sim_api ''HostName=hub.example.net;DeviceId=a;SharedAccessKey=key-a''
     (env (sim_network [] [] [''HostName=hub.example.net;DeviceId=a;SharedAccessKey=key-a''])) =
     (Inl (Error ''ConnectionDropped''),
      env (sim_network [] [] [''HostName=hub.example.net;DeviceId=a;SharedAccessKey=key-a'']))"
  by (simp_all add: is_credential_def model_defs sim_defs)

text \<open>
  The amended claim C6 for the credential of \<open>a\<close> on four networks: one rejecting the
  connection string, one refusing the connection, one accepting everything and one
  dropping the connection at disconnect.
\<close>

theorem connect_device_contains_failures_witness:
  "is_credential [(''hostname'', Str ''hub.example.net''), (''device_id'', Str ''a''),
                  (''shared_access_key'', Str ''key-a'')] \<and>
   fst (connect_device sim_api
          [(''hostname'', Str ''hub.example.net''), (''device_id'', Str ''a''),
           (''shared_access_key'', Str ''key-a'')]
          (sim_network [''HostName=hub.example.net;DeviceId=a;SharedAccessKey=key-a''] [] [])) = Inr () \<and>
   calls (snd (connect_device sim_api
          [(''hostname'', Str ''hub.example.net''), (''device_id'', Str ''a''),
           (''shared_access_key'', Str ''key-a'')]
          (sim_network [''HostName=hub.example.net;DeviceId=a;SharedAccessKey=key-a''] [] []))) =
     [CreateFromConnectionString ''HostName=hub.example.net;DeviceId=a;SharedAccessKey=key-a''] \<and>
   log (snd (connect_device sim_api
          [(''hostname'', Str ''hub.example.net''), (''device_id'', Str ''a''),
           (''shared_access_key'', Str ''key-a'')]
          (sim_network [''HostName=hub.example.net;DeviceId=a;SharedAccessKey=key-a''] [] []))) =
     [(ERROR, ''Failed to connect device a: InvalidConnectionString'')] \<and>
   fst (connect_device sim_api
          [(''hostname'', Str ''hub.example.net''), (''device_id'', Str ''a''),
           (''shared_access_key'', Str ''key-a'')]
          (sim_network [] [''HostName=hub.example.net;DeviceId=a;SharedAccessKey=key-a''] [])) = Inr () \<and>
   calls (snd (connect_device sim_api
          [(''hostname'', Str ''hub.example.net''), (''device_id'', Str ''a''),
           (''shared_access_key'', Str ''key-a'')]
          (sim_network [] [''HostName=hub.example.net;DeviceId=a;SharedAccessKey=key-a''] []))) =
     [CreateFromConnectionString ''HostName=hub.example.net;DeviceId=a;SharedAccessKey=key-a'',
      Connect ''HostName=hub.example.net;DeviceId=a;SharedAccessKey=key-a''] \<and>
   log (snd (connect_device sim_api
          [(''hostname'', Str ''hub.example.net''), (''device_id'', Str ''a''),
           (''shared_access_key'', Str ''key-a'')]
          (sim_network [] [''HostName=hub.example.net;DeviceId=a;SharedAccessKey=key-a''] []))) =
     [(ERROR, ''Failed to connect device a: ConnectionFailed'')] \<and>
   fst (connect_device sim_api
          [(''hostname'', Str ''hub.example.net''), (''device_id'', Str ''a''),
           (''shared_access_key'', Str ''key-a'')] (sim_network [] [] [])) = Inr () \<and>
   calls (snd (connect_device sim_api
          [(''hostname'', Str ''hub.example.net''), (''device_id'', Str ''a''),
           (''shared_access_key'', Str ''key-a'')] (sim_network [] [] []))) =
     [CreateFromConnectionString ''HostName=hub.example.net;DeviceId=a;SharedAccessKey=key-a'',
      Connect ''HostName=hub.example.net;DeviceId=a;SharedAccessKey=key-a'',
      Disconnect ''HostName=hub.example.net;DeviceId=a;SharedAccessKey=key-a''] \<and>
   log (snd (connect_device sim_api
          [(''hostname'', Str ''hub.example.net''), (''device_id'', Str ''a''),
           (''shared_access_key'', Str ''key-a'')] (sim_network [] [] []))) =
     [(INFO, ''Device a connected successfully.'')] \<and>
   fst (connect_device sim_api
          [(''hostname'', Str ''hub.example.net''), (''device_id'', Str ''a''),
           (''shared_access_key'', Str ''key-a'')]
          (sim_network [] [] [''HostName=hub.example.net;DeviceId=a;SharedAccessKey=key-a''])) = Inr () \<and>
   calls (snd (connect_device sim_api
          [(''hostname'', Str ''hub.example.net''), (''device_id'', Str ''a''),
           (''shared_access_key'', Str ''key-a'')]
          (sim_network [] [] [''HostName=hub.example.net;DeviceId=a;SharedAccessKey=key-a'']))) =
     [CreateFromConnectionString ''HostName=hub.example.net;DeviceId=a;SharedAccessKey=key-a'',
      Connect ''HostName=hub.example.net;DeviceId=a;SharedAccessKey=key-a'',
      Disconnect ''HostName=hub.example.net;DeviceId=a;SharedAccessKey=key-a''] \<and>
   log (snd (connect_device sim_api
          [(''hostname'', Str ''hub.example.net''), (''device_id'', Str ''a''),
           (''shared_access_key'', Str ''key-a'')]
          (sim_network [] [] [''HostName=hub.example.net;DeviceId=a;SharedAccessKey=key-a'']))) =
     [(INFO, ''Device a connected successfully.''),
      (ERROR, ''Failed to connect device a: ConnectionDropped'')]"
proof -
  let ?c = "[(''hostname'', Str ''hub.example.net''), (''device_id'', Str ''a''),
             (''shared_access_key'', Str ''key-a'')]"
  let ?cs = "''HostName=hub.example.net;DeviceId=a;SharedAccessKey=key-a''"
  note T = connect_device_contains_failures [OF sim_network_facts(1)]
  have inv: "connect_device sim_api ?c (sim_network [?cs] [] []) =
      (Inr (), (sim_network [?cs] [] [])\<lparr>env := env (sim_network [?cs] [] []),
         calls := calls (sim_network [?cs] [] []) @ [CreateFromConnectionString ?cs],
         log := log (sim_network [?cs] [] []) @
           [(ERROR, ''Failed to connect device '' @ pystr (Str ''a'') @ '': '' @
                    exn_str (Error ''InvalidConnectionString''))]\<rparr>)"
  proof -
    from T [of sim_api "sim_network [?cs] [] []"] obtain cs d where
      cs: "connection_string_for ?c = Inr cs" and d: "map_of ?c ''device_id'' = Some d"
      and br: "\<forall>e e1. create_from_connection_string sim_api cs (env (sim_network [?cs] [] [])) = (Inl e, e1) \<longrightarrow>
              connect_device sim_api ?c (sim_network [?cs] [] []) =
                (Inr (), (sim_network [?cs] [] [])\<lparr>env := e1,
                   calls := calls (sim_network [?cs] [] []) @ [CreateFromConnectionString cs],
                   log := log (sim_network [?cs] [] []) @
                     [(ERROR, ''Failed to connect device '' @ pystr d @ '': '' @ exn_str e)]\<rparr>)"
      by (elim exE conjE) (rule that; assumption)
    from cs sim_network_facts(2) have cs': "cs = ?cs" by simp
    from d sim_network_facts(3) have d': "d = Str ''a''" by simp
    show ?thesis
      by (rule br [unfolded cs' d', rule_format, OF sim_network_facts(4)])
  qed
  have off: "connect_device sim_api ?c (sim_network [] [?cs] []) =
      (Inr (), (sim_network [] [?cs] [])\<lparr>env := env (sim_network [] [?cs] []),
         calls := calls (sim_network [] [?cs] []) @ [CreateFromConnectionString ?cs, Connect ?cs],
         log := log (sim_network [] [?cs] []) @
           [(ERROR, ''Failed to connect device '' @ pystr (Str ''a'') @ '': '' @
                    exn_str (Error ''ConnectionFailed''))]\<rparr>)"
  proof -
    from T [of sim_api "sim_network [] [?cs] []"] obtain cs d where
      cs: "connection_string_for ?c = Inr cs" and d: "map_of ?c ''device_id'' = Some d"
      and br: "\<forall>u e1 e e2. create_from_connection_string sim_api cs (env (sim_network [] [?cs] [])) = (Inr u, e1) \<and>
              connect sim_api cs e1 = (Inl e, e2) \<longrightarrow>
              connect_device sim_api ?c (sim_network [] [?cs] []) =
                (Inr (), (sim_network [] [?cs] [])\<lparr>env := e2,
                   calls := calls (sim_network [] [?cs] []) @ [CreateFromConnectionString cs, Connect cs],
                   log := log (sim_network [] [?cs] []) @
                     [(ERROR, ''Failed to connect device '' @ pystr d @ '': '' @ exn_str e)]\<rparr>)"
      by (elim exE conjE) (rule that; assumption)
    from cs sim_network_facts(2) have cs': "cs = ?cs" by simp
    from d sim_network_facts(3) have d': "d = Str ''a''" by simp
    show ?thesis
      by (rule br [unfolded cs' d', rule_format, OF sim_network_facts(5)])
  qed
  have ok: "connect_device sim_api ?c (sim_network [] [] []) =
      (Inr (), (sim_network [] [] [])\<lparr>env := env (sim_network [] [] []),
         calls := calls (sim_network [] [] []) @
           [CreateFromConnectionString ?cs, Connect ?cs, Disconnect ?cs],
         log := log (sim_network [] [] []) @
           [(INFO, ''Device '' @ pystr (Str ''a'') @ '' connected successfully.'')]\<rparr>)"
  proof -
    from T [of sim_api "sim_network [] [] []"] obtain cs d where
      cs: "connection_string_for ?c = Inr cs" and d: "map_of ?c ''device_id'' = Some d"
      and br: "\<forall>u e1 u' e2 u'' e3. create_from_connection_string sim_api cs (env (sim_network [] [] [])) = (Inr u, e1) \<and>
              connect sim_api cs e1 = (Inr u', e2) \<and> disconnect sim_api cs e2 = (Inr u'', e3) \<longrightarrow>
              connect_device sim_api ?c (sim_network [] [] []) =
                (Inr (), (sim_network [] [] [])\<lparr>env := e3,
                   calls := calls (sim_network [] [] []) @
                     [CreateFromConnectionString cs, Connect cs, Disconnect cs],
                   log := log (sim_network [] [] []) @
                     [(INFO, ''Device '' @ pystr d @ '' connected successfully.'')]\<rparr>)"
      by (elim exE conjE) (rule that; assumption)
    from cs sim_network_facts(2) have cs': "cs = ?cs" by simp
    from d sim_network_facts(3) have d': "d = Str ''a''" by simp
    show ?thesis
      by (rule br [unfolded cs' d', rule_format, OF sim_network_facts(6)])
  qed
  have hang: "connect_device sim_api ?c (sim_network [] [] [?cs]) =
      (Inr (), (sim_network [] [] [?cs])\<lparr>env := env (sim_network [] [] [?cs]),
         calls := calls (sim_network [] [] [?cs]) @
           [CreateFromConnectionString ?cs, Connect ?cs, Disconnect ?cs],
         log := log (sim_network [] [] [?cs]) @
           [(INFO, ''Device '' @ pystr (Str ''a'') @ '' connected successfully.''),
            (ERROR, ''Failed to connect device '' @ pystr (Str ''a'') @ '': '' @
                    exn_str (Error ''ConnectionDropped''))]\<rparr>)"
  proof -
    from T [of sim_api "sim_network [] [] [?cs]"] obtain cs d where
      cs: "connection_string_for ?c = Inr cs" and d: "map_of ?c ''device_id'' = Some d"
      and br: "\<forall>u e1 u' e2 e e3. create_from_connection_string sim_api cs (env (sim_network [] [] [?cs])) = (Inr u, e1) \<and>
              connect sim_api cs e1 = (Inr u', e2) \<and> disconnect sim_api cs e2 = (Inl e, e3) \<longrightarrow>
              connect_device sim_api ?c (sim_network [] [] [?cs]) =
                (Inr (), (sim_network [] [] [?cs])\<lparr>env := e3,
                   calls := calls (sim_network [] [] [?cs]) @
                     [CreateFromConnectionString cs, Connect cs, Disconnect cs],
                   log := log (sim_network [] [] [?cs]) @
                     [(INFO, ''Device '' @ pystr d @ '' connected successfully.''),
                      (ERROR, ''Failed to connect device '' @ pystr d @ '': '' @ exn_str e)]\<rparr>)"
      by (elim exE conjE) (rule that; assumption)
    from cs sim_network_facts(2) have cs': "cs = ?cs" by simp
    from d sim_network_facts(3) have d': "d = Str ''a''" by simp
    show ?thesis
      by (rule br [unfolded cs' d', rule_format, OF sim_network_facts(7)])
  qed
  show ?thesis
    by (simp only: inv off ok hang fst_conv snd_conv)
       (simp add: sim_network_facts(1) sim_network_def)
qed

text \<open>
  Claim C6 as stated fails on a network refusing the connection: \<^verbatim>\<open>connect\<close> raises, the
  error is caught, and \<^verbatim>\<open>connect_device\<close> returns without having called
  \<^verbatim>\<open>disconnect\<close>.
\<close>

theorem failed_connect_is_not_closed:
  "fst (connect_device sim_api
          [(''hostname'', Str ''hub.example.net''), (''device_id'', Str ''a''),
           (''shared_access_key'', Str ''key-a'')]
          (sim_network [] [''HostName=hub.example.net;DeviceId=a;SharedAccessKey=key-a''] [])) = Inr () \<and>
   calls (snd (connect_device sim_api
          [(''hostname'', Str ''hub.example.net''), (''device_id'', Str ''a''),
           (''shared_access_key'', Str ''key-a'')]
          (sim_network [] [''HostName=hub.example.net;DeviceId=a;SharedAccessKey=key-a''] []))) =
     [CreateFromConnectionString ''HostName=hub.example.net;DeviceId=a;SharedAccessKey=key-a'',
      Connect ''HostName=hub.example.net;DeviceId=a;SharedAccessKey=key-a''] \<and>
   Disconnect ''HostName=hub.example.net;DeviceId=a;SharedAccessKey=key-a'' \<notin>
     set (calls (snd (connect_device sim_api
          [(''hostname'', Str ''hub.example.net''), (''device_id'', Str ''a''),
           (''shared_access_key'', Str ''key-a'')]
          (sim_network [] [''HostName=hub.example.net;DeviceId=a;SharedAccessKey=key-a''] []))))"
  by (simp add: model_defs monad_defs sim_defs)

lemma client_get_device_log:
  "client_get_device a self device_id w = (r, w1) \<Longrightarrow> log w1 = log w"
  by (auto simp: client_get_device_def call_env_def raise_def split: option.splits prod.splits)

lemma client_create_log:
  "client_create_device_with_sas a self device_id pk sk st w = (r, w1) \<Longrightarrow> log w1 = log w"
  by (auto simp: client_create_device_with_sas_def call_env_def raise_def
      split: option.splits prod.splits)

lemma create_device_lookup_creation_fail:
  assumes g: "client_get_device a self device_id w = (Inl e, w1)"
    and c: "client_create_device_with_sas a self device_id NoneVal NoneVal ''enabled''
           (w1\<lparr>log := log w1 @ [(INFO, ''Creating device '' @ quote device_id @ ''...'')]\<rparr>) = (Inl e', w2)"
  shows "create_device a self device_id w =
           (Inr [], w2\<lparr>log := log w @
              [(INFO, ''Creating device '' @ quote device_id @ ''...''),
               (ERROR, ''Error creating device '' @ quote device_id @ '': '' @ exn_str e')]\<rparr>)"
proof -
  have "log w2 = log w @ [(INFO, ''Creating device '' @ quote device_id @ ''...'')]"
    using client_create_log [OF c] client_get_device_log [OF g] by simp
  with create_device_early_return [OF ensure_device_refused [OF g c]] show ?thesis
    by simp
qed

lemma create_device_lookup_fail_created:
  assumes g: "client_get_device a self device_id w = (Inl e, w1)"
    and c: "client_create_device_with_sas a self device_id NoneVal NoneVal ''enabled''
           (w1\<lparr>log := log w1 @ [(INFO, ''Creating device '' @ quote device_id @ ''...'')]\<rparr>) = (Inr d, w2)"
  shows "create_device a self device_id w =
           retrieve_credentials a self device_id
             (w2\<lparr>log := log w @
                [(INFO, ''Creating device '' @ quote device_id @ ''...''),
                 (INFO, ''Device '' @ quote device_id @ '' created successfully.'')]\<rparr>)"
proof -
  have "log w2 = log w @ [(INFO, ''Creating device '' @ quote device_id @ ''...'')]"
    using client_create_log [OF c] client_get_device_log [OF g] by simp
  with create_device_continue [OF ensure_device_created [OF g c]] show ?thesis
    by simp
qed

lemma create_device_lookup_found:
  assumes g: "client_get_device a self device_id w = (Inr d, w1)"
  shows "create_device a self device_id w =
           retrieve_credentials a self device_id
             (w1\<lparr>log := log w @ [(INFO, ''Device '' @ quote device_id @ '' already exists.'')]\<rparr>)"
  using create_device_continue [OF ensure_device_found [OF g]] client_get_device_log [OF g]
  by simp

lemma retrieve_fetch_fails:
  assumes g: "client_get_device a self device_id w = (Inl e, w1)"
  shows "retrieve_credentials a self device_id w =
           (Inr [], w1\<lparr>log := log w @
              [(ERROR, ''Error retrieving credentials for device '' @ quote device_id @ '': '' @ exn_str e)]\<rparr>)"
  using retrieve_credentials_get_fails [OF g] client_get_device_log [OF g] by simp

lemma retrieve_key_fails:
  assumes g: "client_get_device a self device_id w = (Inr info, w1)"
    and k: "get_primary_key info = Inl e"
  shows "retrieve_credentials a self device_id w =
           (Inr [], w1\<lparr>log := log w @
              [(ERROR, ''Error retrieving credentials for device '' @ quote device_id @ '': '' @ exn_str e)]\<rparr>)"
  using retrieve_credentials_key_fails [OF g k] client_get_device_log [OF g] by simp

lemma retrieve_key_ok:
  assumes g: "client_get_device a self device_id w = (Inr info, w1)"
    and k: "get_primary_key info = Inr k"
  shows "retrieve_credentials a self device_id w =
           (Inr [(''hostname'', Str (hostname self)), (''device_id'', Str device_id),
                 (''shared_access_key'', k)], w1)"
  using retrieve_credentials_ok [OF g k] by (simp add: credential_def)

lemma create_devices_from_list_credentials:
  "\<exists>st w'. create_devices_from_list a self device_ids w = (Inr st, w') \<and>
     list_all (\<lambda>p. is_credential (snd p)) st"
proof -
  obtain outcomes w1 where run: "run_tasks (map (create_device a self) device_ids) w = (outcomes, w1)"
    by (cases "run_tasks (map (create_device a self) device_ids) w")
  from create_devices_from_list_eq [OF run] obtain cs st w2 where
    cred: "list_all (\<lambda>c. c = [] \<or> is_credential c) cs"
    and st: "st = fold (\<lambda>p. AList.update (fst p) (snd p)) (filter nonempty (zip device_ids cs)) []"
    and r: "create_devices_from_list a self device_ids w = (Inr st, w2)"
    by blast
  have "is_credential (snd p)" if "p \<in> set st" for p
    using store_entries_credentials [OF cred, of "fst p" "snd p" device_ids "[]"] that
    unfolding st by simp
  then have "list_all (\<lambda>p. is_credential (snd p)) st"
    by (simp add: list_all_iff)
  with r show ?thesis by blast
qed

lemma create_device_only_returns: "\<exists>c w'. create_device a self device_id w = (Inr c, w')"
  using create_device_returns [of a self device_id w] by blast

text \<open>
  Claim C7. Each of the four kinds of failure is caught where it arises, leaves its line
  in the log and does not reach the caller; the results are given in full.
  \<^item> \<^verbatim>\<open>connect_hub\<close>: when building the registry manager raises, the handler is returned
    as it was and the error line is logged; the call always returns.
  \<^item> \<^verbatim>\<open>create_device\<close>: when the lookup raises, the line announcing the creation is
    logged (the handler does not name the exception, so its text is not logged) and the
    creation is attempted; when the creation raises as well, the error line is logged and
    the result is empty; when the fetch of the device or the reading of its key raises, the
    error line is logged and the result is empty; when nothing raises, the result is the
    credential. The call always returns.
  \<^item> \<^verbatim>\<open>connect_device\<close>, for every credential: when building the client, opening or
    closing the connection raises, the error line is logged; the call always returns.
  \<^item> \<^verbatim>\<open>create_device_credentials_file\<close>: when \<^verbatim>\<open>open\<close> or the dump raises, the error
    line is logged; the call always returns.
  \<^item> \<^verbatim>\<open>create_devices_from_list\<close> always returns, and every entry of the store it returns
    is a credential: these are the dictionaries that the driver hands to
    \<^verbatim>\<open>connect_device\<close>.
\<close>

theorem failures_are_caught_and_logged:
  "(\<forall>e e1. from_connection_string a
              (''HostName='' @ hostname self @ '';SharedAccessKeyName='' @
               shared_access_key_name self @ '';SharedAccessKey='' @ shared_access_key self)
              (env w) = (Inl e, e1) \<longrightarrow>
      connect_hub a self w =
        (Inr self,
         w\<lparr>env := e1,
           calls := calls w @ [FromConnectionString (''HostName='' @ hostname self @
                      '';SharedAccessKeyName='' @ shared_access_key_name self @
                      '';SharedAccessKey='' @ shared_access_key self)],
           log := log w @ [(ERROR, ''Failed to connect with IoTHub Registry: '' @ exn_str e)]\<rparr>)) \<and>
   (\<exists>self' w'. connect_hub a self w = (Inr self', w')) \<and>
   (\<forall>e w1 e' w2.
      client_get_device a self device_id w = (Inl e, w1) \<and>
      client_create_device_with_sas a self device_id NoneVal NoneVal ''enabled''
        (w1\<lparr>log := log w1 @ [(INFO, ''Creating device '' @ quote device_id @ ''...'')]\<rparr>) = (Inl e', w2) \<longrightarrow>
      create_device a self device_id w =
        (Inr [], w2\<lparr>log := log w @
           [(INFO, ''Creating device '' @ quote device_id @ ''...''),
            (ERROR, ''Error creating device '' @ quote device_id @ '': '' @ exn_str e')]\<rparr>)) \<and>
   (\<forall>e w1 d w2.
      client_get_device a self device_id w = (Inl e, w1) \<and>
      client_create_device_with_sas a self device_id NoneVal NoneVal ''enabled''
        (w1\<lparr>log := log w1 @ [(INFO, ''Creating device '' @ quote device_id @ ''...'')]\<rparr>) = (Inr d, w2) \<longrightarrow>
      create_device a self device_id w =
        retrieve_credentials a self device_id
          (w2\<lparr>log := log w @
             [(INFO, ''Creating device '' @ quote device_id @ ''...''),
              (INFO, ''Device '' @ quote device_id @ '' created successfully.'')]\<rparr>)) \<and>
   (\<forall>d w1.
      client_get_device a self device_id w = (Inr d, w1) \<longrightarrow>
      create_device a self device_id w =
        retrieve_credentials a self device_id
          (w1\<lparr>log := log w @ [(INFO, ''Device '' @ quote device_id @ '' already exists.'')]\<rparr>)) \<and>
   (\<forall>e w1.
      client_get_device a self device_id w = (Inl e, w1) \<longrightarrow>
      retrieve_credentials a self device_id w =
        (Inr [], w1\<lparr>log := log w @
           [(ERROR, ''Error retrieving credentials for device '' @ quote device_id @ '': '' @
                    exn_str e)]\<rparr>)) \<and>
   (\<forall>info w1 e.
      client_get_device a self device_id w = (Inr info, w1) \<and> get_primary_key info = Inl e \<longrightarrow>
      retrieve_credentials a self device_id w =
        (Inr [], w1\<lparr>log := log w @
           [(ERROR, ''Error retrieving credentials for device '' @ quote device_id @ '': '' @
                    exn_str e)]\<rparr>)) \<and>
   (\<forall>info w1 k.
      client_get_device a self device_id w = (Inr info, w1) \<and> get_primary_key info = Inr k \<longrightarrow>
      retrieve_credentials a self device_id w =
        (Inr [(''hostname'', Str (hostname self)), (''device_id'', Str device_id),
              (''shared_access_key'', k)], w1)) \<and>
   (\<exists>c w'. create_device a self device_id w = (Inr c, w')) \<and>
   (is_credential device_credential \<longrightarrow>
      (\<exists>cs d. connection_string_for device_credential = Inr cs \<and>
              map_of device_credential ''device_id'' = Some d) \<and>
      (\<exists>w'. connect_device a device_credential w = (Inr (), w'))) \<and>
   (connection_string_for device_credential = Inr cs \<and>
    map_of device_credential ''device_id'' = Some d \<longrightarrow>
      (\<forall>e e1. create_from_connection_string a cs (env w) = (Inl e, e1) \<longrightarrow>
         connect_device a device_credential w =
           (Inr (), w\<lparr>env := e1, calls := calls w @ [CreateFromConnectionString cs],
                      log := log w @
                        [(ERROR, ''Failed to connect device '' @ pystr d @ '': '' @ exn_str e)]\<rparr>)) \<and>
      (\<forall>u e1 e e2. create_from_connection_string a cs (env w) = (Inr u, e1) \<and>
         connect a cs e1 = (Inl e, e2) \<longrightarrow>
         connect_device a device_credential w =
           (Inr (), w\<lparr>env := e2,
                      calls := calls w @ [CreateFromConnectionString cs, Connect cs],
                      log := log w @
                        [(ERROR, ''Failed to connect device '' @ pystr d @ '': '' @ exn_str e)]\<rparr>)) \<and>
      (\<forall>u e1 u' e2 e e3. create_from_connection_string a cs (env w) = (Inr u, e1) \<and>
         connect a cs e1 = (Inr u', e2) \<and> disconnect a cs e2 = (Inl e, e3) \<longrightarrow>
         connect_device a device_credential w =
           (Inr (), w\<lparr>env := e3,
                      calls := calls w @
                        [CreateFromConnectionString cs, Connect cs, Disconnect cs],
                      log := log w @
                        [(INFO, ''Device '' @ pystr d @ '' connected successfully.''),
                         (ERROR, ''Failed to connect device '' @ pystr d @ '': '' @ exn_str e)]\<rparr>)) \<and>
      (\<forall>u e1 u' e2 u'' e3. create_from_connection_string a cs (env w) = (Inr u, e1) \<and>
         connect a cs e1 = (Inr u', e2) \<and> disconnect a cs e2 = (Inr u'', e3) \<longrightarrow>
         connect_device a device_credential w =
           (Inr (), w\<lparr>env := e3,
                      calls := calls w @
                        [CreateFromConnectionString cs, Connect cs, Disconnect cs],
                      log := log w @
                        [(INFO, ''Device '' @ pystr d @ '' connected successfully.'')]\<rparr>))) \<and>
   (\<forall>e e1. file_write a ''iothub_device_credential.json'' (json_dumps a credentials) (env w) =
              (OpenFails e, e1) \<longrightarrow>
      create_device_credentials_file a credentials w =
        (Inr (), w\<lparr>env := e1, calls := calls w @ [OpenW ''iothub_device_credential.json''],
                   log := log w @
                     [(ERROR, ''Failed to create credentials file: '' @ exn_str e)]\<rparr>)) \<and>
   (\<forall>k e e1. file_write a ''iothub_device_credential.json'' (json_dumps a credentials) (env w) =
              (DumpFails k e, e1) \<longrightarrow>
      create_device_credentials_file a credentials w =
        (Inr (), w\<lparr>env := e1, calls := calls w @ [OpenW ''iothub_device_credential.json''],
                   files := (files w)(''iothub_device_credential.json'' \<mapsto>
                              take k (json_dumps a credentials)),
                   log := log w @
                     [(ERROR, ''Failed to create credentials file: '' @ exn_str e)]\<rparr>)) \<and>
   (\<exists>w'. create_device_credentials_file a credentials w = (Inr (), w')) \<and>
   (\<exists>all_credentials w'.
      create_devices_from_list a self device_ids w = (Inr all_credentials, w') \<and>
      list_all (\<lambda>p. is_credential (snd p)) all_credentials)"
proof (intro conjI)
  show "\<forall>e e1. from_connection_string a
              (''HostName='' @ hostname self @ '';SharedAccessKeyName='' @
               shared_access_key_name self @ '';SharedAccessKey='' @ shared_access_key self)
              (env w) = (Inl e, e1) \<longrightarrow>
      connect_hub a self w =
        (Inr self,
         w\<lparr>env := e1,
           calls := calls w @ [FromConnectionString (''HostName='' @ hostname self @
                      '';SharedAccessKeyName='' @ shared_access_key_name self @
                      '';SharedAccessKey='' @ shared_access_key self)],
           log := log w @ [(ERROR, ''Failed to connect with IoTHub Registry: '' @ exn_str e)]\<rparr>)"
    by (intro allI impI) (rule connect_hub_fails)
  show "\<exists>self' w'. connect_hub a self w = (Inr self', w')"
    by (rule connect_hub_returns)
  show "\<forall>e w1 e' w2.
      client_get_device a self device_id w = (Inl e, w1) \<and>
      client_create_device_with_sas a self device_id NoneVal NoneVal ''enabled''
        (w1\<lparr>log := log w1 @ [(INFO, ''Creating device '' @ quote device_id @ ''...'')]\<rparr>) = (Inl e', w2) \<longrightarrow>
      create_device a self device_id w =
        (Inr [], w2\<lparr>log := log w @
           [(INFO, ''Creating device '' @ quote device_id @ ''...''),
            (ERROR, ''Error creating device '' @ quote device_id @ '': '' @ exn_str e')]\<rparr>)"
    by (intro allI impI; elim conjE; rule create_device_lookup_creation_fail; assumption)
  show "\<forall>e w1 d w2.
      client_get_device a self device_id w = (Inl e, w1) \<and>
      client_create_device_with_sas a self device_id NoneVal NoneVal ''enabled''
        (w1\<lparr>log := log w1 @ [(INFO, ''Creating device '' @ quote device_id @ ''...'')]\<rparr>) = (Inr d, w2) \<longrightarrow>
      create_device a self device_id w =
        retrieve_credentials a self device_id
          (w2\<lparr>log := log w @
             [(INFO, ''Creating device '' @ quote device_id @ ''...''),
              (INFO, ''Device '' @ quote device_id @ '' created successfully.'')]\<rparr>)"
    by (intro allI impI; elim conjE; rule create_device_lookup_fail_created; assumption)
  show "\<forall>d w1.
      client_get_device a self device_id w = (Inr d, w1) \<longrightarrow>
      create_device a self device_id w =
        retrieve_credentials a self device_id
          (w1\<lparr>log := log w @ [(INFO, ''Device '' @ quote device_id @ '' already exists.'')]\<rparr>)"
    by (intro allI impI) (rule create_device_lookup_found)
  show "\<forall>e w1.
      client_get_device a self device_id w = (Inl e, w1) \<longrightarrow>
      retrieve_credentials a self device_id w =
        (Inr [], w1\<lparr>log := log w @
           [(ERROR, ''Error retrieving credentials for device '' @ quote device_id @ '': '' @
                    exn_str e)]\<rparr>)"
    by (intro allI impI) (rule retrieve_fetch_fails)
  show "\<forall>info w1 e.
      client_get_device a self device_id w = (Inr info, w1) \<and> get_primary_key info = Inl e \<longrightarrow>
      retrieve_credentials a self device_id w =
        (Inr [], w1\<lparr>log := log w @
           [(ERROR, ''Error retrieving credentials for device '' @ quote device_id @ '': '' @
                    exn_str e)]\<rparr>)"
    by (intro allI impI; elim conjE; rule retrieve_key_fails; assumption)
  show "\<forall>info w1 k.
      client_get_device a self device_id w = (Inr info, w1) \<and> get_primary_key info = Inr k \<longrightarrow>
      retrieve_credentials a self device_id w =
        (Inr [(''hostname'', Str (hostname self)), (''device_id'', Str device_id),
              (''shared_access_key'', k)], w1)"
    by (intro allI impI; elim conjE; rule retrieve_key_ok; assumption)
  show "\<exists>c w'. create_device a self device_id w = (Inr c, w')"
    by (rule create_device_only_returns)
  show "is_credential device_credential \<longrightarrow>
      (\<exists>cs d. connection_string_for device_credential = Inr cs \<and>
              map_of device_credential ''device_id'' = Some d) \<and>
      (\<exists>w'. connect_device a device_credential w = (Inr (), w'))"
    using is_credential_connection_string [of device_credential]
      connect_device_returns [of device_credential a w] by blast
  show "connection_string_for device_credential = Inr cs \<and>
    map_of device_credential ''device_id'' = Some d \<longrightarrow>
      (\<forall>e e1. create_from_connection_string a cs (env w) = (Inl e, e1) \<longrightarrow>
         connect_device a device_credential w =
           (Inr (), w\<lparr>env := e1, calls := calls w @ [CreateFromConnectionString cs],
                      log := log w @
                        [(ERROR, ''Failed to connect device '' @ pystr d @ '': '' @ exn_str e)]\<rparr>)) \<and>
      (\<forall>u e1 e e2. create_from_connection_string a cs (env w) = (Inr u, e1) \<and>
         connect a cs e1 = (Inl e, e2) \<longrightarrow>
         connect_device a device_credential w =
           (Inr (), w\<lparr>env := e2,
                      calls := calls w @ [CreateFromConnectionString cs, Connect cs],
                      log := log w @
                        [(ERROR, ''Failed to connect device '' @ pystr d @ '': '' @ exn_str e)]\<rparr>)) \<and>
      (\<forall>u e1 u' e2 e e3. create_from_connection_string a cs (env w) = (Inr u, e1) \<and>
         connect a cs e1 = (Inr u', e2) \<and> disconnect a cs e2 = (Inl e, e3) \<longrightarrow>
         connect_device a device_credential w =
           (Inr (), w\<lparr>env := e3,
                      calls := calls w @
                        [CreateFromConnectionString cs, Connect cs, Disconnect cs],
                      log := log w @
                        [(INFO, ''Device '' @ pystr d @ '' connected successfully.''),
                         (ERROR, ''Failed to connect device '' @ pystr d @ '': '' @ exn_str e)]\<rparr>)) \<and>
      (\<forall>u e1 u' e2 u'' e3. create_from_connection_string a cs (env w) = (Inr u, e1) \<and>
         connect a cs e1 = (Inr u', e2) \<and> disconnect a cs e2 = (Inr u'', e3) \<longrightarrow>
         connect_device a device_credential w =
           (Inr (), w\<lparr>env := e3,
                      calls := calls w @
                        [CreateFromConnectionString cs, Connect cs, Disconnect cs],
                      log := log w @
                        [(INFO, ''Device '' @ pystr d @ '' connected successfully.'')]\<rparr>))"
  proof (intro impI)
    assume h: "connection_string_for device_credential = Inr cs \<and>
      map_of device_credential ''device_id'' = Some d"
    note cs = conjunct1 [OF h] and d = conjunct2 [OF h]
    show "(\<forall>e e1. create_from_connection_string a cs (env w) = (Inl e, e1) \<longrightarrow>
         connect_device a device_credential w =
           (Inr (), w\<lparr>env := e1, calls := calls w @ [CreateFromConnectionString cs],
                      log := log w @
                        [(ERROR, ''Failed to connect device '' @ pystr d @ '': '' @ exn_str e)]\<rparr>)) \<and>
      (\<forall>u e1 e e2. create_from_connection_string a cs (env w) = (Inr u, e1) \<and>
         connect a cs e1 = (Inl e, e2) \<longrightarrow>
         connect_device a device_credential w =
           (Inr (), w\<lparr>env := e2,
                      calls := calls w @ [CreateFromConnectionString cs, Connect cs],
                      log := log w @
                        [(ERROR, ''Failed to connect device '' @ pystr d @ '': '' @ exn_str e)]\<rparr>)) \<and>
      (\<forall>u e1 u' e2 e e3. create_from_connection_string a cs (env w) = (Inr u, e1) \<and>
         connect a cs e1 = (Inr u', e2) \<and> disconnect a cs e2 = (Inl e, e3) \<longrightarrow>
         connect_device a device_credential w =
           (Inr (), w\<lparr>env := e3,
                      calls := calls w @
                        [CreateFromConnectionString cs, Connect cs, Disconnect cs],
                      log := log w @
                        [(INFO, ''Device '' @ pystr d @ '' connected successfully.''),
                         (ERROR, ''Failed to connect device '' @ pystr d @ '': '' @ exn_str e)]\<rparr>)) \<and>
      (\<forall>u e1 u' e2 u'' e3. create_from_connection_string a cs (env w) = (Inr u, e1) \<and>
         connect a cs e1 = (Inr u', e2) \<and> disconnect a cs e2 = (Inr u'', e3) \<longrightarrow>
         connect_device a device_credential w =
           (Inr (), w\<lparr>env := e3,
                      calls := calls w @
                        [CreateFromConnectionString cs, Connect cs, Disconnect cs],
                      log := log w @
                        [(INFO, ''Device '' @ pystr d @ '' connected successfully.'')]\<rparr>))"
    proof (intro conjI)
      show "\<forall>e e1. create_from_connection_string a cs (env w) = (Inl e, e1) \<longrightarrow>
         connect_device a device_credential w =
           (Inr (), w\<lparr>env := e1, calls := calls w @ [CreateFromConnectionString cs],
                      log := log w @
                        [(ERROR, ''Failed to connect device '' @ pystr d @ '': '' @ exn_str e)]\<rparr>)"
        by (intro allI impI) (rule connect_device_build_fails [OF cs d])
      show "\<forall>u e1 e e2. create_from_connection_string a cs (env w) = (Inr u, e1) \<and>
         connect a cs e1 = (Inl e, e2) \<longrightarrow>
         connect_device a device_credential w =
           (Inr (), w\<lparr>env := e2,
                      calls := calls w @ [CreateFromConnectionString cs, Connect cs],
                      log := log w @
                        [(ERROR, ''Failed to connect device '' @ pystr d @ '': '' @ exn_str e)]\<rparr>)"
        by (intro allI impI; elim conjE; rule connect_device_open_fails [OF cs d]; assumption)
      show "\<forall>u e1 u' e2 e e3. create_from_connection_string a cs (env w) = (Inr u, e1) \<and>
         connect a cs e1 = (Inr u', e2) \<and> disconnect a cs e2 = (Inl e, e3) \<longrightarrow>
         connect_device a device_credential w =
           (Inr (), w\<lparr>env := e3,
                      calls := calls w @
                        [CreateFromConnectionString cs, Connect cs, Disconnect cs],
                      log := log w @
                        [(INFO, ''Device '' @ pystr d @ '' connected successfully.''),
                         (ERROR, ''Failed to connect device '' @ pystr d @ '': '' @ exn_str e)]\<rparr>)"
        by (intro allI impI; elim conjE; rule connect_device_close_fails [OF cs d]; assumption)
      show "\<forall>u e1 u' e2 u'' e3. create_from_connection_string a cs (env w) = (Inr u, e1) \<and>
         connect a cs e1 = (Inr u', e2) \<and> disconnect a cs e2 = (Inr u'', e3) \<longrightarrow>
         connect_device a device_credential w =
           (Inr (), w\<lparr>env := e3,
                      calls := calls w @
                        [CreateFromConnectionString cs, Connect cs, Disconnect cs],
                      log := log w @
                        [(INFO, ''Device '' @ pystr d @ '' connected successfully.'')]\<rparr>)"
        by (intro allI impI; elim conjE; rule connect_device_ok [OF cs d]; assumption)
    qed
  qed
  show "\<forall>e e1. file_write a ''iothub_device_credential.json'' (json_dumps a credentials) (env w) =
              (OpenFails e, e1) \<longrightarrow>
      create_device_credentials_file a credentials w =
        (Inr (), w\<lparr>env := e1, calls := calls w @ [OpenW ''iothub_device_credential.json''],
                   log := log w @
                     [(ERROR, ''Failed to create credentials file: '' @ exn_str e)]\<rparr>)"
    by (intro allI impI) (rule credentials_file_open_fails)
  show "\<forall>k e e1. file_write a ''iothub_device_credential.json'' (json_dumps a credentials) (env w) =
              (DumpFails k e, e1) \<longrightarrow>
      create_device_credentials_file a credentials w =
        (Inr (), w\<lparr>env := e1, calls := calls w @ [OpenW ''iothub_device_credential.json''],
                   files := (files w)(''iothub_device_credential.json'' \<mapsto>
                              take k (json_dumps a credentials)),
                   log := log w @
                     [(ERROR, ''Failed to create credentials file: '' @ exn_str e)]\<rparr>)"
    by (intro allI impI) (rule credentials_file_dump_fails)
  show "\<exists>w'. create_device_credentials_file a credentials w = (Inr (), w')"
    by (rule credentials_file_returns)
  show "\<exists>all_credentials w'.
      create_devices_from_list a self device_ids w = (Inr all_credentials, w') \<and>
      list_all (\<lambda>p. is_credential (snd p)) all_credentials"
    by (rule create_devices_from_list_credentials)
qed

lemma sim_failure_facts:
  "from_connection_string sim_api
     (''HostName='' @ hostname (sim_handler\<lparr>device_client := None\<rparr>) @ '';SharedAccessKeyName='' @
      shared_access_key_name (sim_handler\<lparr>device_client := None\<rparr>) @ '';SharedAccessKey='' @
      shared_access_key (sim_handler\<lparr>device_client := None\<rparr>))
     (env sim_world_down) = (Inl (Error ''Unauthorized''), env sim_world_down)"
  "client_get_device sim_api sim_handler ''b'' (sim_world [] [''b''] []) =
     (Inl (Error ''DeviceNotFound''),
      snd (client_get_device sim_api sim_handler ''b'' (sim_world [] [''b''] [])))"
  "client_create_device_with_sas sim_api sim_handler ''b'' NoneVal NoneVal ''enabled''
     ((snd (client_get_device sim_api sim_handler ''b'' (sim_world [] [''b''] [])))
        \<lparr>log := log (snd (client_get_device sim_api sim_handler ''b'' (sim_world [] [''b''] []))) @
                 [(INFO, ''Creating device '' @ quote ''b'' @ ''...'')]\<rparr>) =
     (Inl (Error ''Refused''),
      snd (client_create_device_with_sas sim_api sim_handler ''b'' NoneVal NoneVal ''enabled''
        ((snd (client_get_device sim_api sim_handler ''b'' (sim_world [] [''b''] [])))
          \<lparr>log := log (snd (client_get_device sim_api sim_handler ''b'' (sim_world [] [''b''] []))) @
                 [(INFO, ''Creating device '' @ quote ''b'' @ ''...'')]\<rparr>)))"
  "client_get_device sim_api sim_handler ''x''
     (sim_world [(''x'', Device ''x'' None ''enabled'')] [] []) =
     (Inr (Device ''x'' None ''enabled''),
      snd (client_get_device sim_api sim_handler ''x''
        (sim_world [(''x'', Device ''x'' None ''enabled'')] [] [])))"
  "client_get_device sim_api sim_handler ''x''
     ((snd (client_get_device sim_api sim_handler ''x''
        (sim_world [(''x'', Device ''x'' None ''enabled'')] [] [])))
       \<lparr>log := log (sim_world [(''x'', Device ''x'' None ''enabled'')] [] []) @
                [(INFO, ''Device '' @ quote ''x'' @ '' already exists.'')]\<rparr>) =
     (Inr (Device ''x'' None ''enabled''),
      snd (client_get_device sim_api sim_handler ''x''
        ((snd (client_get_device sim_api sim_handler ''x''
          (sim_world [(''x'', Device ''x'' None ''enabled'')] [] [])))
         \<lparr>log := log (sim_world [(''x'', Device ''x'' None ''enabled'')] [] []) @
                [(INFO, ''Device '' @ quote ''x'' @ '' already exists.'')]\<rparr>)))"
  "get_primary_key (Device ''x'' None ''enabled'') =
     Inl (AttributeError (quote ''NoneType'' @ '' object has no attribute '' @ quote ''symmetric_key''))"
  "file_write sim_api ''iothub_device_credential.json'' (json_dumps sim_api [])
     (env (sim_world [] [] [OpenFails (Error ''PermissionDenied'')])) =
     (OpenFails (Error ''PermissionDenied''), env (sim_world [] [] []))"
  by (simp_all add: model_defs monad_defs sim_defs sim_world_down_def prod_eq_iff)

text \<open>
  Claim C7 where the collaborators fail: the login is refused, the creation of \<open>b\<close> is
  refused after a failed lookup, the device \<open>x\<close> has no authentication to read a key
  from, the connection for \<open>a\<close> cannot be opened, and the disk refuses the write.
\<close>

theorem failures_are_caught_and_logged_witness:
  "fst (connect_hub sim_api (sim_handler\<lparr>device_client := None\<rparr>) sim_world_down) =
     Inr (sim_handler\<lparr>device_client := None\<rparr>) \<and>
   log (snd (connect_hub sim_api (sim_handler\<lparr>device_client := None\<rparr>) sim_world_down)) =
     [(ERROR, ''Failed to connect with IoTHub Registry: Unauthorized'')] \<and>
   fst (create_device sim_api sim_handler ''b'' (sim_world [] [''b''] [])) = Inr [] \<and>
   log (snd (create_device sim_api sim_handler ''b'' (sim_world [] [''b''] []))) =
     [(INFO, ''Creating device '' @ quote ''b'' @ ''...''),
      (ERROR, ''Error creating device '' @ quote ''b'' @ '': Refused'')] \<and>
   fst (create_device sim_api sim_handler ''x''
          (sim_world [(''x'', Device ''x'' None ''enabled'')] [] [])) = Inr [] \<and>
   log (snd (create_device sim_api sim_handler ''x''
          (sim_world [(''x'', Device ''x'' None ''enabled'')] [] []))) =
     [(INFO, ''Device '' @ quote ''x'' @ '' already exists.''),
      (ERROR, ''Error retrieving credentials for device '' @ quote ''x'' @ '': '' @
              quote ''NoneType'' @ '' object has no attribute '' @ quote ''symmetric_key'')] \<and>
   is_credential [(''hostname'', Str ''hub.example.net''), (''device_id'', Str ''a''),
                  (''shared_access_key'', Str ''key-a'')] \<and>
   fst (connect_device sim_api
          [(''hostname'', Str ''hub.example.net''), (''device_id'', Str ''a''),
           (''shared_access_key'', Str ''key-a'')]
          (sim_network [] [''HostName=hub.example.net;DeviceId=a;SharedAccessKey=key-a''] [])) = Inr () \<and>
   log (snd (connect_device sim_api
          [(''hostname'', Str ''hub.example.net''), (''device_id'', Str ''a''),
           (''shared_access_key'', Str ''key-a'')]
          (sim_network [] [''HostName=hub.example.net;DeviceId=a;SharedAccessKey=key-a''] []))) =
     [(ERROR, ''Failed to connect device a: ConnectionFailed'')] \<and>
   fst (create_device_credentials_file sim_api []
          (sim_world [] [] [OpenFails (Error ''PermissionDenied'')])) = Inr () \<and>
   log (snd (create_device_credentials_file sim_api []
          (sim_world [] [] [OpenFails (Error ''PermissionDenied'')]))) =
     [(ERROR, ''Failed to create credentials file: PermissionDenied'')]"
proof -
  let ?h0 = "sim_handler\<lparr>device_client := None\<rparr>"
  let ?c = "[(''hostname'', Str ''hub.example.net''), (''device_id'', Str ''a''),
             (''shared_access_key'', Str ''key-a'')]"
  let ?cs = "''HostName=hub.example.net;DeviceId=a;SharedAccessKey=key-a''"
  let ?wx = "sim_world [(''x'', Device ''x'' None ''enabled'')] [] []"
  let ?wx1 = "(snd (client_get_device sim_api sim_handler ''x'' ?wx))
       \<lparr>log := log ?wx @ [(INFO, ''Device '' @ quote ''x'' @ '' already exists.'')]\<rparr>"
  note T = failures_are_caught_and_logged
  note hub = T [where a = sim_api and self = ?h0 and w = sim_world_down,
      THEN conjunct1, rule_format, OF sim_failure_facts(1)]
  note refused = T [where a = sim_api and self = sim_handler and w = "sim_world [] [''b''] []"
      and device_id = "''b''",
      THEN conjunct2, THEN conjunct2, THEN conjunct1, rule_format,
      OF conjI [OF sim_failure_facts(2) sim_failure_facts(3)]]
  note found = T [where a = sim_api and self = sim_handler and w = ?wx and device_id = "''x''",
      THEN conjunct2, THEN conjunct2, THEN conjunct2, THEN conjunct2, THEN conjunct1,
      rule_format, OF sim_failure_facts(4)]
  note nokey = T [where a = sim_api and self = sim_handler and w = ?wx1 and device_id = "''x''",
      THEN conjunct2, THEN conjunct2, THEN conjunct2, THEN conjunct2, THEN conjunct2,
      THEN conjunct2, THEN conjunct1,
      rule_format, OF conjI [OF sim_failure_facts(5) sim_failure_facts(6)]]
  note offline = T [where a = sim_api and w = "sim_network [] [?cs] []"
      and device_credential = ?c and cs = ?cs and d = "Str ''a''",
      THEN conjunct2, THEN conjunct2, THEN conjunct2, THEN conjunct2, THEN conjunct2,
      THEN conjunct2, THEN conjunct2, THEN conjunct2, THEN conjunct2, THEN conjunct2,
      THEN conjunct1, THEN mp, OF conjI [OF sim_network_facts(2) sim_network_facts(3)],
      THEN conjunct2, THEN conjunct1, rule_format, OF sim_network_facts(5)]
  note disk = T [where a = sim_api and w = "sim_world [] [] [OpenFails (Error ''PermissionDenied'')]"
      and credentials = "[]",
      THEN conjunct2, THEN conjunct2, THEN conjunct2, THEN conjunct2, THEN conjunct2,
      THEN conjunct2, THEN conjunct2, THEN conjunct2, THEN conjunct2, THEN conjunct2,
      THEN conjunct2, THEN conjunct1, rule_format, OF sim_failure_facts(7)]
  have x: "create_device sim_api sim_handler ''x'' ?wx =
      (Inr [], (snd (client_get_device sim_api sim_handler ''x'' ?wx1))
         \<lparr>log := log ?wx1 @
            [(ERROR, ''Error retrieving credentials for device '' @ quote ''x'' @ '': '' @
                exn_str (AttributeError (quote ''NoneType'' @ '' object has no attribute '' @
                  quote ''symmetric_key'')))]\<rparr>)"
    by (simp only: found nokey)
  show ?thesis
    by (simp only: hub refused x offline disk fst_conv snd_conv)
       (simp add: sim_network_facts(1) sim_world_def sim_world_down_def sim_network_def quote_def)
qed

end
